(* ===== verification/Prelude.thy ===== *)
theory Prelude
  imports Complex_Main "HOL-Library.Word"
begin

text \<open>
  Shared vocabulary of the GenZ SDK development: the collections of facts the
  component theories feed to the simplifier, the names of the model's basic
  types, and generic lemmas on traces (lists of observable events paired with a
  result), on the JavaScript view of numbers and on 32-bit words that several
  components use.
\<close>

named_theorems trace_simps \<open>facts that push trace constructors through results\<close>
named_theorems guard_simps \<open>unfolded guards of the retry loops\<close>

type_synonym ms = nat
  \<comment> \<open>a delay in milliseconds, as passed to \<open>setTimeout\<close> or \<open>Task.Delay\<close>\<close>
type_synonym int32 = "32 word"
  \<comment> \<open>C\# \<open>int\<close>: arithmetic wraps (unchecked context), comparisons are signed\<close>

subsection \<open>Decimal printing\<close>

text \<open>
  How C\# string interpolation and JavaScript template literals print an
  integer: its decimal digits, with a leading minus sign when negative.
\<close>

fun show_nat :: "nat \<Rightarrow> string" where
  "show_nat n = (if n < 10 then [char_of (48 + n)] else show_nat (n div 10) @ [char_of (48 + n mod 10)])"

declare show_nat.simps [simp del]

definition show_int :: "int \<Rightarrow> string" where
  "show_int i = (if i < 0 then CHR ''-'' # show_nat (nat (- i)) else show_nat (nat i))"

subsection \<open>Results paired with traces\<close>

text \<open>
  A computation that talks to the outside world is modelled as a function that
  returns its result together with the list of events it caused, in order.
  \<open>prepend\<close> adds the events that happen before a sub-computation.
\<close>

definition prepend :: "'e list \<Rightarrow> 'r \<times> 'e list \<Rightarrow> 'r \<times> 'e list" where
  "prepend evs rt = (fst rt, evs @ snd rt)"

lemma prepend_fst [simp, trace_simps]: "fst (prepend evs rt) = fst rt"
  by (simp add: prepend_def)

lemma prepend_snd [simp, trace_simps]: "snd (prepend evs rt) = evs @ snd rt"
  by (simp add: prepend_def)

lemma prepend_Nil [simp, trace_simps]: "prepend [] rt = rt"
  by (simp add: prepend_def)

lemma prepend_prepend [simp, trace_simps]:
  "prepend xs (prepend ys rt) = prepend (xs @ ys) rt"
  by (simp add: prepend_def)

lemma prepend_Pair [simp, trace_simps]: "prepend evs (x, tr) = (x, evs @ tr)"
  by (simp add: prepend_def)

subsection \<open>Real-valued bounds of loops\<close>

text \<open>
  JavaScript numbers are modelled as reals. A loop \<open>for (a = 0; a <= m; a++)\<close>
  with a real bound \<open>m\<close> runs while \<open>real a \<le> m\<close>; these facts relate that guard to
  the natural number of iterations.
\<close>

lemma real_le_imp_less_nat_floor [guard_simps]:
  "real a \<le> m \<Longrightarrow> a < nat (\<lfloor>m\<rfloor> + 1)"
proof -
  assume "real a \<le> m"
  then have "int a \<le> \<lfloor>m\<rfloor>" by (simp add: le_floor_iff)
  then show ?thesis by linarith
qed

declare of_nat_le_iff [guard_simps] of_nat_less_iff [guard_simps]

subsection \<open>Sums of delays\<close>

lemma sum_list_le_bound:
  "\<forall>x \<in> set xs. x \<le> (b::nat) \<Longrightarrow> sum_list xs \<le> b * length xs"
  by (induction xs) auto

subsection \<open>32-bit words read as C\# ints\<close>

text \<open>
  \<open>sint\<close> reads an \<open>int32\<close> as the two's complement value C\# sees. Inside the
  signed range, converting an integer to a word and reading it back is the
  identity; these two facts carry every overflow argument of the C\# model.
\<close>

lemma sint_int32_of_int:
  "- (2 ^ 31) \<le> x \<Longrightarrow> x < 2 ^ 31 \<Longrightarrow> sint (word_of_int x :: int32) = x"
  by (simp add: int_word_sint)

lemma sint_int32_of_nat: "n < 2 ^ 31 \<Longrightarrow> sint (word_of_nat n :: int32) = int n"
  using sint_int32_of_int [of "int n"] by simp

end
