(* ===== verification/JsValues.thy ===== *)
theory JsValues
  imports Prelude
begin

text \<open>
  The JavaScript values the SDK handles: decoded JSON bodies (the result of
  \<open>JSON.parse\<close>), the JavaScript number type as far as the facade's amount checks
  observe it, and the property reads \<open>json?.message\<close> and \<open>v == null\<close> of
  \<open>src/sdk/js/src/index.ts\<close>. These are library semantics, not code of the
  repository: they are the vocabulary the SDK model is written in.
\<close>

subsection \<open>JSON values\<close>

datatype json =
    JNull
  | JBool bool
  | JNum real
  | JStr string
  | JArr "json list"
  | JObj "(string \<times> json) list"

text \<open>
  A property read on a parsed value. Only objects have the data properties the
  SDK reads (\<open>message\<close>); when a JSON text repeats a key, \<open>JSON.parse\<close> keeps the
  last occurrence, hence the lookup in the reversed list.
\<close>

fun json_get :: "json \<Rightarrow> string \<Rightarrow> json option" where
  "json_get (JObj kvs) k = map_of (rev kvs) k"
| "json_get _ k = None"

text \<open>
  \<open>v == null\<close> holds for \<open>undefined\<close> (here \<open>None\<close>) and for \<open>null\<close>; the
  operator \<open>??\<close> falls back on exactly these values.
\<close>

definition nullish :: "json option \<Rightarrow> bool" where
  "nullish v \<longleftrightarrow> v = None \<or> v = Some JNull"

definition nullish_or :: "json option \<Rightarrow> json \<Rightarrow> json" where
  "nullish_or v d = (if nullish v then d else the v)"

subsection \<open>Characters\<close>

definition is_digit :: "char \<Rightarrow> bool" where
  \<comment> \<open>\<open>\d\<close> of a regular expression without the \<open>u\<close> flag; the digits of \<open>parseInt\<close>\<close>
  "is_digit c \<longleftrightarrow> 48 \<le> (of_char c :: nat) \<and> (of_char c :: nat) \<le> 57"

subsection \<open>JavaScript numbers\<close>

text \<open>
  A JavaScript number is a double; the facade only asks whether it is finite
  (\<open>Number.isFinite\<close>) and how it compares with 0, so a finite number is kept as
  the real it denotes and the three non-finite values get constructors of
  their own. A comparison with \<open>NaN\<close> is false.
\<close>

datatype js_num = JsNum real | JsNaN | JsInfinity | JsNegInfinity

fun js_is_finite :: "js_num \<Rightarrow> bool" where
  "js_is_finite (JsNum _) = True"
| "js_is_finite _ = False"

fun js_le_zero :: "js_num \<Rightarrow> bool" where
  "js_le_zero (JsNum r) = (r \<le> 0)"
| "js_le_zero JsNaN = False"
| "js_le_zero JsInfinity = False"
| "js_le_zero JsNegInfinity = True"

fun js_num_json :: "js_num \<Rightarrow> json" where
  \<comment> \<open>\<open>JSON.stringify\<close> writes non-finite numbers as \<open>null\<close>\<close>
  "js_num_json (JsNum r) = JNum r"
| "js_num_json _ = JNull"

fun js_negate :: "js_num \<Rightarrow> js_num" where
  "js_negate (JsNum r) = JsNum (- r)"
| "js_negate JsNaN = JsNaN"
| "js_negate JsInfinity = JsNegInfinity"
| "js_negate JsNegInfinity = JsInfinity"

text \<open>
  The number a non-negative mathematical integer becomes (its Number value in
  ECMA-262): the nearest double, ties to an even significand, and \<open>Infinity\<close>
  once the rounded value reaches \<open>2 ^ 1024\<close>. A double has a 53-bit
  significand, so an integer with \<open>b > 53\<close> binary digits is rounded to a
  multiple of \<open>2 ^ (b - 53)\<close>.
\<close>

fun nat_bits :: "nat \<Rightarrow> nat" where
  "nat_bits n = (if n = 0 then 0 else Suc (nat_bits (n div 2)))"

definition round_half_even :: "nat \<Rightarrow> nat \<Rightarrow> nat" where
  \<comment> \<open>\<open>v\<close> rounded to the nearest multiple of \<open>2 ^ e\<close>, ties to an even quotient\<close>
  "round_half_even e v =
     (let q = v div 2 ^ e; r = v mod 2 ^ e; h = 2 ^ e div 2
      in (if h < r \<or> (r = h \<and> 0 < e \<and> odd q) then Suc q else q) * 2 ^ e)"

definition js_number_of_nat :: "nat \<Rightarrow> js_num" where
  "js_number_of_nat v =
     (let w = round_half_even (nat_bits v - 53) v in
      if 2 ^ 1024 \<le> w then JsInfinity else JsNum (real w))"

subsection \<open>Lemmas\<close>

lemma nullish_simps [simp]:
  "nullish None" "nullish (Some JNull)" "v \<noteq> JNull \<Longrightarrow> \<not> nullish (Some v)"
  by (auto simp: nullish_def)

lemma js_amount_ok_iff [simp]:
  "(js_is_finite x \<and> \<not> js_le_zero x) \<longleftrightarrow> (\<exists>r. x = JsNum r \<and> 0 < r)"
  by (cases x) auto

declare nat_bits.simps [simp del]

lemma nat_bits_le_iff: "nat_bits v \<le> k \<longleftrightarrow> v < 2 ^ k"
proof (induction v arbitrary: k rule: nat_bits.induct)
  case (1 n)
  show ?case
  proof (cases "n = 0")
    case True
    then show ?thesis by (simp add: nat_bits.simps)
  next
    case False
    then show ?thesis
    proof (cases k)
      case 0
      then show ?thesis using False by (simp add: nat_bits.simps)
    next
      case (Suc k')
      then show ?thesis using False "1.IH" [OF False, of k'] by (simp add: nat_bits.simps) linarith
    qed
  qed
qed

lemma js_number_of_nat_exact:
  assumes "v \<le> 2 ^ 53"
  shows "js_number_of_nat v = JsNum (real v)"
proof (cases "v < 2 ^ 53")
  case True
  then have "nat_bits v - 53 = 0" using nat_bits_le_iff [of v 53] by simp
  then show ?thesis using True by (simp add: js_number_of_nat_def round_half_even_def)
next
  case False
  then have "v = 2 ^ 53" using assms by simp
  moreover have "nat_bits (2 ^ 53) = 54"
    using nat_bits_le_iff [of "2 ^ 53" 54] nat_bits_le_iff [of "2 ^ 53" 53] by simp
  ultimately show ?thesis by (simp add: js_number_of_nat_def round_half_even_def)
qed

end
