(* ===== verification/Backoff.thy ===== *)
theory Backoff
  imports Prelude
begin

text \<open>
  The backoff schedule between retries, as each SDK computes it.
  \<^item> \<open>backoffMs\<close> is \<open>HttpClient.backoffMs\<close> of \<open>src/sdk/js/src/index.ts\<close>: a
    JavaScript number computation, exact here because \<open>Math.min\<close> caps it at 3000
    long before doubles lose integer precision. The jitter
    \<open>Math.floor(Math.random() * 200)\<close> is a parameter; every draw is below 200.
  \<^item> \<open>BackoffMs\<close> is \<open>GenZSDK.BackoffMs\<close> of \<open>src/sdk/unity/GenZSDK.cs\<close>: C\#
    \<open>int\<close> arithmetic, which wraps on overflow, with the jitter
    \<open>UnityEngine.Random.Range(0, 200)\<close> (the integer overload excludes 200).
    \<open>(int)Math.Pow(2, attempt)\<close> is exact up to \<open>attempt = 30\<close>; beyond, the
    double is out of the range of \<open>int\<close> and C\# leaves the conversion's result
    unspecified, which the model records as \<open>None\<close>.
\<close>

subsection \<open>JavaScript SDK\<close>

definition backoffMs :: "nat \<Rightarrow> nat \<Rightarrow> ms" where
  "backoffMs attempt jitter = min 3000 (300 * 2 ^ attempt + jitter)"

subsection \<open>Unity SDK\<close>

definition pow2_to_int :: "nat \<Rightarrow> int32 option" where
  \<comment> \<open>\<open>(int)Math.Pow(2, attempt)\<close>: defined while \<open>2 ^ attempt \<le> int.MaxValue\<close>\<close>
  "pow2_to_int attempt = (if attempt \<le> 30 then Some (2 ^ attempt) else None)"

definition BackoffMs :: "nat \<Rightarrow> nat \<Rightarrow> int32 option" where
  "BackoffMs attempt jitter =
     map_option
       (\<lambda>p. let baseMs = 300 * p; v = baseMs + word_of_nat jitter
            in if sint (3000 :: int32) \<le> sint v then 3000 else v)
       (pow2_to_int attempt)"

subsection \<open>Helper facts\<close>

lemma BackoffMs_Some:
  "attempt \<le> 30 \<Longrightarrow>
   BackoffMs attempt j =
     Some (let v = word_of_nat (300 * 2 ^ attempt + j) :: int32
           in if 3000 \<le> sint v then 3000 else v)"
  by (simp add: BackoffMs_def pow2_to_int_def)

lemma int_le_base_plus_jitter:
  "((c::int) \<le> 300 * 2 ^ a + int j) \<longleftrightarrow> (nat c \<le> 300 * 2 ^ a + j)"
proof -
  have "int (300 * 2 ^ a + j) = 300 * 2 ^ a + int j" by simp
  then show ?thesis by linarith
qed

lemma backoffMs_le_cap [simp]: "backoffMs attempt j \<le> 3000"
  by (simp add: backoffMs_def)

lemma BackoffMs_small:
  assumes "attempt \<le> 22" and "jitter < 200"
  shows "\<exists>d. BackoffMs attempt jitter = Some d \<and> sint d = int (backoffMs attempt jitter)"
proof -
  have "(2::nat) ^ attempt \<le> 2 ^ 22" using assms(1) by (intro power_increasing) simp_all
  then have b: "300 * 2 ^ attempt + jitter < (2::nat) ^ 31" using assms(2) by simp
  have s: "sint (300 * 2 ^ attempt + word_of_nat jitter :: int32) = 300 * 2 ^ attempt + int jitter"
    using sint_int32_of_nat [OF b] by simp
  show ?thesis
    using assms(1)
    by (simp add: BackoffMs_Some Let_def s backoffMs_def min_def int_le_base_plus_jitter)
qed

lemma BackoffMs_23:
  assumes "jitter < 200"
  shows "BackoffMs 23 jitter = Some (2516582400 + word_of_nat jitter) \<and>
         sint (2516582400 + word_of_nat jitter :: int32) = int jitter - 1778384896"
proof -
  have e: "(2516582400 + word_of_nat jitter :: int32) = word_of_int (int jitter - 1778384896)"
    by simp
  have s: "sint (2516582400 + word_of_nat jitter :: int32) = int jitter - 1778384896"
    unfolding e using assms by (intro sint_int32_of_int) simp_all
  show ?thesis using assms by (simp add: BackoffMs_Some Let_def s)
qed

lemma BackoffMs_never_minus_one:
  assumes "jitter < 200"
  shows "BackoffMs attempt jitter \<noteq> Some (-1)"
proof
  assume eq: "BackoffMs attempt jitter = Some (-1)"
  then have a: "attempt \<le> 30" by (simp add: BackoffMs_def pow2_to_int_def split: if_splits)
  define N where "N = 300 * 2 ^ attempt + jitter"
  have "(word_of_nat N :: int32) = -1"
    using eq a by (simp add: BackoffMs_Some Let_def N_def split: if_splits)
  then have "unat (word_of_nat N :: int32) = unat (-1 :: int32)" by simp
  then have m: "N mod 2 ^ 32 = 2 ^ 32 - 1" by (simp add: unat_of_nat unsigned_minus_1_eq_mask mask_eq_exp_minus_1)
  show False
  proof (cases "attempt < 8")
    case True
    then have "(2::nat) ^ attempt \<le> 2 ^ 7" by (intro power_increasing) simp_all
    then have "N < 2 ^ 32 - 1" using assms by (simp add: N_def)
    then show False using m by simp
  next
    case False
    then have "(256::nat) dvd 2 ^ attempt"
      using le_imp_power_dvd [of 8 attempt "2::nat"] by simp
    then obtain k :: nat where "2 ^ attempt = 256 * k" by (auto elim: dvdE)
    then have "N = jitter + 256 * (300 * k)" by (simp add: N_def)
    then have "N mod 256 = jitter mod 256" by (simp only: mod_mult_self2)
    then have "N mod 256 = jitter" using assms by simp
    moreover have "N mod 2 ^ 32 mod 256 = N mod 256"
      by (rule mod_mod_cancel) simp
    ultimately show False using m assms by simp
  qed
qed

subsection \<open>Properties of the schedule\<close>

text \<open>
  (C15) Every delay of the JavaScript SDK lies between the capped base
  \<open>min 3000 (300 * 2 ^ i)\<close> and \<open>300 * 2 ^ i + 200\<close>, and never exceeds 3000 ms.
\<close>

theorem backoffMs_bounds:
  assumes "jitter < 200"
  shows "backoffMs i jitter \<le> 3000 \<and> min 3000 (300 * 2 ^ i) \<le> backoffMs i jitter
         \<and> backoffMs i jitter < 300 * 2 ^ i + 200"
  using assms by (auto simp: backoffMs_def)

theorem backoffMs_bounds_witness:
  "(7::nat) < 200 \<and> backoffMs 2 7 \<le> 3000 \<and> min 3000 (300 * 2 ^ 2) \<le> backoffMs 2 7
   \<and> backoffMs 2 7 < 300 * 2 ^ 2 + 200"
  using backoffMs_bounds [of 7 2] by simp

text \<open>
  From the fifth attempt on the cap decides: the delay is exactly 3000 ms
  whatever the jitter, so the spec's interval \<open>[300 * 2 ^ i, 300 * 2 ^ i + 200]\<close>
  is empty of actual delays for \<open>i \<ge> 4\<close>.
\<close>

theorem backoffMs_capped:
  assumes "4 \<le> i"
  shows "backoffMs i jitter = 3000 \<and> backoffMs i jitter < 300 * 2 ^ i"
proof -
  have "(2::nat) ^ 4 \<le> 2 ^ i" using assms by (intro power_increasing) simp_all
  then show ?thesis by (simp add: backoffMs_def)
qed

theorem backoffMs_capped_witness:
  "4 \<le> (5::nat) \<and> backoffMs 5 150 = 3000 \<and> backoffMs 5 150 < 300 * 2 ^ 5"
  using backoffMs_capped [of 5 150] by simp

text \<open>
  (C16) For every attempt up to 22 the two SDKs compute the same delay: the
  Unity SDK's 32-bit arithmetic does not overflow there.
\<close>

theorem BackoffMs_eq_backoffMs:
  assumes "attempt \<le> 22" and "jitter < 200"
  shows "map_option sint (BackoffMs attempt jitter) = Some (int (backoffMs attempt jitter))"
  using BackoffMs_small [OF assms] by auto

theorem BackoffMs_eq_backoffMs_witness:
  "(3::nat) \<le> 22 \<and> (150::nat) < 200 \<and> map_option sint (BackoffMs 3 150) = Some (int (backoffMs 3 150))"
  using BackoffMs_eq_backoffMs [of 3 150] by simp

text \<open>
  At attempt 23 the Unity SDK's \<open>300 * (int)Math.Pow(2, attempt)\<close> wraps
  around to a negative \<open>int\<close>, \<open>Math.Min(3000, \<dots>)\<close> keeps it, and the delay
  handed to \<open>Task.Delay\<close> is below -1, which \<open>Task.Delay\<close> rejects with an
  \<open>ArgumentOutOfRangeException\<close>.
\<close>

theorem BackoffMs_overflow_23:
  assumes "jitter < 200"
  shows "\<exists>v. BackoffMs 23 jitter = Some v \<and> sint v < -1"
  using BackoffMs_23 [OF assms] assms by auto

theorem BackoffMs_overflow_23_witness:
  "(0::nat) < 200 \<and> (\<exists>v. BackoffMs 23 0 = Some v \<and> sint v < -1)"
  using BackoffMs_overflow_23 [of 0] by simp

end
