(* ===== verification/RetryPolicy.thy ===== *)
theory RetryPolicy
  imports Prelude
begin

text \<open>
  The abstract contract of one logical call of the resilient request client,
  as the specification states it (section 4.1): a state machine
  \<open>ATTEMPT(n) \<rightarrow> SUCCESS | TERMINAL_FAILURE | RETRY \<rightarrow> ATTEMPT(n+1)\<close> whose
  decision after each attempt depends only on how the attempt ended and on
  whether retries remain. The concrete clients (\<open>JsClient\<close>, \<open>CsClient\<close>) are
  related to it by refinement lemmas; the invariant proved here (at most
  \<open>maxRetries + 1\<close> attempts) then holds for them too.
\<close>

datatype attempt_class =
    AOk              \<comment> \<open>a status in [200, 300) and a decodable body\<close>
  | AHttpFail int    \<comment> \<open>any other status, with a decodable body\<close>
  | ATransportFail   \<comment> \<open>timeout, abort, connection failure, undecodable body\<close>

datatype verdict = VSuccess | VTerminal | VRetry

text \<open>The decision rules of section 4.1, in the order the spec evaluates them.\<close>

definition decide :: "nat \<Rightarrow> nat \<Rightarrow> attempt_class \<Rightarrow> verdict" where
  "decide k n c =
     (case c of
        AOk \<Rightarrow> VSuccess
      | AHttpFail st \<Rightarrow> if 500 \<le> st \<and> n < k then VRetry else VTerminal
      | ATransportFail \<Rightarrow> if n < k then VRetry else VTerminal)"

datatype pstate =
    Attempting nat   \<comment> \<open>about to make attempt \<open>n\<close> (zero-based)\<close>
  | Succeeded nat    \<comment> \<open>finished with success after \<open>m\<close> attempts\<close>
  | Failed nat       \<comment> \<open>finished with a terminal failure after \<open>m\<close> attempts\<close>

inductive policy_step :: "nat \<Rightarrow> (nat \<Rightarrow> attempt_class) \<Rightarrow> pstate \<Rightarrow> pstate \<Rightarrow> bool"
  for k :: nat and cls :: "nat \<Rightarrow> attempt_class" where
  succeed: "decide k n (cls n) = VSuccess \<Longrightarrow> policy_step k cls (Attempting n) (Succeeded (Suc n))"
| fail: "decide k n (cls n) = VTerminal \<Longrightarrow> policy_step k cls (Attempting n) (Failed (Suc n))"
| retry: "decide k n (cls n) = VRetry \<Longrightarrow> policy_step k cls (Attempting n) (Attempting (Suc n))"

inductive policy_reach :: "nat \<Rightarrow> (nat \<Rightarrow> attempt_class) \<Rightarrow> pstate \<Rightarrow> bool"
  for k :: nat and cls :: "nat \<Rightarrow> attempt_class" where
  start: "policy_reach k cls (Attempting 0)"
| step: "policy_reach k cls s \<Longrightarrow> policy_step k cls s t \<Longrightarrow> policy_reach k cls t"

inductive_cases policy_step_AttemptingE: "policy_step k cls (Attempting n) t"
inductive_cases policy_step_SucceededE [elim!]: "policy_step k cls (Succeeded m) t"
inductive_cases policy_step_FailedE [elim!]: "policy_step k cls (Failed m) t"

text \<open>The deterministic run of the machine, as a function.\<close>

function policy_run :: "nat \<Rightarrow> (nat \<Rightarrow> attempt_class) \<Rightarrow> nat \<Rightarrow> pstate" where
  "policy_run k cls n =
     (case decide k n (cls n) of
        VSuccess \<Rightarrow> Succeeded (Suc n)
      | VTerminal \<Rightarrow> Failed (Suc n)
      | VRetry \<Rightarrow> policy_run k cls (Suc n))"
  by pat_completeness auto

termination
  by (relation "measure (\<lambda>(k, cls, n). k - n)")
     (auto simp: decide_def split: attempt_class.splits if_splits)

definition policy_inv :: "nat \<Rightarrow> pstate \<Rightarrow> bool" where
  "policy_inv k s =
     (case s of
        Attempting n \<Rightarrow> n \<le> k
      | Succeeded m \<Rightarrow> 1 \<le> m \<and> m \<le> Suc k
      | Failed m \<Rightarrow> 1 \<le> m \<and> m \<le> Suc k)"


subsection \<open>Facts about the abstract machine\<close>

declare policy_run.simps [simp del]

lemma decide_retry_less: "decide k n c = VRetry \<Longrightarrow> n < k"
  by (auto simp: decide_def split: attempt_class.splits if_splits)


lemma policy_step_inv: "policy_step k cls s t \<Longrightarrow> policy_inv k s \<Longrightarrow> policy_inv k t"
  by (induction rule: policy_step.induct) (auto simp: policy_inv_def dest: decide_retry_less)

lemma policy_reach_inv: "policy_reach k cls s \<Longrightarrow> policy_inv k s"
proof (induction rule: policy_reach.induct)
  case start
  show ?case by (simp add: policy_inv_def)
next
  case (step s t)
  then show ?case by (blast intro: policy_step_inv)
qed

lemma policy_step_deterministic:
  "policy_step k cls s t \<Longrightarrow> policy_step k cls s u \<Longrightarrow> t = u"
  by (induction rule: policy_step.induct) (auto elim: policy_step_AttemptingE)

lemma policy_run_reach:
  "policy_reach k cls (Attempting n) \<Longrightarrow> policy_reach k cls (policy_run k cls n)"
proof (induction k cls n rule: policy_run.induct)
  case (1 k cls n)
  show ?case
  proof (cases "decide k n (cls n)")
    case VSuccess
    with "1.prems" show ?thesis
      by (simp add: policy_run.simps [of k cls n]) (blast intro: policy_reach.step policy_step.succeed)
  next
    case VTerminal
    with "1.prems" show ?thesis
      by (simp add: policy_run.simps [of k cls n]) (blast intro: policy_reach.step policy_step.fail)
  next
    case VRetry
    with "1.prems" have "policy_reach k cls (Attempting (Suc n))"
      by (blast intro: policy_reach.step policy_step.retry)
    with VRetry "1.IH" show ?thesis by (simp add: policy_run.simps [of k cls n])
  qed
qed

text \<open>
  The spec's bound on attempts: in every reachable state the attempt index
  never exceeds \<open>maxRetries\<close>, and a finished call made between 1 and
  \<open>maxRetries + 1\<close> attempts.
\<close>

lemma policy_attempts_bounded:
  assumes "policy_reach k cls s"
  shows "(\<forall>n. s = Attempting n \<longrightarrow> n \<le> k) \<and>
         (\<forall>m. s = Succeeded m \<or> s = Failed m \<longrightarrow> 1 \<le> m \<and> m \<le> Suc k)"
  using policy_reach_inv [OF assms] by (auto simp: policy_inv_def)

end
