(* ===== verification/JsClient.thy ===== *)
theory JsClient
  imports JsValues Backoff RetryPolicy
begin

text \<open>
  The resilient request client of the JavaScript SDK: \<open>HttpClient\<close> of
  \<open>src/sdk/js/src/index.ts\<close> (lines 1--92). The transport is the environment:
  for each attempt it says how \<open>fetch\<close> and \<open>res.text()\<close> settle, and it supplies
  the jitter draw of each retry decision. A call returns its result (the thrown
  error or the decoded body) and the trace of its observable effects: timers
  armed and cleared, requests sent, backoff sleeps.
\<close>

subsection \<open>Configuration\<close>

datatype http_method = GET | POST

record sdk_options =
  opt_baseUrl :: string
  opt_apiKey :: "string option"
  opt_timeoutMs :: "real option"
  opt_maxRetries :: "real option"

record http_client =
  baseUrl :: string
  apiKey :: "string option"
  timeoutMs :: real
  maxRetries :: real

definition strip_trailing_slash :: "string \<Rightarrow> string" where
  \<comment> \<open>\<open>s.replace(/\/$/, '')\<close>: one slash at the very end is removed\<close>
  "strip_trailing_slash s = (if s \<noteq> [] \<and> last s = CHR ''/'' then butlast s else s)"

definition new_HttpClient :: "sdk_options \<Rightarrow> http_client" where
  "new_HttpClient opts =
     \<lparr>baseUrl = strip_trailing_slash (opt_baseUrl opts),
      apiKey = opt_apiKey opts,
      timeoutMs = (case opt_timeoutMs opts of None \<Rightarrow> 10000 | Some t \<Rightarrow> t),
      maxRetries = max 0 (case opt_maxRetries opts of None \<Rightarrow> 2 | Some m \<Rightarrow> m)\<rparr>"

subsection \<open>Requests, errors, the transport\<close>

record http_request =
  req_method :: http_method
  req_url :: string
  req_headers :: "(string \<times> string) list"
  req_body :: "json option"

definition request_headers :: "string option \<Rightarrow> (string \<times> string) list" where
  "request_headers key =
     (''Content-Type'', ''application/json'') #
     (case key of
        Some k \<Rightarrow> if k \<noteq> [] then [(''Authorization'', ''Bearer '' @ k)] else []
      | None \<Rightarrow> [])"

definition request_payload :: "json option \<Rightarrow> json option" where
  \<comment> \<open>\<open>body == null ? undefined : JSON.stringify(body)\<close>, the text kept as its value\<close>
  "request_payload body = (if nullish body then None else body)"

datatype exn = Exn (exn_name: string) (exn_code: "string option")

definition SyntaxError :: exn where
  "SyntaxError = Exn ''SyntaxError'' None"

datatype err_msg = ServerMessage json | StatusMessage int

datatype js_error =
    HttpError err_msg int "json option"   \<comment> \<open>\<open>new HttpError(message, status, body)\<close>\<close>
  | Thrown exn                            \<comment> \<open>an error of the transport or of \<open>JSON.parse\<close>\<close>
  | RequestFailed                         \<comment> \<open>\<open>new Error('Request failed')\<close>\<close>

fun err_name :: "js_error \<Rightarrow> string" where
  "err_name (HttpError _ _ _) = ''HttpError''"
| "err_name (Thrown e) = exn_name e"
| "err_name RequestFailed = ''Error''"

fun err_code :: "js_error \<Rightarrow> string option" where
  "err_code (Thrown e) = exn_code e"
| "err_code _ = None"

definition isAbort :: "js_error \<Rightarrow> bool" where
  "isAbort err \<longleftrightarrow> err_name err = ''AbortError''"

definition isNetwork :: "js_error \<Rightarrow> bool" where
  "isNetwork err \<longleftrightarrow>
     err_code err = Some ''ECONNRESET'' \<or> err_code err = Some ''ENOTFOUND'' \<or> err_name err = ''TypeError''"

definition http_error_of :: "int \<Rightarrow> json option \<Rightarrow> js_error" where
  \<comment> \<open>\<open>new HttpError(json?.message ?? `HTTP ${res.status}`, res.status, json)\<close>\<close>
  "http_error_of st json =
     (let m = (case json of None \<Rightarrow> None | Some v \<Rightarrow> json_get v ''message'')
      in HttpError (if nullish m then StatusMessage st else ServerMessage (the m)) st json)"

definition res_ok :: "int \<Rightarrow> bool" where
  "res_ok st \<longleftrightarrow> 200 \<le> st \<and> st \<le> 299"

text \<open>
  The body text of a response is kept by what \<open>JSON.parse\<close> makes of it: empty,
  the JSON value it denotes, or not JSON at all.
\<close>

datatype body_text = EmptyText | JsonText json | MalformedText

datatype fetch_outcome =
    Responds int body_text    \<comment> \<open>\<open>fetch\<close> resolves with this status, \<open>res.text()\<close> with this text\<close>
  | BodyFails int exn         \<comment> \<open>\<open>fetch\<close> resolves, \<open>res.text()\<close> rejects\<close>
  | FetchFails exn            \<comment> \<open>\<open>fetch\<close> rejects (abort by the timer, DNS, reset, \<dots>)\<close>

record js_env =
  fetch_at :: "nat \<Rightarrow> fetch_outcome"   \<comment> \<open>how attempt \<open>n\<close> settles\<close>
  jitter_at :: "nat \<Rightarrow> nat"            \<comment> \<open>\<open>Math.floor(Math.random() * 200)\<close> after attempt \<open>n\<close>\<close>

fun parse_body :: "body_text \<Rightarrow> js_error + json option" where
  \<comment> \<open>\<open>text ? JSON.parse(text) : undefined\<close>\<close>
  "parse_body EmptyText = Inr None"
| "parse_body (JsonText j) = Inr (Some j)"
| "parse_body MalformedText = Inl (Thrown SyntaxError)"

datatype js_event =
    ArmTimer nat real           \<comment> \<open>\<open>setTimeout(() => controller.abort(), timeoutMs)\<close> of attempt \<open>n\<close>\<close>
  | Fetch nat http_request      \<comment> \<open>\<open>fetch(url, ...)\<close> of attempt \<open>n\<close>\<close>
  | ClearTimer nat              \<comment> \<open>\<open>clearTimeout(timeout)\<close> of attempt \<open>n\<close>\<close>
  | Sleep ms                    \<comment> \<open>\<open>await this.sleep(ms)\<close>\<close>

type_synonym js_result = "js_error + json option"

datatype loop_exit = Done js_result | Continue "js_error option"

subsection \<open>The retry loop\<close>

text \<open>
  One pass of the \<open>for\<close> loop's body: \<open>Done\<close> for a \<open>return\<close> or a \<open>throw\<close>,
  \<open>Continue\<close> with the new \<open>lastErr\<close> for a \<open>continue\<close>. The \<open>catch\<close> clause is a
  function of the error it catches.
\<close>

definition catch_clause :: "http_client \<Rightarrow> js_env \<Rightarrow> nat \<Rightarrow> js_error \<Rightarrow> loop_exit \<times> js_event list" where
  "catch_clause c env attempt err =
     (if (isAbort err \<or> isNetwork err) \<and> real attempt < maxRetries c
      then (Continue (Some err), [ClearTimer attempt, Sleep (backoffMs attempt (jitter_at env attempt))])
      else (Done (Inl err), [ClearTimer attempt]))"

definition loop_body ::
  "http_client \<Rightarrow> js_env \<Rightarrow> http_request \<Rightarrow> js_error option \<Rightarrow> nat \<Rightarrow> loop_exit \<times> js_event list" where
  "loop_body c env rq lastErr attempt =
     prepend [ArmTimer attempt (timeoutMs c), Fetch attempt rq]
       (case fetch_at env attempt of
          FetchFails e \<Rightarrow> catch_clause c env attempt (Thrown e)
        | BodyFails st e \<Rightarrow> prepend [ClearTimer attempt] (catch_clause c env attempt (Thrown e))
        | Responds st bt \<Rightarrow> prepend [ClearTimer attempt]
            (case parse_body bt of
               Inl err \<Rightarrow> catch_clause c env attempt err
             | Inr json \<Rightarrow>
                 if \<not> res_ok st then
                   (if 500 \<le> st \<and> real attempt < maxRetries c
                    then (Continue lastErr, [Sleep (backoffMs attempt (jitter_at env attempt))])
                    else catch_clause c env attempt (http_error_of st json))
                 else (Done (Inr json), [])))"

function request_loop ::
  "http_client \<Rightarrow> js_env \<Rightarrow> http_request \<Rightarrow> js_error option \<Rightarrow> nat \<Rightarrow> js_result \<times> js_event list" where
  "request_loop c env rq lastErr attempt =
     (if real attempt \<le> maxRetries c then
        (case loop_body c env rq lastErr attempt of
           (Done r, evs) \<Rightarrow> (r, evs)
         | (Continue l, evs) \<Rightarrow> prepend evs (request_loop c env rq l (Suc attempt)))
      else (Inl (case lastErr of Some e \<Rightarrow> e | None \<Rightarrow> RequestFailed), []))"
  by pat_completeness auto
termination
  by (relation "measure (\<lambda>(c, env, rq, l, a). nat (\<lfloor>maxRetries c\<rfloor> + 1) - a)")
     (auto dest: real_le_imp_less_nat_floor)

declare request_loop.simps [simp del]

definition request ::
  "http_client \<Rightarrow> js_env \<Rightarrow> http_method \<Rightarrow> string \<Rightarrow> json option \<Rightarrow> js_result \<times> js_event list" where
  "request c env method path body =
     request_loop c env
       \<lparr>req_method = method, req_url = baseUrl c @ path,
        req_headers = request_headers (apiKey c), req_body = request_payload body\<rparr>
       None 0"

subsection \<open>Observations of a call\<close>

text \<open>
  What a test double around \<open>fetch\<close> and the timers would observe: the indices of
  the attempts made, the delays slept, and whether the timers were used as the
  spec demands (no request without its own armed timer, no timer left armed
  across a sleep or at the end of the call).
\<close>

fun attempts :: "js_event list \<Rightarrow> nat list" where
  "attempts [] = []"
| "attempts (Fetch a _ # tr) = a # attempts tr"
| "attempts (_ # tr) = attempts tr"

fun fetched :: "js_event list \<Rightarrow> http_request list" where
  "fetched [] = []"
| "fetched (Fetch a r # tr) = r # fetched tr"
| "fetched (_ # tr) = fetched tr"

fun sleeps :: "js_event list \<Rightarrow> ms list" where
  "sleeps [] = []"
| "sleeps (Sleep d # tr) = d # sleeps tr"
| "sleeps (_ # tr) = sleeps tr"

fun timers_ok :: "nat option \<Rightarrow> js_event list \<Rightarrow> bool" where
  "timers_ok p [] \<longleftrightarrow> p = None"
| "timers_ok p (ArmTimer a t # tr) \<longleftrightarrow> p = None \<and> timers_ok (Some a) tr"
| "timers_ok p (Fetch a r # tr) \<longleftrightarrow> p = Some a \<and> timers_ok p tr"
| "timers_ok p (ClearTimer a # tr) \<longleftrightarrow> (p = None \<or> p = Some a) \<and> timers_ok None tr"
| "timers_ok p (Sleep d # tr) \<longleftrightarrow> p = None \<and> timers_ok p tr"

definition attempt_succeeds :: "js_env \<Rightarrow> nat \<Rightarrow> json option \<Rightarrow> bool" where
  "attempt_succeeds env a j =
     (case fetch_at env a of Responds st bt \<Rightarrow> res_ok st \<and> parse_body bt = Inr j | _ \<Rightarrow> False)"

subsection \<open>Abstraction to the retry policy\<close>

text \<open>
  How one attempt's outcome appears to the abstract policy of \<open>RetryPolicy\<close>, and
  which outcomes the code's \<open>catch\<close> clause recognises as retryable
  (\<open>isAbort || isNetwork\<close>, or a body that \<open>JSON.parse\<close> accepts).
\<close>

definition classify :: "fetch_outcome \<Rightarrow> attempt_class" where
  "classify out =
     (case out of
        Responds st bt \<Rightarrow>
          (case parse_body bt of
             Inl _ \<Rightarrow> ATransportFail
           | Inr _ \<Rightarrow> if res_ok st then AOk else AHttpFail st)
      | _ \<Rightarrow> ATransportFail)"

definition recognised :: "fetch_outcome \<Rightarrow> bool" where
  "recognised out =
     (case out of
        FetchFails e \<Rightarrow> isAbort (Thrown e) \<or> isNetwork (Thrown e)
      | BodyFails st e \<Rightarrow> isAbort (Thrown e) \<or> isNetwork (Thrown e)
      | Responds st bt \<Rightarrow> bt \<noteq> MalformedText)"

fun exit_verdict :: "loop_exit \<Rightarrow> verdict" where
  "exit_verdict (Done (Inr _)) = VSuccess"
| "exit_verdict (Done (Inl _)) = VTerminal"
| "exit_verdict (Continue _) = VRetry"

definition abs_call :: "nat \<Rightarrow> js_result \<times> js_event list \<Rightarrow> pstate" where
  "abs_call a rt =
     (case fst rt of
        Inr _ \<Rightarrow> Succeeded (a + length (attempts (snd rt)))
      | Inl _ \<Rightarrow> Failed (a + length (attempts (snd rt))))"

subsection \<open>Lemmas on one pass of the loop body\<close>

lemma attempts_append [simp]: "attempts (xs @ ys) = attempts xs @ attempts ys"
  by (induction xs rule: attempts.induct) auto

lemma fetched_append [simp]: "fetched (xs @ ys) = fetched xs @ fetched ys"
  by (induction xs rule: fetched.induct) auto

lemma sleeps_append [simp]: "sleeps (xs @ ys) = sleeps xs @ sleeps ys"
  by (induction xs rule: sleeps.induct) auto

lemmas body_defs = loop_body_def catch_clause_def

lemma body_attempts [simp]: "attempts (snd (loop_body c env rq l a)) = [a]"
  by (simp add: body_defs split: fetch_outcome.split sum.split)

lemma body_fetched [simp]: "fetched (snd (loop_body c env rq l a)) = [rq]"
  by (simp add: body_defs split: fetch_outcome.split sum.split)

lemma body_continue_guard:
  "fst (loop_body c env rq l a) = Continue l' \<Longrightarrow> real a < maxRetries c"
  by (auto simp: body_defs split: fetch_outcome.splits sum.splits if_splits)

lemma body_sleeps:
  "sleeps (snd (loop_body c env rq l a)) =
     (case fst (loop_body c env rq l a) of Continue _ \<Rightarrow> [backoffMs a (jitter_at env a)] | Done _ \<Rightarrow> [])"
  by (simp add: body_defs split: fetch_outcome.split sum.split)

lemma body_timers:
  "timers_ok None (snd (loop_body c env rq l a) @ tr) \<longleftrightarrow> timers_ok None tr"
  by (simp add: body_defs split: fetch_outcome.split sum.split)

subsection \<open>Unfolding the loop, and its induction rule\<close>

lemma request_loop_stop:
  "\<not> real a \<le> maxRetries c \<Longrightarrow>
   request_loop c env rq l a = (Inl (case l of Some e \<Rightarrow> e | None \<Rightarrow> RequestFailed), [])"
  by (simp add: request_loop.simps [of c env rq l a])

lemma request_loop_done:
  "real a \<le> maxRetries c \<Longrightarrow> loop_body c env rq l a = (Done r, evs) \<Longrightarrow>
   request_loop c env rq l a = (r, evs)"
  by (simp add: request_loop.simps [of c env rq l a])

lemma request_loop_continue:
  "real a \<le> maxRetries c \<Longrightarrow> loop_body c env rq l a = (Continue l', evs) \<Longrightarrow>
   request_loop c env rq l a = prepend evs (request_loop c env rq l' (Suc a))"
  by (simp add: request_loop.simps [of c env rq l a])

lemma loop_induct [case_names stop finish continue]:
  assumes stop: "\<And>l a. \<not> real a \<le> maxRetries c \<Longrightarrow> P l a"
    and finish: "\<And>l a r evs. real a \<le> maxRetries c \<Longrightarrow> loop_body c env rq l a = (Done r, evs) \<Longrightarrow> P l a"
    and continue: "\<And>l a l' evs. real a \<le> maxRetries c \<Longrightarrow> loop_body c env rq l a = (Continue l', evs) \<Longrightarrow>
                     P l' (Suc a) \<Longrightarrow> P l a"
  shows "P l a"
proof (induction "nat (\<lfloor>maxRetries c\<rfloor> + 1) - a" arbitrary: l a rule: less_induct)
  case less
  show ?case
  proof (cases "real a \<le> maxRetries c")
    case False
    then show ?thesis by (rule stop)
  next
    case True
    obtain ex evs where b: "loop_body c env rq l a = (ex, evs)" by fastforce
    show ?thesis
    proof (cases ex)
      case (Done r)
      with True b show ?thesis by (blast intro: finish)
    next
      case (Continue l')
      from True have "a < nat (\<lfloor>maxRetries c\<rfloor> + 1)" by (rule real_le_imp_less_nat_floor)
      then have "P l' (Suc a)" by (intro less) simp
      with True b Continue show ?thesis by (blast intro: continue)
    qed
  qed
qed

lemma loop_attempts:
  "\<exists>n. attempts (snd (request_loop c env rq l a)) = [a..<a + n] \<and>
       a + n \<le> max a (nat (\<lfloor>maxRetries c\<rfloor> + 1))"
proof (induction l a rule: loop_induct [where c = c and env = env and rq = rq])
  case (stop l a)
  then show ?case by (intro exI [of _ 0]) (simp add: request_loop_stop)
next
  case (finish l a r evs)
  then have "attempts evs = [a]" using body_attempts [of c env rq l a] by simp
  moreover from finish(1) have "a < nat (\<lfloor>maxRetries c\<rfloor> + 1)" by (rule real_le_imp_less_nat_floor)
  ultimately show ?case using finish by (intro exI [of _ 1]) (simp add: request_loop_done)
next
  case (continue l a l' evs)
  from continue.IH obtain n where
    n: "attempts (snd (request_loop c env rq l' (Suc a))) = [Suc a..<Suc a + n]"
       "Suc a + n \<le> max (Suc a) (nat (\<lfloor>maxRetries c\<rfloor> + 1))" by blast
  have "attempts evs = [a]" using continue(2) body_attempts [of c env rq l a] by simp
  moreover from continue(1) have "a < nat (\<lfloor>maxRetries c\<rfloor> + 1)" by (rule real_le_imp_less_nat_floor)
  ultimately show ?case using continue n
    by (intro exI [of _ "Suc n"]) (simp add: request_loop_continue upt_conv_Cons)
qed

lemma loop_timers: "timers_ok None (snd (request_loop c env rq l a))"
proof (induction l a rule: loop_induct [where c = c and env = env and rq = rq])
  case (stop l a)
  then show ?case by (simp add: request_loop_stop)
next
  case (finish l a r evs)
  then show ?case using body_timers [of c env rq l a "[]"] by (simp add: request_loop_done)
next
  case (continue l a l' evs)
  then show ?case using body_timers [of c env rq l a] by (simp add: request_loop_continue)
qed

lemma loop_fetched:
  "fetched (snd (request_loop c env rq l a)) = replicate (length (attempts (snd (request_loop c env rq l a)))) rq"
proof (induction l a rule: loop_induct [where c = c and env = env and rq = rq])
  case (stop l a)
  then show ?case by (simp add: request_loop_stop)
next
  case (finish l a r evs)
  then show ?case using body_fetched [of c env rq l a] body_attempts [of c env rq l a]
    by (simp add: request_loop_done)
next
  case (continue l a l' evs)
  then show ?case using body_fetched [of c env rq l a] body_attempts [of c env rq l a]
    by (simp add: request_loop_continue)
qed

lemma http_error_not_retried [simp]:
  "\<not> isAbort (http_error_of st j)" "\<not> isNetwork (http_error_of st j)"
  by (simp_all add: http_error_of_def Let_def isAbort_def isNetwork_def)

lemma syntax_error_not_retried [simp]:
  "\<not> isAbort (Thrown SyntaxError)" "\<not> isNetwork (Thrown SyntaxError)"
  by (simp_all add: SyntaxError_def isAbort_def isNetwork_def)

lemma body_success: "fst (loop_body c env rq l a) = Done (Inr j) \<longleftrightarrow> attempt_succeeds env a j"
  by (auto simp: body_defs attempt_succeeds_def split: fetch_outcome.split sum.split)

lemma loop_attempts_start:
  "real a \<le> maxRetries c \<Longrightarrow> \<exists>rest. attempts (snd (request_loop c env rq l a)) = a # rest"
proof -
  assume a: "real a \<le> maxRetries c"
  obtain ex evs where b: "loop_body c env rq l a = (ex, evs)" by fastforce
  have "attempts evs = [a]" using b body_attempts [of c env rq l a] by simp
  with a b show ?thesis
    by (cases ex) (auto simp: request_loop_done request_loop_continue)
qed

lemma loop_no_attempts:
  "attempts (snd (request_loop c env rq l a)) = [] \<Longrightarrow> \<exists>e. fst (request_loop c env rq l a) = Inl e"
  using loop_attempts_start [of a c env rq l] by (cases "real a \<le> maxRetries c") (auto simp: request_loop_stop)

lemma loop_success:
  "fst (request_loop c env rq l a) = Inr j \<longleftrightarrow>
   (attempts (snd (request_loop c env rq l a)) \<noteq> [] \<and>
    attempt_succeeds env (last (attempts (snd (request_loop c env rq l a)))) j)"
proof (induction l a rule: loop_induct [where c = c and env = env and rq = rq])
  case (stop l a)
  then show ?case by (simp add: request_loop_stop)
next
  case (finish l a r evs)
  moreover have "attempts evs = [a]" using finish(2) body_attempts [of c env rq l a] by simp
  ultimately show ?case using body_success [of c env rq l a j] by (auto simp: request_loop_done)
next
  case (continue l a l' evs)
  have ev: "attempts evs = [a]" using continue(2) body_attempts [of c env rq l a] by simp
  have na: "\<not> attempt_succeeds env a j" using continue(2) body_success [of c env rq l a j] by simp
  show ?case
  proof (cases "attempts (snd (request_loop c env rq l' (Suc a))) = []")
    case True
    then show ?thesis using continue ev na loop_no_attempts [OF True]
      by (auto simp: request_loop_continue)
  next
    case False
    then show ?thesis using continue ev by (simp add: request_loop_continue)
  qed
qed

lemma loop_sleeps:
  assumes "maxRetries c = real k"
  shows "sleeps (snd (request_loop c env rq l a)) =
         map (\<lambda>i. backoffMs i (jitter_at env i)) [a..<a + length (attempts (snd (request_loop c env rq l a))) - 1]"
proof (induction l a rule: loop_induct [where c = c and env = env and rq = rq])
  case (stop l a)
  then show ?case by (simp add: request_loop_stop)
next
  case (finish l a r evs)
  then show ?case using body_attempts [of c env rq l a] body_sleeps [of c env rq l a]
    by (simp add: request_loop_done)
next
  case (continue l a l' evs)
  have "real a < maxRetries c" using continue(2) body_continue_guard [of c env rq l a] by simp
  then have "real (Suc a) \<le> maxRetries c" using assms by simp
  then obtain rest where r: "attempts (snd (request_loop c env rq l' (Suc a))) = Suc a # rest"
    using loop_attempts_start by blast
  have "attempts evs = [a]" "sleeps evs = [backoffMs a (jitter_at env a)]"
    using continue(2) body_attempts [of c env rq l a] body_sleeps [of c env rq l a] by simp_all
  moreover have "request_loop c env rq l a = prepend evs (request_loop c env rq l' (Suc a))"
    using continue(1,2) by (rule request_loop_continue)
  ultimately show ?case using continue.IH r by (simp add: upt_conv_Cons del: upt_Suc)
qed

lemma body_5xx:
  assumes "fetch_at env a = Responds st bt" "500 \<le> st" "parse_body bt = Inr j"
  shows "fst (loop_body c env rq l a) =
           (if real a < maxRetries c then Continue l else Done (Inl (http_error_of st j)))"
  using assms by (simp add: body_defs res_ok_def)

lemma loop_5xx:
  assumes "maxRetries c = real k" "500 \<le> st" "parse_body bt = Inr j"
  shows "a \<le> k \<Longrightarrow> (\<forall>n. a \<le> n \<and> n \<le> k \<longrightarrow> fetch_at env n = Responds st bt) \<Longrightarrow>
         fst (request_loop c env rq l a) = Inl (http_error_of st j) \<and>
         attempts (snd (request_loop c env rq l a)) = [a..<Suc k]"
proof (induction l a rule: loop_induct [where c = c and env = env and rq = rq])
  case (stop l a)
  then show ?case using assms(1) by simp
next
  case (finish l a r evs)
  have "fst (loop_body c env rq l a) = (if a < k then Continue l else Done (Inl (http_error_of st j)))"
    using body_5xx [of env a st bt j c rq l] finish.prems assms by simp
  then have "a = k" "r = Inl (http_error_of st j)" using finish by (auto split: if_splits)
  moreover have "attempts evs = [a]" using finish(2) body_attempts [of c env rq l a] by simp
  ultimately show ?case using finish by (simp add: request_loop_done)
next
  case (continue l a l' evs)
  have "fst (loop_body c env rq l a) = (if a < k then Continue l else Done (Inl (http_error_of st j)))"
    using body_5xx [of env a st bt j c rq l] continue.prems assms by simp
  then have "a < k" using continue(2) by (auto split: if_splits)
  moreover have "attempts evs = [a]" using continue(2) body_attempts [of c env rq l a] by simp
  ultimately show ?case using continue by (simp add: request_loop_continue upt_conv_Cons)
qed

lemma loop_5xx_fractional:
  assumes "maxRetries c = real k + f" and "0 < f" and "f < 1" and "500 \<le> st" and "parse_body bt = Inr j"
    and "\<forall>n. a \<le> n \<and> n \<le> k \<longrightarrow> fetch_at env n = Responds st bt"
  shows "a \<le> Suc k \<Longrightarrow>
         fst (request_loop c env rq l a) = Inl (case l of Some e \<Rightarrow> e | None \<Rightarrow> RequestFailed) \<and>
         attempts (snd (request_loop c env rq l a)) = [a..<Suc k] \<and>
         length (sleeps (snd (request_loop c env rq l a))) = Suc k - a"
  using assms(6)
proof (induction "Suc k - a" arbitrary: a)
  case 0
  then have "\<not> real a \<le> maxRetries c" using assms(1,3) by simp
  then show ?case using 0 by (simp add: request_loop_stop)
next
  case (Suc d)
  then have ak: "a \<le> k" by simp
  then have le: "real a \<le> maxRetries c" "real a < maxRetries c" using assms(1,2) by simp_all
  have "fst (loop_body c env rq l a) = Continue l"
    using body_5xx [of env a st bt j c rq l] Suc.prems(2) ak le(2) assms(4,5) by simp
  then obtain evs where ev: "loop_body c env rq l a = (Continue l, evs)"
    by (cases "loop_body c env rq l a") simp
  have "attempts evs = [a]" "length (sleeps evs) = 1"
    using ev body_attempts [of c env rq l a] body_sleeps [of c env rq l a] by simp_all
  moreover have "fst (request_loop c env rq l (Suc a)) = Inl (case l of Some e \<Rightarrow> e | None \<Rightarrow> RequestFailed) \<and>
         attempts (snd (request_loop c env rq l (Suc a))) = [Suc a..<Suc k] \<and>
         length (sleeps (snd (request_loop c env rq l (Suc a)))) = Suc k - Suc a"
    using Suc by (intro Suc.hyps) simp_all
  ultimately show ?case
    using request_loop_continue [OF le(1) ev] ak by (simp add: upt_conv_Cons Suc_diff_le del: upt_Suc)
qed

lemma parse_body_Inl [simp]:
  "parse_body bt = Inl x \<longleftrightarrow> bt = MalformedText \<and> x = Thrown SyntaxError"
  by (cases bt) auto

lemma body_verdict:
  assumes "maxRetries c = real k" and "recognised (fetch_at env a)"
  shows "exit_verdict (fst (loop_body c env rq l a)) = decide k a (classify (fetch_at env a))"
  using assms
  by (auto simp: body_defs decide_def classify_def recognised_def res_ok_def
           split: fetch_outcome.splits sum.splits body_text.splits)

lemma loop_refines:
  assumes "maxRetries c = real k"
  shows "a \<le> k \<Longrightarrow> (\<forall>n. a \<le> n \<and> n \<le> k \<longrightarrow> recognised (fetch_at env n)) \<Longrightarrow>
         abs_call a (request_loop c env rq l a) = policy_run k (\<lambda>n. classify (fetch_at env n)) a"
proof (induction l a rule: loop_induct [where c = c and env = env and rq = rq])
  case (stop l a)
  then show ?case using assms by simp
next
  case (finish l a r evs)
  have v: "exit_verdict (Done r) = decide k a (classify (fetch_at env a))"
    using body_verdict [OF assms, of env a rq l] finish by simp
  have "attempts evs = [a]" using finish(2) body_attempts [of c env rq l a] by simp
  with finish v show ?case
    by (cases r) (simp_all add: abs_call_def request_loop_done policy_run.simps [of k _ a])
next
  case (continue l a l' evs)
  have v: "VRetry = decide k a (classify (fetch_at env a))"
    using body_verdict [OF assms, of env a rq l] continue by simp
  then have "a < k" by (metis decide_retry_less)
  moreover have "attempts evs = [a]" using continue(2) body_attempts [of c env rq l a] by simp
  ultimately show ?case using continue v
    by (auto simp: abs_call_def request_loop_continue policy_run.simps [of k _ a] split: sum.splits)
qed



lemma new_HttpClient_defaults [simp]:
  "maxRetries (new_HttpClient \<lparr>opt_baseUrl = u, opt_apiKey = k, opt_timeoutMs = None, opt_maxRetries = None\<rparr>) = 2"
  "timeoutMs (new_HttpClient \<lparr>opt_baseUrl = u, opt_apiKey = k, opt_timeoutMs = None, opt_maxRetries = None\<rparr>) = 10000"
  by (simp_all add: new_HttpClient_def)

subsection \<open>Properties of one logical call\<close>

text \<open>
  (C1) A call whose every attempt is answered with the same status \<open>\<ge> 500\<close> makes
  exactly \<open>maxRetries + 1\<close> attempts and then fails with the \<open>HttpError\<close> of that
  status and body.
\<close>

theorem request_5xx_exhausts:
  assumes "maxRetries c = real k" and "\<forall>n \<le> k. fetch_at env n = Responds st bt"
    and "500 \<le> st" and "parse_body bt = Inr j"
  shows "fst (request c env m path body) = Inl (http_error_of st j) \<and>
         attempts (snd (request c env m path body)) = [0..<Suc k]"
  using loop_5xx [OF assms(1,3,4), of 0] assms(2) by (simp add: request_def)

theorem request_5xx_exhausts_witness:
  "maxRetries (new_HttpClient \<lparr>opt_baseUrl = ''https://api.genz.example/'', opt_apiKey = Some ''sk_test'',
        opt_timeoutMs = None, opt_maxRetries = None\<rparr>) = real 2 \<and>
   (500::int) \<le> 503 \<and> parse_body EmptyText = Inr None \<and>
   fst (request (new_HttpClient \<lparr>opt_baseUrl = ''https://api.genz.example/'', opt_apiKey = Some ''sk_test'',
        opt_timeoutMs = None, opt_maxRetries = None\<rparr>) \<lparr>fetch_at = \<lambda>_. Responds 503 EmptyText, jitter_at = \<lambda>_. 0\<rparr>
      POST ''/v1/tokens/mint'' None) = Inl (http_error_of 503 None) \<and>
   attempts (snd (request (new_HttpClient \<lparr>opt_baseUrl = ''https://api.genz.example/'', opt_apiKey = Some ''sk_test'',
        opt_timeoutMs = None, opt_maxRetries = None\<rparr>) \<lparr>fetch_at = \<lambda>_. Responds 503 EmptyText, jitter_at = \<lambda>_. 0\<rparr>
      POST ''/v1/tokens/mint'' None)) = [0..<Suc 2]"
  using request_5xx_exhausts [of "new_HttpClient \<lparr>opt_baseUrl = ''https://api.genz.example/'', opt_apiKey = Some ''sk_test'',
        opt_timeoutMs = None, opt_maxRetries = None\<rparr>" 2
      "\<lparr>fetch_at = \<lambda>_. Responds 503 EmptyText, jitter_at = \<lambda>_. 0\<rparr>" 503 EmptyText None
      POST "''/v1/tokens/mint''" None]
  by simp

text \<open>
  (C2) A non-success status below 500 (a 4xx, or a 3xx the transport did not
  follow) ends the call after its first attempt with the \<open>HttpError\<close> of that
  status, however many retries remain.
\<close>

theorem request_4xx_terminal:
  assumes "0 \<le> maxRetries c" and "fetch_at env 0 = Responds st bt"
    and "\<not> res_ok st" and "st < 500" and "parse_body bt = Inr j"
  shows "fst (request c env m path body) = Inl (http_error_of st j) \<and>
         attempts (snd (request c env m path body)) = [0]"
proof -
  have "loop_body c env rq l 0 = (Done (Inl (http_error_of st j)), [ArmTimer 0 (timeoutMs c), Fetch 0 rq, ClearTimer 0, ClearTimer 0])"
    for rq l using assms(2-5) by (simp add: body_defs)
  then show ?thesis using assms(1) by (simp add: request_def request_loop_done)
qed

theorem request_4xx_terminal_witness:
  "0 \<le> maxRetries (new_HttpClient \<lparr>opt_baseUrl = ''https://api.genz.example/'', opt_apiKey = Some ''sk_test'',
        opt_timeoutMs = None, opt_maxRetries = None\<rparr>) \<and>
   fetch_at \<lparr>fetch_at = \<lambda>_. Responds 400 (JsonText (JObj [(''message'', JStr ''Invalid body'')])),
             jitter_at = \<lambda>_. 0\<rparr> 0 = Responds 400 (JsonText (JObj [(''message'', JStr ''Invalid body'')])) \<and>
   \<not> res_ok 400 \<and> (400::int) < 500 \<and>
   parse_body (JsonText (JObj [(''message'', JStr ''Invalid body'')])) = Inr (Some (JObj [(''message'', JStr ''Invalid body'')])) \<and>
   fst (request (new_HttpClient \<lparr>opt_baseUrl = ''https://api.genz.example/'', opt_apiKey = Some ''sk_test'',
        opt_timeoutMs = None, opt_maxRetries = None\<rparr>)
          \<lparr>fetch_at = \<lambda>_. Responds 400 (JsonText (JObj [(''message'', JStr ''Invalid body'')])), jitter_at = \<lambda>_. 0\<rparr>
          POST ''/v1/tokens/mint'' None)
     = Inl (http_error_of 400 (Some (JObj [(''message'', JStr ''Invalid body'')]))) \<and>
   attempts (snd (request (new_HttpClient \<lparr>opt_baseUrl = ''https://api.genz.example/'', opt_apiKey = Some ''sk_test'',
        opt_timeoutMs = None, opt_maxRetries = None\<rparr>)
          \<lparr>fetch_at = \<lambda>_. Responds 400 (JsonText (JObj [(''message'', JStr ''Invalid body'')])), jitter_at = \<lambda>_. 0\<rparr>
          POST ''/v1/tokens/mint'' None)) = [0]"
  using request_4xx_terminal [of "new_HttpClient \<lparr>opt_baseUrl = ''https://api.genz.example/'', opt_apiKey = Some ''sk_test'',
        opt_timeoutMs = None, opt_maxRetries = None\<rparr>"
      "\<lparr>fetch_at = \<lambda>_. Responds 400 (JsonText (JObj [(''message'', JStr ''Invalid body'')])), jitter_at = \<lambda>_. 0\<rparr>"
      400 "JsonText (JObj [(''message'', JStr ''Invalid body'')])" "Some (JObj [(''message'', JStr ''Invalid body'')])"
      POST "''/v1/tokens/mint''" None]
  by (simp add: res_ok_def)

text \<open>
  (C3) Whatever the configuration, the attempts of one call are numbered
  \<open>0, 1, \<dots>\<close> without gaps and there are at most \<open>\<lfloor>maxRetries\<rfloor> + 1\<close> of them.
\<close>

theorem request_attempts_bounded:
  "\<exists>n. attempts (snd (request c env m path body)) = [0..<n] \<and> n \<le> nat (\<lfloor>maxRetries c\<rfloor> + 1)"
  using loop_attempts [of c env _ None 0] by (simp add: request_def)

text \<open>
  (C4) Refinement: when every failure the transport produces is one the code
  recognises as retryable, the call's outcome and number of attempts are those
  of the specification's retry state machine, and that final state is
  reachable in it (so its invariants hold for the code).
\<close>

theorem request_refines_policy:
  assumes "maxRetries c = real k" and "\<forall>n \<le> k. recognised (fetch_at env n)"
  shows "abs_call 0 (request c env m path body) = policy_run k (\<lambda>n. classify (fetch_at env n)) 0 \<and>
         policy_reach k (\<lambda>n. classify (fetch_at env n)) (abs_call 0 (request c env m path body))"
  using loop_refines [OF assms(1), of 0] assms(2) policy_run_reach [OF policy_reach.start]
  by (simp add: request_def)

theorem request_refines_policy_witness:
  "maxRetries (new_HttpClient \<lparr>opt_baseUrl = ''https://api.genz.example/'', opt_apiKey = Some ''sk_test'',
        opt_timeoutMs = None, opt_maxRetries = None\<rparr>) = real 2 \<and>
   abs_call 0 (request (new_HttpClient \<lparr>opt_baseUrl = ''https://api.genz.example/'', opt_apiKey = Some ''sk_test'',
        opt_timeoutMs = None, opt_maxRetries = None\<rparr>)
       \<lparr>fetch_at = \<lambda>n. if n = 0 then FetchFails (Exn ''AbortError'' None) else Responds 200 (JsonText (JStr ''tx1'')),
        jitter_at = \<lambda>_. 0\<rparr> GET ''/v1/health'' None)
     = policy_run 2 (\<lambda>n. classify (fetch_at \<lparr>fetch_at = \<lambda>n. if n = 0 then FetchFails (Exn ''AbortError'' None)
                                    else Responds 200 (JsonText (JStr ''tx1'')), jitter_at = \<lambda>_. 0\<rparr> n)) 0 \<and>
   policy_reach 2 (\<lambda>n. classify (fetch_at \<lparr>fetch_at = \<lambda>n. if n = 0 then FetchFails (Exn ''AbortError'' None)
                                    else Responds 200 (JsonText (JStr ''tx1'')), jitter_at = \<lambda>_. 0\<rparr> n))
     (abs_call 0 (request (new_HttpClient \<lparr>opt_baseUrl = ''https://api.genz.example/'', opt_apiKey = Some ''sk_test'',
        opt_timeoutMs = None, opt_maxRetries = None\<rparr>)
       \<lparr>fetch_at = \<lambda>n. if n = 0 then FetchFails (Exn ''AbortError'' None) else Responds 200 (JsonText (JStr ''tx1'')),
        jitter_at = \<lambda>_. 0\<rparr> GET ''/v1/health'' None))"
proof -
  let ?env = "\<lparr>fetch_at = \<lambda>n. if n = 0 then FetchFails (Exn ''AbortError'' None) else Responds 200 (JsonText (JStr ''tx1'')),
        jitter_at = \<lambda>_. 0\<rparr>"
  have h: "\<forall>n \<le> 2. recognised (fetch_at ?env n)"
    by (auto simp: recognised_def isAbort_def)
  have m: "maxRetries (new_HttpClient \<lparr>opt_baseUrl = ''https://api.genz.example/'', opt_apiKey = Some ''sk_test'',
        opt_timeoutMs = None, opt_maxRetries = None\<rparr>) = real 2"
    by simp
  show ?thesis
    using h m request_refines_policy [OF m h, where m = GET and path = "''/v1/health''" and body = None]
    by blast
qed

text \<open>
  A call whose first attempt fails at the transport with an abort or a
  recognised network error, and whose second attempt succeeds, returns the
  second attempt's decoded body after exactly two attempts.
\<close>

theorem request_retry_then_success:
  assumes "1 \<le> maxRetries c" and "fetch_at env 0 = FetchFails e"
    and "isAbort (Thrown e) \<or> isNetwork (Thrown e)" and "attempt_succeeds env 1 j"
  shows "fst (request c env m path body) = Inr j \<and>
         attempts (snd (request c env m path body)) = [0, 1]"
proof -
  obtain st bt where r: "fetch_at env 1 = Responds st bt" "res_ok st" "parse_body bt = Inr j"
    using assms(4) by (auto simp: attempt_succeeds_def split: fetch_outcome.splits)
  have b0: "loop_body c env rq l 0 = (Continue (Some (Thrown e)),
      [ArmTimer 0 (timeoutMs c), Fetch 0 rq, ClearTimer 0, Sleep (backoffMs 0 (jitter_at env 0))])" for rq l
    using assms(1-3) by (simp add: body_defs)
  have b1: "loop_body c env rq l 1 = (Done (Inr j), [ArmTimer 1 (timeoutMs c), Fetch 1 rq, ClearTimer 1])" for rq l
    using r by (simp add: body_defs)
  have "real (Suc 0) \<le> maxRetries c" using assms(1) by simp
  then show ?thesis using assms(1) b0 b1 [simplified]
    by (simp add: request_def request_loop_continue request_loop_done)
qed

theorem request_retry_then_success_witness:
  "1 \<le> maxRetries (new_HttpClient \<lparr>opt_baseUrl = ''https://api.genz.example/'', opt_apiKey = Some ''sk_test'',
        opt_timeoutMs = None, opt_maxRetries = None\<rparr>) \<and>
   fetch_at \<lparr>fetch_at = \<lambda>n. if n = 0 then FetchFails (Exn ''TypeError'' None) else Responds 200 (JsonText (JStr ''ok'')),
             jitter_at = \<lambda>_. 0\<rparr> 0 = FetchFails (Exn ''TypeError'' None) \<and>
   (isAbort (Thrown (Exn ''TypeError'' None)) \<or> isNetwork (Thrown (Exn ''TypeError'' None))) \<and>
   attempt_succeeds \<lparr>fetch_at = \<lambda>n. if n = 0 then FetchFails (Exn ''TypeError'' None) else Responds 200 (JsonText (JStr ''ok'')),
             jitter_at = \<lambda>_. 0\<rparr> 1 (Some (JStr ''ok'')) \<and>
   fst (request (new_HttpClient \<lparr>opt_baseUrl = ''https://api.genz.example/'', opt_apiKey = Some ''sk_test'',
        opt_timeoutMs = None, opt_maxRetries = None\<rparr>)
      \<lparr>fetch_at = \<lambda>n. if n = 0 then FetchFails (Exn ''TypeError'' None) else Responds 200 (JsonText (JStr ''ok'')),
       jitter_at = \<lambda>_. 0\<rparr> GET ''/v1/health'' None) = Inr (Some (JStr ''ok'')) \<and>
   attempts (snd (request (new_HttpClient \<lparr>opt_baseUrl = ''https://api.genz.example/'', opt_apiKey = Some ''sk_test'',
        opt_timeoutMs = None, opt_maxRetries = None\<rparr>)
      \<lparr>fetch_at = \<lambda>n. if n = 0 then FetchFails (Exn ''TypeError'' None) else Responds 200 (JsonText (JStr ''ok'')),
       jitter_at = \<lambda>_. 0\<rparr> GET ''/v1/health'' None)) = [0, 1]"
  using request_retry_then_success [of "new_HttpClient \<lparr>opt_baseUrl = ''https://api.genz.example/'', opt_apiKey = Some ''sk_test'',
        opt_timeoutMs = None, opt_maxRetries = None\<rparr>"
      "\<lparr>fetch_at = \<lambda>n. if n = 0 then FetchFails (Exn ''TypeError'' None) else Responds 200 (JsonText (JStr ''ok'')),
       jitter_at = \<lambda>_. 0\<rparr>" "Exn ''TypeError'' None" "Some (JStr ''ok'')" GET "''/v1/health''" None]
  by (simp add: isNetwork_def attempt_succeeds_def res_ok_def)

text \<open>
  (C5) Timers never leak: every request is sent with its own timer armed, the
  timer is cleared before any backoff sleep and before the call ends, and no
  two timers are ever armed at once.
\<close>

theorem request_timers_balanced: "timers_ok None (snd (request c env m path body))"
  by (simp add: request_def loop_timers)

text \<open>
  (C6) No partial results: a call succeeds with a value exactly when its last
  attempt got a 2xx status with a body that decodes to that value; otherwise
  it fails with an error.
\<close>

theorem request_success_iff:
  "fst (request c env m path body) = Inr j \<longleftrightarrow>
   (attempts (snd (request c env m path body)) \<noteq> [] \<and>
    attempt_succeeds env (last (attempts (snd (request c env m path body)))) j)"
  by (simp add: request_def loop_success)

text \<open>
  Every attempt of a call sends the same request: the method given, the
  URL \<open>baseUrl + path\<close>, the header \<open>Content-Type: application/json\<close> and,
  when a non-empty credential is configured, \<open>Authorization: Bearer\<close> with it,
  and the JSON payload (none for a \<open>null\<close> or absent body).
\<close>

theorem request_resends_same_request:
  "fetched (snd (request c env m path body)) =
   replicate (length (attempts (snd (request c env m path body))))
     \<lparr>req_method = m, req_url = baseUrl c @ path,
      req_headers = request_headers (apiKey c), req_body = request_payload body\<rparr>"
  by (simp add: request_def loop_fetched)

text \<open>
  (C17) Bounded latency: every backoff sleep of a call is at most 3000 ms, and
  with an integral \<open>maxRetries = k\<close> their total is at most \<open>3000 * k\<close> ms.
\<close>

theorem request_latency_bounded:
  assumes "maxRetries c = real k"
  shows "list_all (\<lambda>d. d \<le> 3000) (sleeps (snd (request c env m path body))) \<and>
         sum_list (sleeps (snd (request c env m path body))) \<le> 3000 * k"
proof -
  let ?rq = "\<lparr>req_method = m, req_url = baseUrl c @ path,
        req_headers = request_headers (apiKey c), req_body = request_payload body\<rparr>"
  obtain n where n: "attempts (snd (request_loop c env ?rq None 0)) = [0..<n]"
      "n \<le> nat (\<lfloor>maxRetries c\<rfloor> + 1)"
    using loop_attempts [of c env ?rq None 0] by auto
  have s: "sleeps (snd (request_loop c env ?rq None 0)) = map (\<lambda>i. backoffMs i (jitter_at env i)) [0..<n - 1]"
    using loop_sleeps [OF assms, of env ?rq None 0] n(1) by simp
  have "n - 1 \<le> k" using n(2) assms by simp
  moreover have "\<forall>d \<in> set (sleeps (snd (request_loop c env ?rq None 0))). d \<le> 3000"
    using s by auto
  ultimately show ?thesis
    using sum_list_le_bound [of "sleeps (snd (request_loop c env ?rq None 0))" 3000] s
    by (simp add: request_def list_all_iff)
qed
theorem request_latency_bounded_witness:
  "maxRetries (new_HttpClient \<lparr>opt_baseUrl = ''https://api.genz.example/'', opt_apiKey = Some ''sk_test'',
        opt_timeoutMs = None, opt_maxRetries = None\<rparr>) = real 2 \<and>
   list_all (\<lambda>d. d \<le> 3000) (sleeps (snd (request (new_HttpClient \<lparr>opt_baseUrl = ''https://api.genz.example/'', opt_apiKey = Some ''sk_test'',
        opt_timeoutMs = None, opt_maxRetries = None\<rparr>) \<lparr>fetch_at = \<lambda>_. Responds 503 EmptyText, jitter_at = \<lambda>_. 199\<rparr>
      GET ''/v1/health'' None))) \<and>
   sum_list (sleeps (snd (request (new_HttpClient \<lparr>opt_baseUrl = ''https://api.genz.example/'', opt_apiKey = Some ''sk_test'',
        opt_timeoutMs = None, opt_maxRetries = None\<rparr>) \<lparr>fetch_at = \<lambda>_. Responds 503 EmptyText, jitter_at = \<lambda>_. 199\<rparr>
      GET ''/v1/health'' None))) \<le> 3000 * 2"
  using request_latency_bounded [of "new_HttpClient \<lparr>opt_baseUrl = ''https://api.genz.example/'', opt_apiKey = Some ''sk_test'',
        opt_timeoutMs = None, opt_maxRetries = None\<rparr>" 2
      "\<lparr>fetch_at = \<lambda>_. Responds 503 EmptyText, jitter_at = \<lambda>_. 199\<rparr>" GET "''/v1/health''" None]
  by simp

subsection \<open>Where the code departs from the specification\<close>

text \<open>
  (C18) \<open>maxRetries\<close> is an arbitrary JavaScript number. With a fractional value
  \<open>k + f\<close> (\<open>0 < f < 1\<close>) the loop runs attempts \<open>0, ..., k\<close>, retries after
  attempt \<open>k\<close> as well (\<open>k < k + f\<close>), sleeps, leaves the loop and reaches the
  line commented "Should never reach here": it throws \<open>lastErr\<close>, which the 5xx
  branch never updates. A call whose first attempt failed with a retryable
  network error and whose later attempts were all answered 5xx reports that
  first, stale error, after \<open>k + 1\<close> sleeps instead of \<open>k\<close>.
\<close>

theorem request_fractional_retries_stale_error:
  assumes "maxRetries c = real k + f" and "0 < f" and "f < 1"
    and "fetch_at env 0 = FetchFails e" and "isAbort (Thrown e) \<or> isNetwork (Thrown e)"
    and "\<forall>n. 0 < n \<and> n \<le> k \<longrightarrow> fetch_at env n = Responds st bt" and "500 \<le> st" and "parse_body bt = Inr j"
  shows "fst (request c env m path body) = Inl (Thrown e) \<and>
         attempts (snd (request c env m path body)) = [0..<Suc k] \<and>
         length (sleeps (snd (request c env m path body))) = Suc k"
proof -
  define rq where "rq = \<lparr>req_method = m, req_url = baseUrl c @ path,
        req_headers = request_headers (apiKey c), req_body = request_payload body\<rparr>"
  have le: "real 0 \<le> maxRetries c" "real 0 < maxRetries c" using assms(1,2) by simp_all
  obtain evs where ev: "loop_body c env rq None 0 = (Continue (Some (Thrown e)), evs)"
    and ea: "attempts evs = [0]" and es: "length (sleeps evs) = 1"
    using assms(4,5) le(2) by (simp add: body_defs)
  have "fst (request_loop c env rq (Some (Thrown e)) 1) = Inl (Thrown e) \<and>
        attempts (snd (request_loop c env rq (Some (Thrown e)) 1)) = [1..<Suc k] \<and>
        length (sleeps (snd (request_loop c env rq (Some (Thrown e)) 1))) = Suc k - 1"
    using loop_5xx_fractional [OF assms(1,2,3,7,8), of 1 env rq "Some (Thrown e)"] assms(6) by simp
  then show ?thesis
    using request_loop_continue [OF le(1) ev] ea es
    by (simp add: request_def rq_def [symmetric] upt_conv_Cons del: upt_Suc)
qed

theorem request_fractional_retries_stale_error_witness:
  "fst (request (new_HttpClient \<lparr>opt_baseUrl = ''https://api.genz.example'', opt_apiKey = None,
                             opt_timeoutMs = None, opt_maxRetries = Some (3 / 2)\<rparr>)
     \<lparr>fetch_at = \<lambda>n. if n = 0 then FetchFails (Exn ''FetchError'' (Some ''ECONNRESET''))
                    else Responds 503 EmptyText,
      jitter_at = \<lambda>_. 0\<rparr> GET ''/v1/health'' None) = Inl (Thrown (Exn ''FetchError'' (Some ''ECONNRESET''))) \<and>
   attempts (snd (request (new_HttpClient \<lparr>opt_baseUrl = ''https://api.genz.example'', opt_apiKey = None,
                             opt_timeoutMs = None, opt_maxRetries = Some (3 / 2)\<rparr>)
     \<lparr>fetch_at = \<lambda>n. if n = 0 then FetchFails (Exn ''FetchError'' (Some ''ECONNRESET''))
                    else Responds 503 EmptyText,
      jitter_at = \<lambda>_. 0\<rparr> GET ''/v1/health'' None)) = [0..<Suc 1] \<and>
   length (sleeps (snd (request (new_HttpClient \<lparr>opt_baseUrl = ''https://api.genz.example'', opt_apiKey = None,
                             opt_timeoutMs = None, opt_maxRetries = Some (3 / 2)\<rparr>)
     \<lparr>fetch_at = \<lambda>n. if n = 0 then FetchFails (Exn ''FetchError'' (Some ''ECONNRESET''))
                    else Responds 503 EmptyText,
      jitter_at = \<lambda>_. 0\<rparr> GET ''/v1/health'' None))) = Suc 1"
  using request_fractional_retries_stale_error
    [of "new_HttpClient \<lparr>opt_baseUrl = ''https://api.genz.example'', opt_apiKey = None,
                             opt_timeoutMs = None, opt_maxRetries = Some (3 / 2)\<rparr>" 1 "1 / 2"
        "\<lparr>fetch_at = \<lambda>n. if n = 0 then FetchFails (Exn ''FetchError'' (Some ''ECONNRESET''))
                    else Responds 503 EmptyText, jitter_at = \<lambda>_. 0\<rparr>"
        "Exn ''FetchError'' (Some ''ECONNRESET'')" 503 EmptyText None GET "''/v1/health''" None]
  by (simp add: new_HttpClient_def isNetwork_def)

text \<open>
  (C19) A response body that is not JSON makes \<open>JSON.parse\<close> throw a
  \<open>SyntaxError\<close>, whatever the status, which the \<open>catch\<close> clause does not
  recognise as retryable: the call fails with that \<open>SyntaxError\<close> after its
  first attempt, although the specification's policy classifies a decode
  failure as a transport error and retries it while attempts remain.
\<close>

theorem request_parse_failure_not_retried:
  assumes "fetch_at env 0 = Responds st MalformedText" and "maxRetries c = real k" and "0 < k"
  shows "fst (request c env m path body) = Inl (Thrown SyntaxError) \<and>
         attempts (snd (request c env m path body)) = [0] \<and>
         decide k 0 (classify (fetch_at env 0)) = VRetry"
  using assms
  by (simp add: request_def request_loop.simps [of c env _ None 0] body_defs classify_def decide_def)

theorem request_parse_failure_not_retried_witness:
  "fst (request (new_HttpClient \<lparr>opt_baseUrl = ''https://api.genz.example'', opt_apiKey = None,
                                  opt_timeoutMs = None, opt_maxRetries = None\<rparr>)
          \<lparr>fetch_at = \<lambda>n. if n = 0 then Responds 200 MalformedText else Responds 200 EmptyText,
           jitter_at = \<lambda>_. 0\<rparr> GET ''/v1/health'' None) = Inl (Thrown SyntaxError) \<and>
   attempts (snd (request (new_HttpClient \<lparr>opt_baseUrl = ''https://api.genz.example'', opt_apiKey = None,
                                  opt_timeoutMs = None, opt_maxRetries = None\<rparr>)
          \<lparr>fetch_at = \<lambda>n. if n = 0 then Responds 200 MalformedText else Responds 200 EmptyText,
           jitter_at = \<lambda>_. 0\<rparr> GET ''/v1/health'' None)) = [0] \<and>
   decide 2 0 (classify (Responds 200 MalformedText)) = VRetry"
  using request_parse_failure_not_retried
    [of "\<lparr>fetch_at = \<lambda>n. if n = 0 then Responds 200 MalformedText else Responds 200 EmptyText, jitter_at = \<lambda>_. 0\<rparr>"
        200 "new_HttpClient \<lparr>opt_baseUrl = ''https://api.genz.example'', opt_apiKey = None,
                                  opt_timeoutMs = None, opt_maxRetries = None\<rparr>" 2 GET "''/v1/health''" None]
  by simp

text \<open>
  The constructor removes one trailing slash only (\<open>replace(/\/$/, '')\<close>):
  a base URL ending in two slashes keeps one, and every request URL then holds
  a double slash; the specification asks for a base URL with no trailing slash.
\<close>

theorem new_HttpClient_keeps_trailing_slash:
  "baseUrl (new_HttpClient \<lparr>opt_baseUrl = ''https://h//'', opt_apiKey = None,
                            opt_timeoutMs = None, opt_maxRetries = None\<rparr>) = ''https://h/'' \<and>
   req_url (hd (fetched (snd (request (new_HttpClient \<lparr>opt_baseUrl = ''https://h//'', opt_apiKey = None,
                            opt_timeoutMs = None, opt_maxRetries = None\<rparr>)
     \<lparr>fetch_at = \<lambda>_. Responds 200 EmptyText, jitter_at = \<lambda>_. 0\<rparr> GET ''/v1/health'' None))))
   = ''https://h//v1/health''"
  by (simp add: request_def request_loop.simps body_defs new_HttpClient_def
                strip_trailing_slash_def res_ok_def)

end
