(* ===== verification/UriEncode.thy ===== *)
theory UriEncode
  imports Prelude
begin

text \<open>
  Percent-encoding of a path segment, as the two SDKs do it for
  \<open>balance(playerId)\<close>: JavaScript's \<open>encodeURIComponent\<close>
  (\<open>src/sdk/js/src/index.ts\<close> line 128) keeps letters, digits and
  \<open>- _ . ! ~ * ' ( )\<close>; .NET's \<open>Uri.EscapeDataString\<close>
  (\<open>src/sdk/unity/GenZSDK.cs\<close> line 146) keeps only the RFC 3986 unreserved
  set. Both are library functions; strings are byte strings here, so the model
  is exact for identifiers given as their UTF-8 bytes (JavaScript encodes a
  code point as the \<open>%XX\<close> escapes of its UTF-8 bytes; lone surrogates, on
  which \<open>encodeURIComponent\<close> throws, have no UTF-8 form and are not modelled).
  \<open>percent_decode\<close> is what the server does with the segment
  (\<open>decodeURIComponent\<close> in Express's parameter parsing).
\<close>

definition alnum :: "char \<Rightarrow> bool" where
  "alnum c \<longleftrightarrow>
     (let n = (of_char c :: nat) in (48 \<le> n \<and> n \<le> 57) \<or> (65 \<le> n \<and> n \<le> 90) \<or> (97 \<le> n \<and> n \<le> 122))"

definition js_unreserved :: "char \<Rightarrow> bool" where
  "js_unreserved c \<longleftrightarrow> alnum c \<or> c \<in> set ''-_.!~*()'' \<or> c = CHR 0x27"

definition rfc3986_unreserved :: "char \<Rightarrow> bool" where
  "rfc3986_unreserved c \<longleftrightarrow> alnum c \<or> c \<in> set ''-_.~''"

definition hex_digit :: "nat \<Rightarrow> char" where
  "hex_digit n = (if n < 10 then char_of (48 + n) else char_of (55 + n))"

fun percent_encode :: "(char \<Rightarrow> bool) \<Rightarrow> string \<Rightarrow> string" where
  "percent_encode keep [] = []"
| "percent_encode keep (c # cs) =
     (if keep c then [c]
      else [CHR ''%'', hex_digit (of_char c div 16), hex_digit (of_char c mod 16)])
     @ percent_encode keep cs"

definition encodeURIComponent :: "string \<Rightarrow> string" where
  "encodeURIComponent = percent_encode js_unreserved"

definition EscapeDataString :: "string \<Rightarrow> string" where
  "EscapeDataString = percent_encode rfc3986_unreserved"

definition hex_val :: "char \<Rightarrow> nat option" where
  "hex_val c =
     (let n = (of_char c :: nat) in
      if 48 \<le> n \<and> n \<le> 57 then Some (n - 48)
      else if 65 \<le> n \<and> n \<le> 70 then Some (n - 55)
      else if 97 \<le> n \<and> n \<le> 102 then Some (n - 87)
      else None)"

fun percent_decode :: "string \<Rightarrow> string option" where
  "percent_decode [] = Some []"
| "percent_decode (c # cs) =
     (if c = CHR ''%'' then
        (case cs of
           h1 # h2 # rest \<Rightarrow>
             (case (hex_val h1, hex_val h2) of
                (Some a, Some b) \<Rightarrow> map_option (\<lambda>r. char_of (16 * a + b) # r) (percent_decode rest)
              | _ \<Rightarrow> None)
         | _ \<Rightarrow> None)
      else map_option (\<lambda>r. c # r) (percent_decode cs))"

lemma hex_val_hex_digit: "n < 16 \<Longrightarrow> hex_val (hex_digit n) = Some n"
  by (auto simp: hex_val_def hex_digit_def Let_def)

lemma char_of_hex_split: "char_of (16 * (of_char c div 16) + of_char c mod (16::nat)) = c"
  by simp

lemma percent_roundtrip:
  "\<not> keep CHR ''%'' \<Longrightarrow> percent_decode (percent_encode keep s) = Some s"
proof (induction s)
  case Nil
  then show ?case by simp
next
  case (Cons c s)
  show ?case
  proof (cases "keep c")
    case True
    with Cons show ?thesis by (cases "c = CHR ''%''") auto
  next
    case False
    have lt: "of_char c div 16 < (16::nat)" "of_char c mod 16 < (16::nat)"
      using nat_of_char_less_256 [of c] by (simp_all add: div_less_iff_less_mult)
    with False Cons show ?thesis by (simp add: hex_val_hex_digit)
  qed
qed

lemma percent_encode_chars:
  "x \<in> set (percent_encode keep s) \<Longrightarrow> keep x \<or> x = CHR ''%'' \<or> (\<exists>d. hex_val x = Some d)"
proof (induction s)
  case Nil
  then show ?case by simp
next
  case (Cons c s)
  have lt: "of_char c div 16 < (16::nat)" "of_char c mod 16 < (16::nat)"
    using nat_of_char_less_256 [of c] by (simp_all add: div_less_iff_less_mult)
  from Cons show ?case by (auto split: if_splits simp: hex_val_hex_digit [OF lt(1)] hex_val_hex_digit [OF lt(2)])
qed

lemma reserved_chars [simp]:
  "\<not> js_unreserved CHR ''%''" "\<not> rfc3986_unreserved CHR ''%''"
  "\<not> js_unreserved CHR ''/''" "\<not> js_unreserved CHR ''?''" "\<not> js_unreserved CHR ''#''"
  "hex_val CHR ''/'' = None" "hex_val CHR ''?'' = None" "hex_val CHR ''#'' = None"
  by (simp_all add: js_unreserved_def rfc3986_unreserved_def alnum_def hex_val_def)

lemma percent_encode_eq_iff:
  assumes "\<not> k1 CHR ''%''" and "\<not> k2 CHR ''%''"
  shows "percent_encode k1 s = percent_encode k2 s \<longleftrightarrow> list_all (\<lambda>c. k1 c = k2 c) s"
proof (induction s)
  case Nil
  then show ?case by simp
next
  case (Cons c s)
  have "k1 c \<Longrightarrow> c \<noteq> CHR ''%''" "k2 c \<Longrightarrow> c \<noteq> CHR ''%''" using assms by auto
  with Cons show ?case by auto
qed

lemma js_rfc3986_unreserved_iff:
  "js_unreserved c = rfc3986_unreserved c \<longleftrightarrow> c \<notin> set ''!*()'' \<and> c \<noteq> CHR 0x27"
  by (auto simp: js_unreserved_def rfc3986_unreserved_def alnum_def)

lemma encodeURIComponent_decode: "percent_decode (encodeURIComponent s) = Some s"
  unfolding encodeURIComponent_def by (rule percent_roundtrip) (rule reserved_chars)

lemma encodeURIComponent_no_slash: "CHR ''/'' \<notin> set (encodeURIComponent s)"
  using percent_encode_chars [of "CHR ''/''" js_unreserved s] by (auto simp: encodeURIComponent_def)

lemma encodeURIComponent_Nil_iff [simp]: "encodeURIComponent s = [] \<longleftrightarrow> s = []"
  by (cases s) (simp_all add: encodeURIComponent_def)

text \<open>
  Round trip: decoding the segment either SDK sends gives back the player
  identifier exactly, whatever bytes it holds.
\<close>

theorem encode_segment_roundtrip:
  "percent_decode (encodeURIComponent s) = Some s \<and> percent_decode (EscapeDataString s) = Some s"
  unfolding encodeURIComponent_def EscapeDataString_def
  by (intro conjI percent_roundtrip reserved_chars)

text \<open>
  The encoded identifier is one path segment: it holds no \<open>/\<close>, \<open>?\<close> or
  \<open>#\<close>, so it cannot change the route or add a query or fragment.
\<close>

theorem encodeURIComponent_one_segment:
  "CHR ''/'' \<notin> set (encodeURIComponent s) \<and> CHR ''?'' \<notin> set (encodeURIComponent s) \<and>
   CHR ''#'' \<notin> set (encodeURIComponent s)"
proof -
  have enc: "x \<in> set (encodeURIComponent s) \<Longrightarrow> js_unreserved x \<or> x = CHR ''%'' \<or> (\<exists>d. hex_val x = Some d)" for x
    unfolding encodeURIComponent_def by (rule percent_encode_chars)
  show ?thesis
    using enc [of "CHR ''/''"] enc [of "CHR ''?''"] enc [of "CHR ''#''"] by auto
qed

end
