(* ===== verification/JsFacade.thy ===== *)
theory JsFacade
  imports JsClient UriEncode
begin

text \<open>
  The typed API facade of the JavaScript SDK (\<open>src/sdk/js/src/index.ts\<close>,
  lines 94--154): \<open>TokensApi.mint\<close>, \<open>TokensApi.transfer\<close>,
  \<open>TokensApi.balance\<close>, \<open>EconomyApi.info\<close> and \<open>GenZSDK\<close> with
  \<open>initialize\<close>. The validation checks of \<open>mint\<close>, \<open>transfer\<close> and
  \<open>balance\<close> throw synchronously, before any request: they are
  \<open>ValidationError\<close> results with an empty trace. Everything else delegates to
  \<open>JsClient.request\<close> on the one \<open>HttpClient\<close> the SDK object owns.
\<close>

record MintRequest =
  mint_playerId :: string
  mint_amount :: js_num
  mint_reason :: "string option"

record TransferRequest =
  fromPlayerId :: string
  toPlayerId :: string
  transfer_amount :: js_num

datatype sdk_error =
    ValidationError string   \<comment> \<open>\<open>throw new Error(...)\<close> before any request\<close>
  | RequestError js_error    \<comment> \<open>the rejection of \<open>http.request\<close>\<close>

type_synonym 'a sdk_result = "(sdk_error + 'a) \<times> js_event list"

definition lift_request :: "js_result \<times> js_event list \<Rightarrow> json option sdk_result" where
  "lift_request rt = ((case fst rt of Inl e \<Rightarrow> Inl (RequestError e) | Inr v \<Rightarrow> Inr v), snd rt)"

definition mint_body :: "MintRequest \<Rightarrow> json" where
  \<comment> \<open>\<open>JSON.stringify(req)\<close>: own properties in order, an absent \<open>reason\<close> omitted\<close>
  "mint_body req =
     JObj ([(''playerId'', JStr (mint_playerId req)), (''amount'', js_num_json (mint_amount req))]
           @ (case mint_reason req of None \<Rightarrow> [] | Some r \<Rightarrow> [(''reason'', JStr r)]))"

definition transfer_body :: "TransferRequest \<Rightarrow> json" where
  "transfer_body req =
     JObj [(''fromPlayerId'', JStr (fromPlayerId req)), (''toPlayerId'', JStr (toPlayerId req)),
           (''amount'', js_num_json (transfer_amount req))]"

definition mint :: "http_client \<Rightarrow> js_env \<Rightarrow> MintRequest \<Rightarrow> json option sdk_result" where
  "mint http env req =
     (if mint_playerId req = [] then (Inl (ValidationError ''playerId is required''), [])
      else if \<not> js_is_finite (mint_amount req) \<or> js_le_zero (mint_amount req)
      then (Inl (ValidationError ''amount must be positive''), [])
      else lift_request (request http env POST ''/v1/tokens/mint'' (Some (mint_body req))))"

definition transfer :: "http_client \<Rightarrow> js_env \<Rightarrow> TransferRequest \<Rightarrow> json option sdk_result" where
  "transfer http env req =
     (if fromPlayerId req = [] \<or> toPlayerId req = []
      then (Inl (ValidationError ''fromPlayerId and toPlayerId are required''), [])
      else if \<not> js_is_finite (transfer_amount req) \<or> js_le_zero (transfer_amount req)
      then (Inl (ValidationError ''amount must be positive''), [])
      else lift_request (request http env POST ''/v1/tokens/transfer'' (Some (transfer_body req))))"

definition balance_path :: "string \<Rightarrow> string" where
  "balance_path playerId = ''/v1/wallets/'' @ encodeURIComponent playerId @ ''/balance''"

definition balance :: "http_client \<Rightarrow> js_env \<Rightarrow> string \<Rightarrow> json option sdk_result" where
  "balance http env playerId =
     (if playerId = [] then (Inl (ValidationError ''playerId is required''), [])
      else lift_request (request http env GET (balance_path playerId) None))"

definition info :: "http_client \<Rightarrow> js_env \<Rightarrow> json option sdk_result" where
  "info http env = lift_request (request http env GET ''/v1/economy'' None)"

record GenZSDK =
  sdk_http :: http_client

definition new_GenZSDK :: "sdk_options \<Rightarrow> GenZSDK" where
  "new_GenZSDK options = \<lparr>sdk_http = new_HttpClient options\<rparr>"

definition initialize :: "GenZSDK \<Rightarrow> js_env \<Rightarrow> unit sdk_result" where
  "initialize sdk env =
     (let rt = request (sdk_http sdk) env GET ''/v1/health'' None
      in ((case fst rt of Inl e \<Rightarrow> Inl (RequestError e) | Inr _ \<Rightarrow> Inr ()), snd rt))"

text \<open>
  \<open>mint\<close> fails fast: an empty player id, or an amount that is not a
  positive finite number, gives a \<open>ValidationError\<close> and no network activity
  at all (no timer, no request, no sleep).
\<close>

theorem mint_fails_fast:
  assumes "mint_playerId req = [] \<or> \<not> js_is_finite (mint_amount req) \<or> js_le_zero (mint_amount req)"
  shows "snd (mint http env req) = [] \<and> (\<exists>msg. fst (mint http env req) = Inl (ValidationError msg))"
  using assms by (auto simp: mint_def)

theorem mint_fails_fast_witness:
  "snd (mint (new_HttpClient \<lparr>opt_baseUrl = ''https://api.genz.example'', opt_apiKey = None,
                              opt_timeoutMs = None, opt_maxRetries = None\<rparr>)
          \<lparr>fetch_at = \<lambda>_. Responds 200 EmptyText, jitter_at = \<lambda>_. 0\<rparr>
          \<lparr>mint_playerId = ''p1'', mint_amount = JsNum (-1), mint_reason = None\<rparr>) = [] \<and>
   (\<exists>msg. fst (mint (new_HttpClient \<lparr>opt_baseUrl = ''https://api.genz.example'', opt_apiKey = None,
                              opt_timeoutMs = None, opt_maxRetries = None\<rparr>)
          \<lparr>fetch_at = \<lambda>_. Responds 200 EmptyText, jitter_at = \<lambda>_. 0\<rparr>
          \<lparr>mint_playerId = ''p1'', mint_amount = JsNum (-1), mint_reason = None\<rparr>) = Inl (ValidationError msg))"
  using mint_fails_fast [of "\<lparr>mint_playerId = ''p1'', mint_amount = JsNum (-1), mint_reason = None\<rparr>"]
  by simp

text \<open>
  \<open>transfer\<close> fails fast in the same way when either player id is empty
  or the amount is not a positive finite number.
\<close>

theorem transfer_fails_fast:
  assumes "fromPlayerId req = [] \<or> toPlayerId req = [] \<or>
           \<not> js_is_finite (transfer_amount req) \<or> js_le_zero (transfer_amount req)"
  shows "snd (transfer http env req) = [] \<and> (\<exists>msg. fst (transfer http env req) = Inl (ValidationError msg))"
  using assms by (auto simp: transfer_def)

theorem transfer_fails_fast_witness:
  "snd (transfer (new_HttpClient \<lparr>opt_baseUrl = ''https://api.genz.example'', opt_apiKey = None,
                              opt_timeoutMs = None, opt_maxRetries = None\<rparr>)
          \<lparr>fetch_at = \<lambda>_. Responds 200 EmptyText, jitter_at = \<lambda>_. 0\<rparr>
          \<lparr>fromPlayerId = ''p1'', toPlayerId = [], transfer_amount = JsNum 5\<rparr>) = [] \<and>
   (\<exists>msg. fst (transfer (new_HttpClient \<lparr>opt_baseUrl = ''https://api.genz.example'', opt_apiKey = None,
                              opt_timeoutMs = None, opt_maxRetries = None\<rparr>)
          \<lparr>fetch_at = \<lambda>_. Responds 200 EmptyText, jitter_at = \<lambda>_. 0\<rparr>
          \<lparr>fromPlayerId = ''p1'', toPlayerId = [], transfer_amount = JsNum 5\<rparr>) = Inl (ValidationError msg))"
  using transfer_fails_fast [of "\<lparr>fromPlayerId = ''p1'', toPlayerId = [], transfer_amount = JsNum 5\<rparr>"]
  by simp

text \<open>
  (C14) A valid \<open>mint\<close> is exactly one logical call of the client: a
  \<open>POST /v1/tokens/mint\<close> whose every attempt carries the JSON of the request,
  with an absent \<open>reason\<close> left out.
\<close>

theorem mint_sends_request:
  assumes "mint_playerId req \<noteq> []" and "mint_amount req = JsNum r" and "0 < r"
  shows "fetched (snd (mint http env req)) =
         replicate (length (attempts (snd (mint http env req))))
           \<lparr>req_method = POST, req_url = baseUrl http @ ''/v1/tokens/mint'',
            req_headers = request_headers (apiKey http), req_body = Some (mint_body req)\<rparr>"
  using assms by (simp add: mint_def lift_request_def request_def loop_fetched request_payload_def mint_body_def)

theorem mint_sends_request_witness:
  "fetched (snd (mint (new_HttpClient \<lparr>opt_baseUrl = ''https://api.genz.example'', opt_apiKey = None,
                              opt_timeoutMs = None, opt_maxRetries = None\<rparr>)
          \<lparr>fetch_at = \<lambda>_. Responds 200 EmptyText, jitter_at = \<lambda>_. 0\<rparr>
          \<lparr>mint_playerId = ''p1'', mint_amount = JsNum 5, mint_reason = None\<rparr>)) =
   replicate (length (attempts (snd (mint (new_HttpClient \<lparr>opt_baseUrl = ''https://api.genz.example'', opt_apiKey = None,
                              opt_timeoutMs = None, opt_maxRetries = None\<rparr>)
          \<lparr>fetch_at = \<lambda>_. Responds 200 EmptyText, jitter_at = \<lambda>_. 0\<rparr>
          \<lparr>mint_playerId = ''p1'', mint_amount = JsNum 5, mint_reason = None\<rparr>))))
     \<lparr>req_method = POST, req_url = ''https://api.genz.example/v1/tokens/mint'',
      req_headers = request_headers None,
      req_body = Some (mint_body \<lparr>mint_playerId = ''p1'', mint_amount = JsNum 5, mint_reason = None\<rparr>)\<rparr>"
  using mint_sends_request [of "\<lparr>mint_playerId = ''p1'', mint_amount = JsNum 5, mint_reason = None\<rparr>" 5
      "new_HttpClient \<lparr>opt_baseUrl = ''https://api.genz.example'', opt_apiKey = None,
                              opt_timeoutMs = None, opt_maxRetries = None\<rparr>"
      "\<lparr>fetch_at = \<lambda>_. Responds 200 EmptyText, jitter_at = \<lambda>_. 0\<rparr>"]
  by (simp add: new_HttpClient_def strip_trailing_slash_def)

text \<open>
  \<open>balance(playerId)\<close> sends, on every attempt, a \<open>GET\<close> to
  \<open>/v1/wallets/<segment>/balance\<close> where the segment is the percent-encoded
  identifier, which decodes back to the identifier and holds no \<open>/\<close>.
\<close>

theorem balance_request_path:
  assumes "playerId \<noteq> []"
  shows "list_all (\<lambda>r. req_method r = GET \<and>
                        req_url r = baseUrl http @ ''/v1/wallets/'' @ encodeURIComponent playerId @ ''/balance'')
           (fetched (snd (balance http env playerId))) \<and>
         percent_decode (encodeURIComponent playerId) = Some playerId \<and>
         CHR ''/'' \<notin> set (encodeURIComponent playerId)"
  using assms encodeURIComponent_decode [of playerId] encodeURIComponent_no_slash [of playerId]
  by (simp add: balance_def lift_request_def request_def loop_fetched balance_path_def list_all_iff)

theorem balance_request_path_witness:
  "list_all (\<lambda>r. req_method r = GET \<and> req_url r = ''https://api.genz.example'' @ ''/v1/wallets/'' @ encodeURIComponent ''p 1'' @ ''/balance'')
     (fetched (snd (balance (new_HttpClient \<lparr>opt_baseUrl = ''https://api.genz.example'', opt_apiKey = None,
                              opt_timeoutMs = None, opt_maxRetries = None\<rparr>)
                     \<lparr>fetch_at = \<lambda>_. Responds 200 EmptyText, jitter_at = \<lambda>_. 0\<rparr> ''p 1''))) \<and>
   percent_decode (encodeURIComponent ''p 1'') = Some ''p 1'' \<and>
   CHR ''/'' \<notin> set (encodeURIComponent ''p 1'')"
  using balance_request_path [of "''p 1''" "new_HttpClient \<lparr>opt_baseUrl = ''https://api.genz.example'', opt_apiKey = None,
                              opt_timeoutMs = None, opt_maxRetries = None\<rparr>"
      "\<lparr>fetch_at = \<lambda>_. Responds 200 EmptyText, jitter_at = \<lambda>_. 0\<rparr>"]
  by (simp add: new_HttpClient_def strip_trailing_slash_def)

text \<open>
  The balance scenario of the specification: against a stub that answers
  \<open>{ playerId: "player_123", balance: "123456789012345678" }\<close>, \<open>balance\<close>
  returns that body unchanged, the decimal string kept as a string.
\<close>

theorem balance_returns_body_unchanged:
  "fst (balance (new_HttpClient \<lparr>opt_baseUrl = ''https://api.genz.example'', opt_apiKey = Some ''sk_test'',
                                 opt_timeoutMs = None, opt_maxRetries = None\<rparr>)
          \<lparr>fetch_at = \<lambda>_. Responds 200 (JsonText (JObj [(''playerId'', JStr ''player_123''),
                                                          (''balance'', JStr ''123456789012345678'')])),
           jitter_at = \<lambda>_. 0\<rparr> ''player_123'')
   = Inr (Some (JObj [(''playerId'', JStr ''player_123''), (''balance'', JStr ''123456789012345678'')]))"
  by (simp add: balance_def lift_request_def request_def request_loop.simps body_defs res_ok_def)

end
