(* ===== verification/CsClient.thy ===== *)
theory CsClient
  imports Backoff
begin

text \<open>
  The Unity SDK's request loop, \<open>GenZSDK.RequestWithRetry\<close> of
  \<open>src/sdk/unity/GenZSDK.cs\<close> (lines 44--98), with its constructor (lines 26--37)
  and options class (lines 10--16). A C\# \<open>int\<close> is an \<open>int\<close> here where only
  comparisons are made, and a 32-bit word where arithmetic can wrap (the delay,
  via \<open>Backoff.BackoffMs\<close>). One iteration of the \<open>for\<close> loop is \<open>cs_body\<close>,
  which says how the iteration leaves: \<open>return\<close>, an exception that escapes the
  loop, or \<open>continue\<close>; the \<open>catch\<close> clauses are \<open>catch_canceled\<close> and
  \<open>catch_http\<close>, and a \<open>Task.Delay\<close> is \<open>task_delay\<close>. Everything the network,
  the random generator and the cancellation token decide is read from a
  \<open>cs_env\<close>, indexed by the attempt. The events \<open>CsSend\<close> and \<open>CsDelay\<close> record
  what the loop does, in order.

  Two \<open>await\<close>s can wait forever: \<open>Task.Delay(-1)\<close>, and \<open>SendAsync\<close> to a
  server that never answers when \<open>HttpClient.Timeout\<close> is infinite (the
  constructor accepts \<open>TimeoutMs = -1\<close>, which \<open>TimeSpan.FromMilliseconds\<close> turns
  into \<open>Timeout.InfiniteTimeSpan\<close>). Such a call never returns; its result is the
  marker \<open>DelayNeverEnds\<close> or \<open>SendNeverCompletes\<close>, which no \<open>catch\<close> clause sees,
  and \<open>cs_returns\<close> says that a result is not one of them.
\<close>

subsection \<open>Configuration and construction\<close>

record GenZOptions =
  BaseUrl :: "string option"
  ApiKey :: "string option"
  TimeoutMs :: int
  MaxRetries :: int

definition is_null_or_empty :: "string option \<Rightarrow> bool" where
  "is_null_or_empty s \<longleftrightarrow> s = None \<or> s = Some []"

datatype cs_exception =
    ArgumentException string
  | NullReferenceException
  | ArgumentOutOfRangeException
  | TaskCanceledException
  | HttpRequestException string
  | GenericException string        \<comment> \<open>\<open>throw new Exception(message)\<close>\<close>
  | UnspecifiedConversion          \<comment> \<open>\<open>(int)Math.Pow(2, attempt)\<close> out of the range of \<open>int\<close>\<close>
  | DelayNeverEnds                 \<comment> \<open>\<open>Task.Delay(-1)\<close> waits forever\<close>
  | SendNeverCompletes             \<comment> \<open>\<open>SendAsync\<close> under an infinite \<open>HttpClient.Timeout\<close> to a silent server\<close>

definition new_GenZSDK_cs :: "GenZOptions option \<Rightarrow> cs_exception + GenZOptions" where
  \<comment> \<open>the constructor: options kept by reference, \<open>HttpClient.Timeout\<close> set from \<open>TimeoutMs\<close>\<close>
  "new_GenZSDK_cs options =
     (case options of
        None \<Rightarrow> Inl (ArgumentException ''BaseUrl is required'')
      | Some opts \<Rightarrow>
          if is_null_or_empty (BaseUrl opts) then Inl (ArgumentException ''BaseUrl is required'')
          else if TimeoutMs opts \<le> 0 \<and> TimeoutMs opts \<noteq> -1 then Inl ArgumentOutOfRangeException
          else Inr opts)"

fun trim_end_slash :: "string \<Rightarrow> string" where
  \<comment> \<open>\<open>TrimEnd('/')\<close>: every trailing slash removed\<close>
  "trim_end_slash s = rev (dropWhile (\<lambda>c. c = CHR ''/'') (rev s))"

subsection \<open>Requests and the transport\<close>

datatype cs_method = Get | Post

record cs_request =
  cs_method :: cs_method
  cs_url :: string
  cs_headers :: "(string \<times> string) list"
  cs_content :: "string option"

definition cs_headers_of :: "string option \<Rightarrow> (string \<times> string) list" where
  "cs_headers_of key =
     (''Accept'', ''application/json'') #
     (if is_null_or_empty key then [] else [(''Authorization'', ''Bearer '' @ the key)])"

datatype send_outcome =
    CsResponds int string     \<comment> \<open>\<open>SendAsync\<close> completes with this status; the body text\<close>
  | CsCanceled                \<comment> \<open>\<open>TaskCanceledException\<close>: \<open>HttpClient.Timeout\<close> or the caller's token\<close>
  | CsNetworkError string     \<comment> \<open>\<open>HttpRequestException\<close> with this message\<close>
  | CsSilent                  \<comment> \<open>the server accepts the request and never answers\<close>

record cs_env =
  send_at :: "nat \<Rightarrow> send_outcome"
  range_at :: "nat \<Rightarrow> nat"          \<comment> \<open>\<open>UnityEngine.Random.Range(0, 200)\<close> after attempt \<open>n\<close>\<close>
  canceled_at :: "nat \<Rightarrow> bool"       \<comment> \<open>the caller's token is cancelled by the delay after attempt \<open>n\<close>\<close>

datatype cs_event = CsSend nat cs_request | CsDelay nat int32

datatype cs_exit = CsReturn string | CsThrow cs_exception | CsContinue

definition cs_success :: "int \<Rightarrow> bool" where
  "cs_success st \<longleftrightarrow> 200 \<le> st \<and> st \<le> 299"

definition task_delay :: "cs_env \<Rightarrow> nat \<Rightarrow> cs_exit \<times> cs_event list" where
  \<comment> \<open>\<open>await Task.Delay(BackoffMs(attempt), ct); continue;\<close>\<close>
  "task_delay env attempt =
     (case BackoffMs attempt (range_at env attempt) of
        None \<Rightarrow> (CsThrow UnspecifiedConversion, [])
      | Some d \<Rightarrow>
          if sint d < -1 then (CsThrow ArgumentOutOfRangeException, [CsDelay attempt d])
          else if canceled_at env attempt then (CsThrow TaskCanceledException, [CsDelay attempt d])
          else if sint d = -1 then (CsThrow DelayNeverEnds, [CsDelay attempt d])
          else (CsContinue, [CsDelay attempt d]))"

definition catch_canceled :: "GenZOptions \<Rightarrow> cs_env \<Rightarrow> nat \<Rightarrow> cs_exit \<times> cs_event list" where
  "catch_canceled opts env attempt =
     (if int attempt < MaxRetries opts then task_delay env attempt
      else (CsThrow TaskCanceledException, []))"

definition catch_http :: "GenZOptions \<Rightarrow> cs_env \<Rightarrow> nat \<Rightarrow> string \<Rightarrow> cs_exit \<times> cs_event list" where
  "catch_http opts env attempt msg =
     (if int attempt < MaxRetries opts then task_delay env attempt
      else (CsThrow (GenericException (''GenZ request failed: '' @ msg)), []))"

definition cs_body ::
  "GenZOptions \<Rightarrow> cs_env \<Rightarrow> cs_request \<Rightarrow> nat \<Rightarrow> cs_exit \<times> cs_event list" where
  "cs_body opts env rq attempt =
     prepend [CsSend attempt rq]
       (case send_at env attempt of
          CsCanceled \<Rightarrow> catch_canceled opts env attempt
        | CsSilent \<Rightarrow>
            \<comment> \<open>\<open>HttpClient.Timeout\<close> elapses with a \<open>TaskCanceledException\<close>, unless it is infinite\<close>
            if TimeoutMs opts = -1 then (CsThrow SendNeverCompletes, []) else catch_canceled opts env attempt
        | CsNetworkError msg \<Rightarrow> catch_http opts env attempt msg
        | CsResponds st text \<Rightarrow>
            if \<not> cs_success st then
              (if 500 \<le> st \<and> int attempt < MaxRetries opts then
                 (case task_delay env attempt of
                    (CsThrow TaskCanceledException, evs) \<Rightarrow> prepend evs (catch_canceled opts env attempt)
                  | r \<Rightarrow> r)
               else catch_http opts env attempt (''HTTP '' @ show_int st @ '': '' @ text))
            else (CsReturn text, []))"

function cs_loop ::
  "GenZOptions \<Rightarrow> cs_env \<Rightarrow> cs_request \<Rightarrow> nat \<Rightarrow> (cs_exception + string) \<times> cs_event list" where
  "cs_loop opts env rq attempt =
     (if int attempt \<le> MaxRetries opts then
        (case cs_body opts env rq attempt of
           (CsReturn t, evs) \<Rightarrow> (Inr t, evs)
         | (CsThrow e, evs) \<Rightarrow> (Inl e, evs)
         | (CsContinue, evs) \<Rightarrow> prepend evs (cs_loop opts env rq (Suc attempt)))
      else (Inl (GenericException ''GenZ request failed after retries''), []))"
  by pat_completeness auto
termination
  by (relation "measure (\<lambda>(opts, env, rq, a). nat (MaxRetries opts + 1 - int a))") auto

declare cs_loop.simps [simp del]

definition RequestWithRetry ::
  "GenZOptions \<Rightarrow> cs_env \<Rightarrow> cs_method \<Rightarrow> string \<Rightarrow> string option \<Rightarrow> (cs_exception + string) \<times> cs_event list" where
  "RequestWithRetry opts env m path jsonBody =
     (case BaseUrl opts of
        None \<Rightarrow> (Inl NullReferenceException, [])
      | Some u \<Rightarrow>
          cs_loop opts env
            \<lparr>cs_method = m, cs_url = trim_end_slash u @ path,
             cs_headers = cs_headers_of (ApiKey opts), cs_content = jsonBody\<rparr> 0)"

fun cs_sends :: "cs_event list \<Rightarrow> nat list" where
  "cs_sends [] = []"
| "cs_sends (CsSend a _ # tr) = a # cs_sends tr"
| "cs_sends (_ # tr) = cs_sends tr"

fun cs_delays :: "cs_event list \<Rightarrow> int list" where
  "cs_delays [] = []"
| "cs_delays (CsDelay a d # tr) = sint d # cs_delays tr"
| "cs_delays (_ # tr) = cs_delays tr"

definition cs_returns :: "cs_exception + string \<Rightarrow> bool" where
  \<comment> \<open>the call returns or throws, rather than waiting forever at an \<open>await\<close>\<close>
  "cs_returns r \<longleftrightarrow> r \<noteq> Inl DelayNeverEnds \<and> r \<noteq> Inl SendNeverCompletes"

subsection \<open>Lemmas\<close>

lemma cs_sends_append [simp]: "cs_sends (xs @ ys) = cs_sends xs @ cs_sends ys"
  by (induction xs rule: cs_sends.induct) auto

lemmas cs_body_defs = cs_body_def catch_canceled_def catch_http_def task_delay_def

lemma task_delay_sends [simp]: "cs_sends (snd (task_delay env a)) = []"
  by (simp add: task_delay_def split: option.split)

lemma task_delay_sendsD: "task_delay env a = (r, evs) \<Longrightarrow> cs_sends evs = []"
  using task_delay_sends [of env a] by simp

lemma cs_body_sends [simp]: "cs_sends (snd (cs_body opts env rq a)) = [a]"
  by (auto simp: cs_body_def catch_canceled_def catch_http_def dest: task_delay_sendsD
           split: send_outcome.split prod.split cs_exit.split cs_exception.split)

lemma cs_loop_stop:
  "\<not> int a \<le> MaxRetries opts \<Longrightarrow>
   cs_loop opts env rq a = (Inl (GenericException ''GenZ request failed after retries''), [])"
  by (simp add: cs_loop.simps [of opts env rq a])

lemma cs_loop_throw:
  "int a \<le> MaxRetries opts \<Longrightarrow> cs_body opts env rq a = (CsThrow e, evs) \<Longrightarrow>
   cs_loop opts env rq a = (Inl e, evs)"
  by (simp add: cs_loop.simps [of opts env rq a])

lemma cs_loop_return:
  "int a \<le> MaxRetries opts \<Longrightarrow> cs_body opts env rq a = (CsReturn t, evs) \<Longrightarrow>
   cs_loop opts env rq a = (Inr t, evs)"
  by (simp add: cs_loop.simps [of opts env rq a])

lemma cs_loop_continue:
  "int a \<le> MaxRetries opts \<Longrightarrow> cs_body opts env rq a = (CsContinue, evs) \<Longrightarrow>
   cs_loop opts env rq a = prepend evs (cs_loop opts env rq (Suc a))"
  by (simp add: cs_loop.simps [of opts env rq a])

lemma cs_delays_append [simp]: "cs_delays (xs @ ys) = cs_delays xs @ cs_delays ys"
  by (induction xs rule: cs_delays.induct) auto

lemma cs_loop_until:
  "a \<le> b \<Longrightarrow> (\<forall>n. a \<le> n \<and> n < b \<longrightarrow> fst (cs_body opts env rq n) = CsContinue) \<Longrightarrow>
   int b \<le> MaxRetries opts \<Longrightarrow> fst (cs_body opts env rq b) = CsThrow e \<Longrightarrow>
   fst (cs_loop opts env rq a) = Inl e \<and> cs_sends (snd (cs_loop opts env rq a)) = [a..<Suc b]"
proof (induction "b - a" arbitrary: a)
  case 0
  then have "a = b" by simp
  moreover obtain evs where "cs_body opts env rq b = (CsThrow e, evs)"
    using "0.prems"(4) by (metis prod.collapse)
  ultimately show ?case
    using "0.prems"(3) cs_body_sends [of opts env rq b] by (simp add: cs_loop_throw)
next
  case (Suc d)
  then have ab: "a < b" "int a \<le> MaxRetries opts" by simp_all
  obtain evs where ev: "cs_body opts env rq a = (CsContinue, evs)"
    using Suc.prems(2) ab(1) by (metis le_refl prod.collapse)
  have "fst (cs_loop opts env rq (Suc a)) = Inl e \<and> cs_sends (snd (cs_loop opts env rq (Suc a))) = [Suc a..<Suc b]"
    using Suc by (intro Suc.hyps) simp_all
  moreover have "cs_sends evs = [a]" using ev cs_body_sends [of opts env rq a] by simp
  ultimately show ?case using ab ev by (simp add: cs_loop_continue upt_conv_Cons)
qed

lemma task_delay_ok:
  assumes "a \<le> 22" and "range_at env a < 200" and "\<not> canceled_at env a"
  shows "fst (task_delay env a) = CsContinue"
proof -
  obtain d where "BackoffMs a (range_at env a) = Some d" "sint d = int (backoffMs a (range_at env a))"
    using BackoffMs_small [OF assms(1,2)] by blast
  moreover have "300 \<le> backoffMs a (range_at env a)"
  proof -
    have "300 \<le> 300 * (2::nat) ^ a" by simp
    then show ?thesis unfolding backoffMs_def by (simp add: trans_le_add1)
  qed
  ultimately show ?thesis using assms(3) by (simp add: task_delay_def)
qed

lemma task_delay_overflow:
  assumes "range_at env 23 < 200"
  shows "fst (task_delay env 23) = CsThrow ArgumentOutOfRangeException"
  using BackoffMs_23 [OF assms] assms by (simp add: task_delay_def)

lemma cs_body_non_success_continue:
  assumes "send_at env n = CsResponds st text" "\<not> cs_success st" "int n < MaxRetries opts"
    "fst (task_delay env n) = CsContinue"
  shows "fst (cs_body opts env rq n) = CsContinue"
  using assms by (auto simp: cs_body_def catch_http_def split: prod.split cs_exit.split cs_exception.split)

lemma cs_body_non_success_last:
  assumes "send_at env n = CsResponds st text" "\<not> cs_success st" "\<not> int n < MaxRetries opts"
  shows "fst (cs_body opts env rq n) =
         CsThrow (GenericException (''GenZ request failed: HTTP '' @ show_int st @ '': '' @ text))"
  using assms by (simp add: cs_body_def catch_http_def)

lemma cs_body_non_success_delay_fails:
  assumes "send_at env n = CsResponds st text" "\<not> cs_success st" "int n < MaxRetries opts"
    "fst (task_delay env n) = CsThrow e" "e \<noteq> TaskCanceledException"
  shows "fst (cs_body opts env rq n) = CsThrow e"
  using assms by (auto simp: cs_body_def catch_http_def split: prod.split cs_exit.split cs_exception.split)

lemma cs_body_5xx_delay:
  assumes "send_at env n = CsResponds st resp" and "500 \<le> st" and "int n < MaxRetries opts"
    and "n \<le> 22" and "range_at env n < 200" and "\<not> canceled_at env n"
  shows "\<exists>evs. cs_body opts env rq n = (CsContinue, evs) \<and>
           cs_delays evs = [int (backoffMs n (range_at env n))] \<and> cs_sends evs = [n]"
proof -
  obtain d where d: "BackoffMs n (range_at env n) = Some d" "sint d = int (backoffMs n (range_at env n))"
    using BackoffMs_small [OF assms(4,5)] by blast
  have "300 \<le> backoffMs n (range_at env n)"
    unfolding backoffMs_def using le_add1 [of 300 "300 * 2 ^ n - 300"] by (simp add: trans_le_add1)
  then have "task_delay env n = (CsContinue, [CsDelay n d])"
    using d assms(6) by (simp add: task_delay_def)
  then show ?thesis
    using assms(1-3) d(2) by (simp add: cs_body_def cs_success_def)
qed

lemma cs_body_last_delays:
  "send_at env n = CsResponds st resp \<Longrightarrow> \<not> cs_success st \<Longrightarrow> \<not> int n < MaxRetries opts \<Longrightarrow>
   cs_delays (snd (cs_body opts env rq n)) = []"
  by (simp add: cs_body_def catch_http_def)

lemma cs_loop_5xx:
  assumes "MaxRetries opts = int k" and "k \<le> 22" and "\<forall>n \<le> k. send_at env n = CsResponds st resp"
    and "500 \<le> st" and "\<forall>n. range_at env n < 200" and "\<forall>n. \<not> canceled_at env n"
  shows "a \<le> k \<Longrightarrow> cs_sends (snd (cs_loop opts env rq a)) = [a..<Suc k] \<and>
           cs_delays (snd (cs_loop opts env rq a)) = map (\<lambda>i. int (backoffMs i (range_at env i))) [a..<k]"
proof (induction "k - a" arbitrary: a)
  case 0
  then have a: "a = k" by simp
  have ns: "\<not> cs_success st" using assms(4) by (simp add: cs_success_def)
  obtain r evs where ev: "cs_body opts env rq a = (r, evs)" by (metis prod.collapse)
  have "r = CsThrow (GenericException (''GenZ request failed: HTTP '' @ show_int st @ '': '' @ resp))"
    using ev cs_body_non_success_last [of env a st resp opts rq] assms(1,3) a ns by simp
  then have "cs_loop opts env rq a = (Inl (GenericException (''GenZ request failed: HTTP '' @ show_int st @ '': '' @ resp)), evs)"
    using ev a assms(1) by (simp add: cs_loop_throw)
  moreover have "cs_delays evs = []"
    using ev cs_body_last_delays [of env a st resp opts rq] assms(1,3) a ns by simp
  moreover have "cs_sends evs = [a]" using ev cs_body_sends [of opts env rq a] by simp
  ultimately show ?case using a by simp
next
  case (Suc d)
  then have ab: "a < k" by simp
  obtain evs where ev: "cs_body opts env rq a = (CsContinue, evs)"
    and dl: "cs_delays evs = [int (backoffMs a (range_at env a))]" and sn: "cs_sends evs = [a]"
    using cs_body_5xx_delay [of env a st resp opts rq] assms ab by auto
  have "cs_sends (snd (cs_loop opts env rq (Suc a))) = [Suc a..<Suc k] \<and>
        cs_delays (snd (cs_loop opts env rq (Suc a))) = map (\<lambda>i. int (backoffMs i (range_at env i))) [Suc a..<k]"
    using Suc by (intro Suc.hyps) simp_all
  then show ?case using ab ev dl sn assms(1) by (simp add: cs_loop_continue upt_conv_Cons)
qed

lemma sint_minus_one_eq: "sint (d :: int32) = -1 \<Longrightarrow> d = -1"
  by (metis signed_word_eqI sint_n1)

lemma task_delay_returns:
  "range_at env a < 200 \<Longrightarrow> fst (task_delay env a) \<noteq> CsThrow DelayNeverEnds"
  using BackoffMs_never_minus_one [of "range_at env a" a]
  by (auto simp: task_delay_def dest: sint_minus_one_eq split: option.split)

lemma task_delay_not_send: "fst (task_delay env a) \<noteq> CsThrow SendNeverCompletes"
  by (simp add: task_delay_def split: option.split)

lemma cs_body_returns:
  assumes "TimeoutMs opts \<noteq> -1" and "range_at env a < 200"
  shows "fst (cs_body opts env rq a) \<noteq> CsThrow SendNeverCompletes \<and>
         fst (cs_body opts env rq a) \<noteq> CsThrow DelayNeverEnds"
  using assms task_delay_returns [of env a] task_delay_not_send [of env a]
  by (auto simp: cs_body_def catch_canceled_def catch_http_def
           split: send_outcome.split prod.split cs_exit.split cs_exception.split)

lemma RequestWithRetry_loop:
  "BaseUrl opts = Some u \<Longrightarrow>
   RequestWithRetry opts env m path body =
     cs_loop opts env \<lparr>cs_method = m, cs_url = trim_end_slash u @ path,
                       cs_headers = cs_headers_of (ApiKey opts), cs_content = body\<rparr> 0"
  by (simp add: RequestWithRetry_def)

subsection \<open>Properties of one logical call\<close>

text \<open>
  (C7) Every non-success status is retried, 4xx included: the
  \<open>HttpRequestException\<close> thrown for a 4xx inside the \<open>try\<close> block is caught by
  the \<open>catch (HttpRequestException)\<close> clause of the same \<open>try\<close>, which retries
  while budget remains. A call answered 400 every time is sent \<open>MaxRetries + 1\<close>
  times and ends with \<open>"GenZ request failed: HTTP 400: ..."\<close>.
\<close>

theorem RequestWithRetry_retries_non_success:
  assumes "BaseUrl opts = Some u" and "MaxRetries opts = int k" and "k \<le> 23"
    and "\<forall>n \<le> k. send_at env n = CsResponds st text" and "\<not> cs_success st"
    and "\<forall>n. range_at env n < 200" and "\<forall>n. \<not> canceled_at env n"
  shows "fst (RequestWithRetry opts env m path body) =
           Inl (GenericException (''GenZ request failed: HTTP '' @ show_int st @ '': '' @ text)) \<and>
         cs_sends (snd (RequestWithRetry opts env m path body)) = [0..<Suc k]"
proof -
  let ?rq = "\<lparr>cs_method = m, cs_url = trim_end_slash u @ path,
              cs_headers = cs_headers_of (ApiKey opts), cs_content = body\<rparr>"
  have "\<forall>n::nat. 0 \<le> n \<and> n < k \<longrightarrow> fst (cs_body opts env ?rq n) = CsContinue"
  proof (intro allI impI)
    fix n :: nat assume "0 \<le> n \<and> n < k"
    then show "fst (cs_body opts env ?rq n) = CsContinue"
      using assms by (intro cs_body_non_success_continue task_delay_ok) auto
  qed
  moreover have "fst (cs_body opts env ?rq k) =
      CsThrow (GenericException (''GenZ request failed: HTTP '' @ show_int st @ '': '' @ text))"
    using assms by (intro cs_body_non_success_last) auto
  ultimately show ?thesis
    using cs_loop_until [of 0 k opts env ?rq] assms(1,2) by (simp add: RequestWithRetry_loop)
qed

theorem RequestWithRetry_retries_non_success_witness:
  "fst (RequestWithRetry \<lparr>BaseUrl = Some ''https://api.genz.example/'', ApiKey = Some ''k'', TimeoutMs = 10000, MaxRetries = 2\<rparr> \<lparr>send_at = \<lambda>_. CsResponds 400 ''bad'', range_at = \<lambda>_. 0, canceled_at = \<lambda>_. False\<rparr> Get ''/v1/economy'' None) =
     Inl (GenericException (''GenZ request failed: HTTP '' @ show_int 400 @ '': '' @ ''bad'')) \<and>
   cs_sends (snd (RequestWithRetry \<lparr>BaseUrl = Some ''https://api.genz.example/'', ApiKey = Some ''k'', TimeoutMs = 10000, MaxRetries = 2\<rparr> \<lparr>send_at = \<lambda>_. CsResponds 400 ''bad'', range_at = \<lambda>_. 0, canceled_at = \<lambda>_. False\<rparr> Get ''/v1/economy'' None)) = [0, 1, 2]"
  using RequestWithRetry_retries_non_success
    [of "\<lparr>BaseUrl = Some ''https://api.genz.example/'', ApiKey = Some ''k'', TimeoutMs = 10000, MaxRetries = 2\<rparr>" "''https://api.genz.example/''" 2 "\<lparr>send_at = \<lambda>_. CsResponds 400 ''bad'', range_at = \<lambda>_. 0, canceled_at = \<lambda>_. False\<rparr>" 400 "''bad''" Get "''/v1/economy''" None]
  by (simp add: cs_success_def upt_rec)

text \<open>
  (C8) With \<open>MaxRetries \<ge> 24\<close> and a server failing every attempt, the call
  never exhausts its budget: the delay after attempt 23 overflows to a negative
  \<open>int\<close>, \<open>Task.Delay\<close> throws \<open>ArgumentOutOfRangeException\<close>, which no
  \<open>catch\<close> clause handles, and the call ends after 24 attempts with that
  exception instead of a classified error.
\<close>

theorem RequestWithRetry_backoff_overflow:
  assumes "BaseUrl opts = Some u" and "24 \<le> MaxRetries opts"
    and "\<forall>n \<le> 23. send_at env n = CsResponds st text" and "\<not> cs_success st"
    and "\<forall>n. range_at env n < 200" and "\<forall>n. \<not> canceled_at env n"
  shows "fst (RequestWithRetry opts env m path body) = Inl ArgumentOutOfRangeException \<and>
         cs_sends (snd (RequestWithRetry opts env m path body)) = [0..<24]"
proof -
  let ?rq = "\<lparr>cs_method = m, cs_url = trim_end_slash u @ path,
              cs_headers = cs_headers_of (ApiKey opts), cs_content = body\<rparr>"
  have "\<forall>n::nat. 0 \<le> n \<and> n < 23 \<longrightarrow> fst (cs_body opts env ?rq n) = CsContinue"
  proof (intro allI impI)
    fix n :: nat assume "0 \<le> n \<and> n < 23"
    then show "fst (cs_body opts env ?rq n) = CsContinue"
      using assms by (intro cs_body_non_success_continue task_delay_ok) auto
  qed
  moreover have "fst (cs_body opts env ?rq 23) = CsThrow ArgumentOutOfRangeException"
    using assms task_delay_overflow [of env] by (intro cs_body_non_success_delay_fails) auto
  ultimately show ?thesis
    using cs_loop_until [of 0 23 opts env ?rq] assms(1,2) by (simp add: RequestWithRetry_loop)
qed

theorem RequestWithRetry_backoff_overflow_witness:
  "fst (RequestWithRetry \<lparr>BaseUrl = Some ''https://api.genz.example'', ApiKey = None, TimeoutMs = 10000, MaxRetries = 30\<rparr> \<lparr>send_at = \<lambda>_. CsResponds 503 ''down'', range_at = \<lambda>_. 199, canceled_at = \<lambda>_. False\<rparr> Get ''/v1/health'' None) = Inl ArgumentOutOfRangeException \<and>
   cs_sends (snd (RequestWithRetry \<lparr>BaseUrl = Some ''https://api.genz.example'', ApiKey = None, TimeoutMs = 10000, MaxRetries = 30\<rparr> \<lparr>send_at = \<lambda>_. CsResponds 503 ''down'', range_at = \<lambda>_. 199, canceled_at = \<lambda>_. False\<rparr> Get ''/v1/health'' None)) = [0..<24]"
  using RequestWithRetry_backoff_overflow
    [of "\<lparr>BaseUrl = Some ''https://api.genz.example'', ApiKey = None, TimeoutMs = 10000, MaxRetries = 30\<rparr>" "''https://api.genz.example''" "\<lparr>send_at = \<lambda>_. CsResponds 503 ''down'', range_at = \<lambda>_. 199, canceled_at = \<lambda>_. False\<rparr>" 503 "''down''" Get "''/v1/health''" None]
  by (simp add: cs_success_def)

text \<open>
  (C9) \<open>MaxRetries\<close> is not floored at 0: with a negative value the loop body
  never runs, no request is sent, and the call throws
  \<open>"GenZ request failed after retries"\<close>.
\<close>

theorem RequestWithRetry_negative_budget:
  assumes "BaseUrl opts = Some u" and "MaxRetries opts < 0"
  shows "RequestWithRetry opts env m path body =
           (Inl (GenericException ''GenZ request failed after retries''), [])"
  using assms by (simp add: RequestWithRetry_loop cs_loop_stop)

theorem RequestWithRetry_negative_budget_witness:
  "RequestWithRetry \<lparr>BaseUrl = Some ''https://api.genz.example'', ApiKey = None, TimeoutMs = 10000, MaxRetries = -1\<rparr>
     \<lparr>send_at = \<lambda>_. CsResponds 200 ''ok'', range_at = \<lambda>_. 0, canceled_at = \<lambda>_. False\<rparr> Get ''/v1/health'' None =
   (Inl (GenericException ''GenZ request failed after retries''), [])"
  using RequestWithRetry_negative_budget [of "\<lparr>BaseUrl = Some ''https://api.genz.example'', ApiKey = None, TimeoutMs = 10000, MaxRetries = -1\<rparr>" "''https://api.genz.example''" "\<lparr>send_at = \<lambda>_. CsResponds 200 ''ok'', range_at = \<lambda>_. 0, canceled_at = \<lambda>_. False\<rparr>" Get "''/v1/health''" None]
  by simp

lemma cs_loop_sends:
  "\<exists>b. a \<le> b \<and> int b \<le> max (int a) (MaxRetries opts + 1) \<and> cs_sends (snd (cs_loop opts env rq a)) = [a..<b]"
proof (induction opts env rq a rule: cs_loop.induct)
  case (1 opts env rq a)
  show ?case
  proof (cases "int a \<le> MaxRetries opts")
    case False
    then show ?thesis by (intro exI [of _ a]) (simp add: cs_loop_stop)
  next
    case True
    obtain x evs where xe: "cs_body opts env rq a = (x, evs)" by fastforce
    have s1: "cs_sends evs = [a]" using xe cs_body_sends [of opts env rq a] by simp
    show ?thesis
    proof (cases x)
      case (CsReturn t)
      then show ?thesis using True xe s1 by (intro exI [of _ "Suc a"]) (simp add: cs_loop_return)
    next
      case (CsThrow e)
      then show ?thesis using True xe s1 by (intro exI [of _ "Suc a"]) (simp add: cs_loop_throw)
    next
      case CsContinue
      obtain b where b: "Suc a \<le> b" "int b \<le> max (int (Suc a)) (MaxRetries opts + 1)"
        "cs_sends (snd (cs_loop opts env rq (Suc a))) = [Suc a..<b]"
        using "1.IH" [OF True xe [symmetric]] CsContinue by blast
      then show ?thesis using True xe s1 CsContinue
        by (intro exI [of _ b]) (auto simp: cs_loop_continue upt_conv_Cons)
    qed
  qed
qed

lemma cs_loop_returns:
  "TimeoutMs opts \<noteq> -1 \<Longrightarrow> \<forall>n. range_at env n < 200 \<Longrightarrow> cs_returns (fst (cs_loop opts env rq a))"
proof (induction opts env rq a rule: cs_loop.induct)
  case (1 opts env rq a)
  show ?case
  proof (cases "int a \<le> MaxRetries opts")
    case False
    then show ?thesis by (simp add: cs_loop_stop cs_returns_def)
  next
    case True
    obtain x evs where xe: "cs_body opts env rq a = (x, evs)" by fastforce
    have nb: "x \<noteq> CsThrow SendNeverCompletes \<and> x \<noteq> CsThrow DelayNeverEnds"
      using cs_body_returns [of opts env a rq] "1.prems" xe by simp
    show ?thesis
    proof (cases x)
      case (CsReturn t)
      then show ?thesis using True xe by (simp add: cs_loop_return cs_returns_def)
    next
      case (CsThrow e)
      then show ?thesis using True xe nb by (simp add: cs_loop_throw cs_returns_def)
    next
      case CsContinue
      then have "cs_returns (fst (cs_loop opts env rq (Suc a)))"
        using "1.IH" [OF True xe [symmetric]] "1.prems" by simp
      then show ?thesis using True xe CsContinue by (simp add: cs_loop_continue)
    qed
  qed
qed

text \<open>
  (C10) Every call of \<open>RequestWithRetry\<close> with a finite timeout returns
  (a result or an exception), whatever the network, the random draws and the
  cancellation token do: a silent server is cut off by \<open>HttpClient.Timeout\<close>,
  and no delay is \<open>-1\<close>. It sends the requests numbered \<open>0, 1, ..., n - 1\<close>
  for some \<open>n \<le> max 0 (MaxRetries + 1)\<close>.
\<close>

theorem RequestWithRetry_terminates_bounded:
  assumes "TimeoutMs opts \<noteq> -1" and "\<forall>n. range_at env n < 200"
  shows "cs_returns (fst (RequestWithRetry opts env m path body)) \<and>
         (\<exists>n. int n \<le> max 0 (MaxRetries opts + 1) \<and>
              cs_sends (snd (RequestWithRetry opts env m path body)) = [0..<n])"
proof (cases "BaseUrl opts")
  case None
  then show ?thesis by (intro conjI exI [of _ 0]) (simp_all add: RequestWithRetry_def cs_returns_def)
next
  case (Some u)
  then show ?thesis
    using cs_loop_sends [of 0 opts env] cs_loop_returns [OF assms] by (simp add: RequestWithRetry_loop)
qed

theorem RequestWithRetry_terminates_bounded_witness:
  "cs_returns (fst (RequestWithRetry \<lparr>BaseUrl = Some ''https://api.genz.example'', ApiKey = None, TimeoutMs = 10000, MaxRetries = 2\<rparr> \<lparr>send_at = \<lambda>_. CsSilent, range_at = \<lambda>_. 0, canceled_at = \<lambda>_. False\<rparr> Get ''/v1/health'' None)) \<and>
   (\<exists>n. int n \<le> max 0 (2 + 1) \<and>
        cs_sends (snd (RequestWithRetry \<lparr>BaseUrl = Some ''https://api.genz.example'', ApiKey = None, TimeoutMs = 10000, MaxRetries = 2\<rparr> \<lparr>send_at = \<lambda>_. CsSilent, range_at = \<lambda>_. 0, canceled_at = \<lambda>_. False\<rparr> Get ''/v1/health'' None)) = [0..<n])"
  using RequestWithRetry_terminates_bounded [of "\<lparr>BaseUrl = Some ''https://api.genz.example'', ApiKey = None, TimeoutMs = 10000, MaxRetries = 2\<rparr>" "\<lparr>send_at = \<lambda>_. CsSilent, range_at = \<lambda>_. 0, canceled_at = \<lambda>_. False\<rparr>" Get "''/v1/health''" None]
  by simp

text \<open>
  (C11) The constructor accepts \<open>TimeoutMs = -1\<close>, an infinite
  \<open>HttpClient.Timeout\<close>; a call to a server that accepts the request and never
  answers then waits forever in its first \<open>SendAsync\<close>: there is no bound on
  the latency of a call, although the specification promises one.
\<close>

theorem RequestWithRetry_infinite_timeout_hangs:
  assumes "BaseUrl opts = Some u" and "u \<noteq> []" and "TimeoutMs opts = -1"
    and "0 \<le> MaxRetries opts" and "send_at env 0 = CsSilent"
  shows "new_GenZSDK_cs (Some opts) = Inr opts \<and>
         \<not> cs_returns (fst (RequestWithRetry opts env m path body)) \<and>
         cs_sends (snd (RequestWithRetry opts env m path body)) = [0]"
  using assms
  by (simp add: new_GenZSDK_cs_def is_null_or_empty_def RequestWithRetry_loop cs_loop.simps [of opts env _ 0]
                cs_body_def cs_returns_def)

theorem RequestWithRetry_infinite_timeout_hangs_witness:
  "new_GenZSDK_cs (Some \<lparr>BaseUrl = Some ''https://api.genz.example'', ApiKey = None, TimeoutMs = -1, MaxRetries = 2\<rparr>) = Inr \<lparr>BaseUrl = Some ''https://api.genz.example'', ApiKey = None, TimeoutMs = -1, MaxRetries = 2\<rparr> \<and>
   \<not> cs_returns (fst (RequestWithRetry \<lparr>BaseUrl = Some ''https://api.genz.example'', ApiKey = None, TimeoutMs = -1, MaxRetries = 2\<rparr> \<lparr>send_at = \<lambda>_. CsSilent, range_at = \<lambda>_. 0, canceled_at = \<lambda>_. False\<rparr> Get ''/v1/health'' None)) \<and>
   cs_sends (snd (RequestWithRetry \<lparr>BaseUrl = Some ''https://api.genz.example'', ApiKey = None, TimeoutMs = -1, MaxRetries = 2\<rparr> \<lparr>send_at = \<lambda>_. CsSilent, range_at = \<lambda>_. 0, canceled_at = \<lambda>_. False\<rparr> Get ''/v1/health'' None)) = [0]"
  using RequestWithRetry_infinite_timeout_hangs [of "\<lparr>BaseUrl = Some ''https://api.genz.example'', ApiKey = None, TimeoutMs = -1, MaxRetries = 2\<rparr>" "''https://api.genz.example''" "\<lparr>send_at = \<lambda>_. CsSilent, range_at = \<lambda>_. 0, canceled_at = \<lambda>_. False\<rparr>" Get "''/v1/health''" None]
  by simp

end
