(* ===== verification/CsFacade.thy ===== *)
theory CsFacade
  imports CsClient UriEncode
begin

text \<open>
  The Unity SDK's typed calls of \<open>src/sdk/unity/GenZSDK.cs\<close> that compile:
  \<open>TokensApi.Balance\<close> (lines 142--147), \<open>EconomyApi.Info\<close> (lines 160--164)
  and \<open>GenZSDK.Initialize\<close> (lines 39--42). Each typed call checks its
  arguments, constructs a fresh \<open>GenZSDK\<close> from the shared options (which
  re-runs the constructor's checks) and hands over to \<open>RequestWithRetry\<close>. A C\#
  \<open>string\<close> parameter, which may be \<open>null\<close>, is a \<open>string option\<close>.

  \<open>TokensApi.Mint\<close> and \<open>TokensApi.Transfer\<close> are not modelled: their
  request bodies (lines 128 and 137) are interpolated strings that open with an
  unescaped \<open>{\<close>, which C\# reads as the start of an interpolation hole, so the
  two methods, and with them the file, do not compile.
\<close>

subsection \<open>The calls\<close>

type_synonym cs_result = "(cs_exception + string) \<times> cs_event list"

definition with_new_sdk ::
  "GenZOptions \<Rightarrow> (GenZOptions \<Rightarrow> cs_result) \<Rightarrow> cs_result" where
  \<comment> \<open>\<open>var sdk = new GenZSDK(options); return await sdk.RequestWithRetry(...)\<close>\<close>
  "with_new_sdk opts k =
     (case new_GenZSDK_cs (Some opts) of Inl e \<Rightarrow> (Inl e, []) | Inr o' \<Rightarrow> k o')"

definition balance_path_cs :: "string \<Rightarrow> string" where
  "balance_path_cs playerId = ''/v1/wallets/'' @ EscapeDataString playerId @ ''/balance''"

definition Balance :: "GenZOptions \<Rightarrow> cs_env \<Rightarrow> string option \<Rightarrow> cs_result" where
  "Balance opts env playerId =
     (if is_null_or_empty playerId then (Inl (ArgumentException ''playerId is required''), [])
      else with_new_sdk opts (\<lambda>o'. RequestWithRetry o' env Get (balance_path_cs (the playerId)) None))"

definition Info :: "GenZOptions \<Rightarrow> cs_env \<Rightarrow> cs_result" where
  "Info opts env = with_new_sdk opts (\<lambda>o'. RequestWithRetry o' env Get ''/v1/economy'' None)"

definition Initialize :: "GenZOptions \<Rightarrow> cs_env \<Rightarrow> cs_result" where
  "Initialize opts env = RequestWithRetry opts env Get ''/v1/health'' None"

subsection \<open>Properties of the calls\<close>

lemma with_new_sdk_valid:
  "BaseUrl opts = Some u \<Longrightarrow> u \<noteq> [] \<Longrightarrow> 0 < TimeoutMs opts \<Longrightarrow> with_new_sdk opts k = k opts"
  by (simp add: with_new_sdk_def new_GenZSDK_cs_def is_null_or_empty_def)

lemma with_new_sdk_no_base:
  "is_null_or_empty (BaseUrl opts) \<Longrightarrow> with_new_sdk opts k = (Inl (ArgumentException ''BaseUrl is required''), [])"
  by (simp add: with_new_sdk_def new_GenZSDK_cs_def)

lemma Balance_sends_request:
  assumes "playerId = Some p" and "p \<noteq> []"
    and "BaseUrl opts = Some u" and "u \<noteq> []" and "0 < TimeoutMs opts"
  shows "Balance opts env playerId = RequestWithRetry opts env Get (balance_path_cs p) None"
  using assms by (simp add: Balance_def is_null_or_empty_def with_new_sdk_valid)

text \<open>
  The typed calls rebuild \<open>GenZSDK\<close> from the shared options object and
  so re-run the constructor's check, while \<open>Initialize\<close> uses the options the
  instance holds: once \<open>BaseUrl\<close> is set to \<open>null\<close> after construction,
  \<open>Info\<close> throws \<open>ArgumentException\<close> and \<open>Initialize\<close> a
  \<open>NullReferenceException\<close>, both before sending anything.
\<close>

theorem calls_after_base_url_cleared:
  assumes "BaseUrl opts = None"
  shows "Info opts env = (Inl (ArgumentException ''BaseUrl is required''), []) \<and>
         Initialize opts env = (Inl NullReferenceException, [])"
  using assms by (simp add: Info_def Initialize_def with_new_sdk_no_base is_null_or_empty_def RequestWithRetry_def)

theorem calls_after_base_url_cleared_witness:
  "Info \<lparr>BaseUrl = None, ApiKey = None, TimeoutMs = 10000, MaxRetries = 2\<rparr> \<lparr>send_at = \<lambda>_. CsResponds 200 ''{}'', range_at = \<lambda>_. 0, canceled_at = \<lambda>_. False\<rparr> =
     (Inl (ArgumentException ''BaseUrl is required''), []) \<and>
   Initialize \<lparr>BaseUrl = None, ApiKey = None, TimeoutMs = 10000, MaxRetries = 2\<rparr> \<lparr>send_at = \<lambda>_. CsResponds 200 ''{}'', range_at = \<lambda>_. 0, canceled_at = \<lambda>_. False\<rparr> =
     (Inl NullReferenceException, [])"
  using calls_after_base_url_cleared [of "\<lparr>BaseUrl = None, ApiKey = None, TimeoutMs = 10000, MaxRetries = 2\<rparr>" "\<lparr>send_at = \<lambda>_. CsResponds 200 ''{}'', range_at = \<lambda>_. 0, canceled_at = \<lambda>_. False\<rparr>"]
  by simp

end
