(* ===== verification/Ledger.thy ===== *)
theory Ledger
  imports JsValues
begin

text \<open>
  The backend's ledger, \<open>src/backend/src/services/ledger.ts\<close>: two SQLite
  tables (\<open>deposits\<close>, \<open>mints\<close>) written with \<open>INSERT OR REPLACE\<close>, and the two
  operations \<open>recordDeposit\<close> and \<open>recordMint\<close>. A table is the list of its rows
  in insertion order. \<open>INSERT OR REPLACE\<close> deletes the rows whose primary key
  equals the new row's and appends it; a \<open>TEXT PRIMARY KEY\<close> column admits
  \<open>NULL\<close>, and \<open>NULL\<close> keys never conflict. A value is bound as better-sqlite3
  binds a JavaScript value: numbers, strings and \<open>null\<close> only; anything else
  (\<open>undefined\<close>, booleans, objects) makes the statement throw, as does a
  \<open>NULL\<close> in a \<open>NOT NULL\<close> column. An I/O failure of the database is the
  parameter \<open>db\<close> (\<open>Some msg\<close>: the statement throws with that message).
  \<open>Date.now()\<close> is the parameter \<open>now\<close>. The tables \<open>users\<close>,
  \<open>redemptions\<close> and \<open>burns\<close> are created but never written.
\<close>

datatype sql_value = SqlNull | SqlNum real | SqlText string

definition bind_value :: "json option \<Rightarrow> sql_value option" where
  "bind_value v =
     (case v of
        Some JNull \<Rightarrow> Some SqlNull
      | Some (JNum r) \<Rightarrow> Some (SqlNum r)
      | Some (JStr s) \<Rightarrow> Some (SqlText s)
      | _ \<Rightarrow> None)"

record deposit_row =
  dep_id :: sql_value
  dep_user_id :: sql_value
  dep_amount_kes :: sql_value
  dep_status :: string
  dep_created_at :: nat

record mint_row =
  mint_id :: sql_value
  mint_user_id :: sql_value
  mint_amount_wei :: sql_value
  mint_tx_hash :: sql_value
  mint_created_at :: nat

record ledger =
  deposits :: "deposit_row list"
  mints :: "mint_row list"

definition empty_ledger :: ledger where
  "empty_ledger = \<lparr>deposits = [], mints = []\<rparr>"

definition insert_or_replace :: "('r \<Rightarrow> sql_value) \<Rightarrow> 'r \<Rightarrow> 'r list \<Rightarrow> 'r list" where
  "insert_or_replace key r rows =
     filter (\<lambda>x. key r = SqlNull \<or> key x \<noteq> key r) rows @ [r]"

definition bind_text :: "string option \<Rightarrow> sql_value" where
  \<comment> \<open>\<open>mint.txHash ?? null\<close>\<close>
  "bind_text s = (case s of None \<Rightarrow> SqlNull | Some t \<Rightarrow> SqlText t)"

definition recordDeposit ::
  "string option \<Rightarrow> nat \<Rightarrow> json option \<Rightarrow> json option \<Rightarrow> json option \<Rightarrow> string \<Rightarrow> ledger \<Rightarrow> string + ledger" where
  "recordDeposit db now i userId amountKES status l =
     (case (bind_value i, bind_value userId, bind_value amountKES) of
        (Some vi, Some vu, Some va) \<Rightarrow>
          (case db of
             Some e \<Rightarrow> Inl e
           | None \<Rightarrow>
               if vu = SqlNull \<or> va = SqlNull then Inl ''NOT NULL constraint failed''
               else Inr (l\<lparr>deposits := insert_or_replace dep_id
                              \<lparr>dep_id = vi, dep_user_id = vu, dep_amount_kes = va,
                               dep_status = status, dep_created_at = now\<rparr> (deposits l)\<rparr>))
      | _ \<Rightarrow> Inl ''TypeError: SQLite3 can only bind numbers, strings, bigints, buffers, and null'')"

definition recordMint ::
  "string option \<Rightarrow> nat \<Rightarrow> string \<Rightarrow> string \<Rightarrow> string \<Rightarrow> string option \<Rightarrow> ledger \<Rightarrow> string + ledger" where
  "recordMint db now i userId amountWei txHash l =
     (case db of
        Some e \<Rightarrow> Inl e
      | None \<Rightarrow>
          Inr (l\<lparr>mints := insert_or_replace mint_id
                   \<lparr>mint_id = SqlText i, mint_user_id = SqlText userId, mint_amount_wei = SqlText amountWei,
                    mint_tx_hash = bind_text txHash, mint_created_at = now\<rparr> (mints l)\<rparr>))"

text \<open>The primary-key invariant: no two rows share a non-\<open>NULL\<close> key.\<close>

definition keys_unique :: "('r \<Rightarrow> sql_value) \<Rightarrow> 'r list \<Rightarrow> bool" where
  "keys_unique key rows = distinct (filter (\<lambda>k. k \<noteq> SqlNull) (map key rows))"

definition ledger_inv :: "ledger \<Rightarrow> bool" where
  "ledger_inv l \<longleftrightarrow> keys_unique dep_id (deposits l) \<and> keys_unique mint_id (mints l)"

subsection \<open>Lemmas\<close>

lemma distinct_filter_map_filter:
  "distinct (filter Q (map f xs)) \<Longrightarrow> distinct (filter Q (map f (filter P xs)))"
  by (induction xs) (auto simp: filter_map)

lemma insert_or_replace_keys_unique:
  assumes "keys_unique key rows"
  shows "keys_unique key (insert_or_replace key r rows)"
proof (cases "key r = SqlNull")
  case True
  then show ?thesis using assms by (simp add: keys_unique_def insert_or_replace_def)
next
  case False
  have "distinct (filter (\<lambda>k. k \<noteq> SqlNull) (map key (filter (\<lambda>x. key x \<noteq> key r) rows)))"
    using assms unfolding keys_unique_def by (rule distinct_filter_map_filter)
  moreover have "key r \<notin> set (map key (filter (\<lambda>x. key x \<noteq> key r) rows))" by auto
  ultimately show ?thesis using False by (simp add: keys_unique_def insert_or_replace_def)
qed

lemma insert_or_replace_lookup:
  "key r \<noteq> SqlNull \<Longrightarrow> filter (\<lambda>x. key x = key r) (insert_or_replace key r rows) = [r]"
  by (simp add: insert_or_replace_def filter_filter)

lemma insert_or_replace_other:
  "k \<noteq> key r \<Longrightarrow> filter (\<lambda>x. key x = k) (insert_or_replace key r rows) = filter (\<lambda>x. key x = k) rows"
  by (auto simp: insert_or_replace_def filter_filter intro: filter_cong)

lemma recordDeposit_inv:
  "recordDeposit db now i u a st l = Inr l' \<Longrightarrow> ledger_inv l \<Longrightarrow> ledger_inv l'"
  by (auto simp: recordDeposit_def ledger_inv_def insert_or_replace_keys_unique
           split: option.splits if_splits)

lemma recordMint_inv:
  "recordMint db now i u a h l = Inr l' \<Longrightarrow> ledger_inv l \<Longrightarrow> ledger_inv l'"
  by (auto simp: recordMint_def ledger_inv_def insert_or_replace_keys_unique split: option.splits)

lemma recordDeposit_mints: "recordDeposit db now i u a st l = Inr l' \<Longrightarrow> mints l' = mints l"
  by (auto simp: recordDeposit_def split: option.splits if_splits)

end
