(* ===== verification/Pretium.thy ===== *)
theory Pretium
  imports JsClient
begin

text \<open>
  The payment-provider client, \<open>src/backend/src/services/pretiumClient.ts\<close>:
  the \<open>PretiumClient\<close> constructor, \<open>payoutToBank\<close>, the private \<open>request\<close> (one
  attempt, no retry, a timer cleared in \<open>finally\<close>), the placeholder
  \<open>verifyWebhook\<close> and \<open>createPretiumFromEnv\<close>. The transport vocabulary
  (\<open>fetch_outcome\<close>, \<open>parse_body\<close>, the events) is the one of \<open>JsClient\<close>;
  the single attempt is attempt 0. \<open>process.env\<close> is passed in as the two
  values \<open>createPretiumFromEnv\<close> reads, and \<open>Date.now()\<close> as \<open>now\<close>.
\<close>

definition js_truthy_str :: "string option \<Rightarrow> bool" where
  \<comment> \<open>a string-valued (or missing) JavaScript value in a condition\<close>
  "js_truthy_str s \<longleftrightarrow> s \<noteq> None \<and> s \<noteq> Some []"

fun js_truthy :: "json \<Rightarrow> bool" where
  "js_truthy JNull = False"
| "js_truthy (JBool b) = b"
| "js_truthy (JNum r) = (r \<noteq> 0)"
| "js_truthy (JStr s) = (s \<noteq> [])"
| "js_truthy (JArr _) = True"
| "js_truthy (JObj _) = True"

record PretiumClientOptions =
  po_baseUrl :: string
  po_apiKey :: string
  po_timeoutMs :: "real option"

record PretiumClient =
  pc_baseUrl :: string
  pc_apiKey :: string
  pc_timeoutMs :: real

definition new_PretiumClient :: "PretiumClientOptions \<Rightarrow> PretiumClient" where
  "new_PretiumClient opts =
     \<lparr>pc_baseUrl = strip_trailing_slash (po_baseUrl opts), pc_apiKey = po_apiKey opts,
      pc_timeoutMs = (case po_timeoutMs opts of None \<Rightarrow> 10000 | Some t \<Rightarrow> t)\<rparr>"

record payout_params =
  pp_amountKES :: js_num
  pp_accountNumber :: string
  pp_bankCode :: "string option"
  pp_reference :: "string option"

definition payout_body :: "nat \<Rightarrow> payout_params \<Rightarrow> json" where
  "payout_body now params =
     JObj [(''currency'', JStr ''KES''),
           (''amount'', js_num_json (pp_amountKES params)),
           (''destination'', JObj [(''type'', JStr ''bank_account''),
                                  (''account_number'', JStr (pp_accountNumber params)),
                                  (''bank_code'', JStr (case pp_bankCode params of None \<Rightarrow> ''KCB'' | Some b \<Rightarrow> b))]),
           (''reference'', JStr (case pp_reference params of None \<Rightarrow> ''redeem_'' @ show_nat now | Some r \<Rightarrow> r))]"

datatype pretium_error =
    PThrown exn              \<comment> \<open>a rejection of \<open>fetch\<close>, \<open>res.text()\<close> or \<open>JSON.parse\<close>\<close>
  | PHttpError err_msg       \<comment> \<open>\<open>new Error(json?.message || `HTTP ${res.status}`)\<close>\<close>

definition pretium_error_of :: "int \<Rightarrow> json option \<Rightarrow> pretium_error" where
  "pretium_error_of st json =
     (case json of
        Some v \<Rightarrow> (case json_get v ''message'' of
                     Some m \<Rightarrow> if js_truthy m then PHttpError (ServerMessage m) else PHttpError (StatusMessage st)
                   | None \<Rightarrow> PHttpError (StatusMessage st))
      | None \<Rightarrow> PHttpError (StatusMessage st))"

definition pretium_request ::
  "PretiumClient \<Rightarrow> fetch_outcome \<Rightarrow> http_method \<Rightarrow> string \<Rightarrow> json option \<Rightarrow>
   (pretium_error + json option) \<times> js_event list" where
  "pretium_request c out m path body =
     (let rq = \<lparr>req_method = m, req_url = pc_baseUrl c @ path,
                req_headers = [(''Content-Type'', ''application/json''), (''Authorization'', ''Bearer '' @ pc_apiKey c)],
                req_body = (case body of Some b \<Rightarrow> if js_truthy b then Some b else None | None \<Rightarrow> None)\<rparr>
      in prepend [ArmTimer 0 (pc_timeoutMs c), Fetch 0 rq]
           (case out of
              FetchFails e \<Rightarrow> (Inl (PThrown e), [ClearTimer 0])
            | BodyFails st e \<Rightarrow> (Inl (PThrown e), [ClearTimer 0])
            | Responds st t \<Rightarrow>
                (case parse_body t of
                   Inl _ \<Rightarrow> (Inl (PThrown SyntaxError), [ClearTimer 0])
                 | Inr j \<Rightarrow> if \<not> res_ok st then (Inl (pretium_error_of st j), [ClearTimer 0])
                           else (Inr j, [ClearTimer 0]))))"

definition payoutToBank ::
  "PretiumClient \<Rightarrow> fetch_outcome \<Rightarrow> nat \<Rightarrow> payout_params \<Rightarrow> (pretium_error + json option) \<times> js_event list" where
  "payoutToBank c out now params = pretium_request c out POST ''/v1/fiat/payouts'' (Some (payout_body now params))"

definition verifyWebhook :: "PretiumClient \<Rightarrow> (string \<times> string) list \<Rightarrow> json \<Rightarrow> bool" where
  "verifyWebhook c headers rawBody = True"

definition createPretiumFromEnv :: "string option \<Rightarrow> string option \<Rightarrow> string + PretiumClient" where
  "createPretiumFromEnv PRETIUM_BASE_URL PRETIUM_API_KEY =
     (if \<not> js_truthy_str PRETIUM_BASE_URL \<or> \<not> js_truthy_str PRETIUM_API_KEY
      then Inl ''Missing PRETIUM_BASE_URL or PRETIUM_API_KEY''
      else Inr (new_PretiumClient \<lparr>po_baseUrl = the PRETIUM_BASE_URL, po_apiKey = the PRETIUM_API_KEY, po_timeoutMs = None\<rparr>))"


subsection \<open>Properties\<close>

text \<open>
  \<open>payoutToBank\<close> is one attempt, never retried: it arms one timer, sends one
  \<open>POST\<close> with the payout body (an object, so \<open>body ? JSON.stringify(body) :
  undefined\<close> always sends it) and clears the timer on every outcome.
\<close>

lemma payoutToBank_one_request:
  "attempts (snd (payoutToBank c out now params)) = [0] \<and>
   timers_ok None (snd (payoutToBank c out now params)) \<and>
   fetched (snd (payoutToBank c out now params)) =
     [\<lparr>req_method = POST, req_url = pc_baseUrl c @ ''/v1/fiat/payouts'',
       req_headers = [(''Content-Type'', ''application/json''), (''Authorization'', ''Bearer '' @ pc_apiKey c)],
       req_body = Some (payout_body now params)\<rparr>]"
  by (auto simp: payoutToBank_def pretium_request_def payout_body_def
           split: fetch_outcome.split sum.split)

lemma createPretiumFromEnv_client:
  "createPretiumFromEnv b k = Inr c \<Longrightarrow>
   js_truthy_str b \<and> js_truthy_str k \<and> pc_apiKey c = the k \<and> pc_timeoutMs c = 10000"
  by (auto simp: createPretiumFromEnv_def new_PretiumClient_def split: if_splits)

end
