(* ===== verification/Backend.thy ===== *)
theory Backend
  imports Ledger Pretium UriEncode
begin

text \<open>
  The Express backend, \<open>src/backend/src\<close>: the API-key middleware
  (\<open>middleware/apiKeyAuth.ts\<close>), the zod schemas and handlers of the routers
  (\<open>routes/tokens.ts\<close>, \<open>wallets.ts\<close>, \<open>deposits.ts\<close>, \<open>webhooks.ts\<close>) and the
  application that mounts them (\<open>index.ts\<close>). A handler is a function from the
  request and the server's state to a reply and the new state. The server's
  state is its ledger and the mints that took effect on chain; everything the
  outside decides (\<open>process.env\<close>, \<open>Date.now()\<close>, the database's failures, the
  chain's answers) is read from a \<open>srv_env\<close>.

  Express's own behaviour is modelled where the routes depend on it: the
  \<open>express.json\<close> body parser runs before every route (a malformed body is a
  400, and so is a top-level value other than an object or an array, as the
  parser is strict; a body over 1 MB is a 413, no body an empty object), a mount point matches
  its path and every path below it, a route matches with or without a trailing
  slash, a route parameter is percent-decoded (a malformed escape is a 400),
  and an unmatched request gets the default 404 page. A rejected promise of an
  async handler writes no reply of its own (\<open>Rejected\<close>); what the client
  then sees depends on the Express version and is left open. Route matching is
  case-sensitive here (Express ignores case by default), and a repeated
  \<open>address\<close> query parameter (which Express turns into an array) is not
  modelled: the first occurrence is used. \<open>helmet\<close> and \<open>morgan\<close> only add
  headers and log, and are not modelled; no CORS middleware is mounted, so the
  replies carry no \<open>Access-Control-Allow-Origin\<close> header and a browser page
  served from another origin cannot read them.
\<close>

subsection \<open>Configuration, requests and replies\<close>

record srv_config =
  ADMIN_API_KEY :: "string option"
  RPC_URL :: "string option"
  TOKEN_ADDRESS :: "string option"
  GENZ_MINTER_PRIVATE_KEY :: "string option"
  PRETIUM_BASE_URL :: "string option"
  PRETIUM_API_KEY :: "string option"

datatype chain_mint =
    MintRejects "string option"          \<comment> \<open>\<open>token.mint(...)\<close> rejects: nothing is sent\<close>
  | MintMined "string option"            \<comment> \<open>the transaction is mined; \<open>receipt?.hash\<close>\<close>
  | MintUnconfirmed bool "string option" \<comment> \<open>sent, \<open>tx.wait()\<close> rejects; whether it took effect\<close>

record srv_env =
  cfg :: srv_config
  now :: nat                              \<comment> \<open>\<open>Date.now()\<close>\<close>
  db_error :: "string option"             \<comment> \<open>the database statement throws with this message\<close>
  chain_mint_at :: chain_mint             \<comment> \<open>how the chain answers a mint\<close>
  balance_of :: "string \<Rightarrow> string + nat"  \<comment> \<open>\<open>token.balanceOf(address)\<close>: error message or balance\<close>

record srv_state =
  srv_ledger :: ledger
  chain_mints :: "(string \<times> string) list"  \<comment> \<open>mints that took effect on chain: recipient, amount in wei\<close>

datatype body_in = NoBody | JsonBody json | MalformedBody | OversizedBody

record srv_request =
  rq_method :: http_method
  rq_path :: string
  rq_query :: "(string \<times> string) list"
  rq_headers :: "(string \<times> string) list"   \<comment> \<open>names in lower case, as Node delivers them\<close>
  rq_body :: body_in

datatype srv_reply =
    Reply int json     \<comment> \<open>\<open>res.status(s).json(b)\<close>; \<open>res.json(b)\<close> is status 200\<close>
  | HtmlReply int      \<comment> \<open>Express's default pages: 404, body-parser errors\<close>
  | Rejected string    \<comment> \<open>the async handler's promise rejects with this error\<close>

definition message :: "string \<Rightarrow> json" where
  "message m = JObj [(''message'', JStr m)]"

definition err_message :: "string option \<Rightarrow> string \<Rightarrow> string" where
  \<comment> \<open>\<open>err?.message || fallback\<close>\<close>
  "err_message m fallback = (case m of Some s \<Rightarrow> if s = [] then fallback else s | None \<Rightarrow> fallback)"

subsection \<open>API-key middleware\<close>

definition apiKeyAuth :: "srv_config \<Rightarrow> string option \<Rightarrow> srv_reply option" where
  \<comment> \<open>\<open>None\<close> is \<open>next()\<close>\<close>
  "apiKeyAuth c authorization =
     (let provided = (case authorization of None \<Rightarrow> [] | Some h \<Rightarrow> h);
          token = (if take 7 provided = ''Bearer '' then drop 7 provided else provided);
          expected = (case ADMIN_API_KEY c of None \<Rightarrow> [] | Some k \<Rightarrow> k)
      in if expected = [] then Some (Reply 500 (message ''Server misconfigured: ADMIN_API_KEY missing''))
         else if token \<noteq> expected then Some (Reply 401 (message ''Unauthorized''))
         else None)"

subsection \<open>Schemas\<close>

text \<open>
  A zod object schema as a list of fields, each with the check of its value
  (\<open>None\<close> for a missing property). \<open>safeParse\<close> fails on a value that is not
  an object, with one issue at the root, and otherwise reports every field
  whose check fails; an issue is kept by its path.
\<close>

definition z_string_min :: "nat \<Rightarrow> json option \<Rightarrow> bool" where
  "z_string_min n v = (case v of Some (JStr s) \<Rightarrow> n \<le> length s | _ \<Rightarrow> False)"

definition z_digits :: "json option \<Rightarrow> bool" where
  \<comment> \<open>\<open>z.string().regex(/^\d+$/)\<close>\<close>
  "z_digits v = (case v of Some (JStr s) \<Rightarrow> s \<noteq> [] \<and> list_all is_digit s | _ \<Rightarrow> False)"

definition z_optional_string :: "json option \<Rightarrow> bool" where
  "z_optional_string v = (case v of None \<Rightarrow> True | Some (JStr _) \<Rightarrow> True | _ \<Rightarrow> False)"

definition z_positive_number :: "json option \<Rightarrow> bool" where
  "z_positive_number v = (case v of Some (JNum r) \<Rightarrow> 0 < r | _ \<Rightarrow> False)"

definition schema_issues :: "(string \<times> (json option \<Rightarrow> bool)) list \<Rightarrow> json \<Rightarrow> string list" where
  "schema_issues shape b =
     (case b of
        JObj _ \<Rightarrow> map fst (filter (\<lambda>(k, chk). \<not> chk (json_get b k)) shape)
      | _ \<Rightarrow> [[]])"

definition MintSchema :: "(string \<times> (json option \<Rightarrow> bool)) list" where
  "MintSchema = [(''userId'', z_string_min 1), (''to'', z_string_min 1),
                 (''amountWei'', z_digits), (''reason'', z_optional_string)]"

definition TransferSchema :: "(string \<times> (json option \<Rightarrow> bool)) list" where
  "TransferSchema = [(''from'', z_string_min 1), (''to'', z_string_min 1), (''amountWei'', z_digits)]"

definition StkSchema :: "(string \<times> (json option \<Rightarrow> bool)) list" where
  "StkSchema = [(''phone'', z_string_min 9), (''amountKES'', z_positive_number)]"

definition invalid_body :: "string list \<Rightarrow> srv_reply" where
  "invalid_body issues =
     Reply 400 (JObj [(''message'', JStr ''Invalid body''),
                      (''issues'', JArr (map (\<lambda>k. JObj [(''path'', JArr (if k = [] then [] else [JStr k]))]) issues))])"

definition str_field :: "json \<Rightarrow> string \<Rightarrow> string" where
  \<comment> \<open>\<open>parsed.data.k\<close> for a field the schema checked to be a string\<close>
  "str_field b k = (case json_get b k of Some (JStr s) \<Rightarrow> s | _ \<Rightarrow> [])"

subsection \<open>Route handlers\<close>

definition chain_config_missing :: "srv_config \<Rightarrow> bool" where
  \<comment> \<open>\<open>!rpc || !tokenAddress || !minterKey\<close>\<close>
  "chain_config_missing c \<longleftrightarrow>
     \<not> js_truthy_str (RPC_URL c) \<or> \<not> js_truthy_str (TOKEN_ADDRESS c) \<or> \<not> js_truthy_str (GENZ_MINTER_PRIVATE_KEY c)"

definition post_mint :: "srv_env \<Rightarrow> json \<Rightarrow> srv_state \<Rightarrow> srv_reply \<times> srv_state" where
  "post_mint env body s =
     (let issues = schema_issues MintSchema body in
      if issues \<noteq> [] then (invalid_body issues, s)
      else if chain_config_missing (cfg env) then (Reply 500 (message ''Server missing chain config''), s)
      else
        (let to = str_field body ''to''; amountWei = str_field body ''amountWei'';
             s1 = s\<lparr>chain_mints := chain_mints s @ [(to, amountWei)]\<rparr>
         in case chain_mint_at env of
              MintRejects m \<Rightarrow> (Reply 500 (message (err_message m ''Mint failed'')), s)
            | MintUnconfirmed took_effect m \<Rightarrow>
                (Reply 500 (message (err_message m ''Mint failed'')), if took_effect then s1 else s)
            | MintMined h \<Rightarrow>
                (let mintId = ''mint_'' @ show_nat (now env) in
                 case recordMint (db_error env) (now env) mintId (str_field body ''userId'') amountWei h (srv_ledger s1) of
                   Inl e \<Rightarrow> (Reply 500 (message (err_message (Some e) ''Mint failed'')), s1)
                 | Inr l \<Rightarrow>
                     (Reply 200 (JObj ((case h of None \<Rightarrow> [] | Some x \<Rightarrow> [(''transactionId'', JStr x)]) @
                                       [(''mintId'', JStr mintId)])),
                      s1\<lparr>srv_ledger := l\<rparr>))))"

definition post_transfer :: "json \<Rightarrow> srv_reply" where
  "post_transfer body =
     (let issues = schema_issues TransferSchema body in
      if issues \<noteq> [] then invalid_body issues
      else Reply 501 (message ''Not implemented: server-initiated transfer''))"

definition get_balance :: "srv_env \<Rightarrow> string \<Rightarrow> string option \<Rightarrow> srv_reply" where
  "get_balance env playerId address =
     (if \<not> js_truthy_str address then Reply 400 (message ''address query param required'')
      else if \<not> js_truthy_str (RPC_URL (cfg env)) \<or> \<not> js_truthy_str (TOKEN_ADDRESS (cfg env))
      then Reply 500 (message ''Server missing chain config'')
      else (case balance_of env (the address) of
              Inl m \<Rightarrow> Reply 500 (message (err_message (Some m) ''Failed to fetch balance''))
            | Inr b \<Rightarrow> Reply 200 (JObj [(''playerId'', JStr playerId), (''balance'', JStr (show_nat b))])))"

definition post_initiate_stk :: "srv_env \<Rightarrow> json \<Rightarrow> srv_reply" where
  "post_initiate_stk env body =
     (let issues = schema_issues StkSchema body in
      if issues \<noteq> [] then invalid_body issues
      else Reply 200 (JObj [(''status'', JStr ''initiated''), (''reference'', JStr (''stk_'' @ show_nat (now env)))]))"

definition post_pretium ::
  "srv_env \<Rightarrow> (string \<times> string) list \<Rightarrow> json \<Rightarrow> srv_state \<Rightarrow> srv_reply \<times> srv_state" where
  "post_pretium env headers body s =
     (case createPretiumFromEnv (PRETIUM_BASE_URL (cfg env)) (PRETIUM_API_KEY (cfg env)) of
        Inl e \<Rightarrow> (Rejected e, s)
      | Inr client \<Rightarrow>
          if \<not> verifyWebhook client headers body then (Reply 400 (message ''invalid signature''), s)
          else if json_get body ''type'' = Some (JStr ''deposit.settled'') then
            (case json_get body ''data'' of
               None \<Rightarrow> (Rejected ''TypeError'', s)
             | Some d \<Rightarrow>
                 if d = JNull then (Rejected ''TypeError'', s)
                 else (case recordDeposit (db_error env) (now env) (json_get d ''id'') (json_get d ''user_id'')
                              (json_get d ''amount_kes'') ''settled'' (srv_ledger s) of
                         Inl e \<Rightarrow> (Rejected e, s)
                       | Inr l \<Rightarrow> (Reply 200 (JObj [(''received'', JBool True)]), s\<lparr>srv_ledger := l\<rparr>)))
          else (Reply 200 (JObj [(''received'', JBool True)]), s))"

definition health_get :: "srv_reply" where
  \<comment> \<open>\<open>routes/health.js\<close> is not part of the sources; the wire contract's \<open>200 {}\<close>\<close>
  "health_get = Reply 200 (JObj [])"

subsection \<open>The application\<close>

definition mount_rest :: "string \<Rightarrow> string \<Rightarrow> string option" where
  \<comment> \<open>\<open>app.use(prefix, ...)\<close>: the path below the mount point, if the request is under it\<close>
  "mount_rest prefix path =
     (if path = prefix then Some ''/''
      else if take (length prefix + 1) path = prefix @ ''/'' then Some (drop (length prefix) path)
      else None)"

definition route_is :: "string \<Rightarrow> string \<Rightarrow> bool" where
  \<comment> \<open>non-strict routing: a trailing slash is ignored\<close>
  "route_is pat rest \<longleftrightarrow> rest = pat \<or> rest = pat @ ''/''"

definition balance_param :: "string \<Rightarrow> string option" where
  \<comment> \<open>\<open>'/:playerId/balance'\<close>: the raw segment, if the path matches\<close>
  "balance_param rest =
     (let r = (if 1 < length rest \<and> last rest = CHR ''/'' then butlast rest else rest);
          n = length r
      in if 9 < n \<and> take 1 r = ''/'' \<and> drop (n - 8) r = ''/balance''
            \<and> CHR ''/'' \<notin> set (take (n - 9) (drop 1 r))
         then Some (take (n - 9) (drop 1 r)) else None)"

definition tokensRouter ::
  "srv_env \<Rightarrow> http_method \<Rightarrow> string \<Rightarrow> json \<Rightarrow> srv_state \<Rightarrow> (srv_reply \<times> srv_state) option" where
  "tokensRouter env m rest body s =
     (if m = POST \<and> route_is ''/mint'' rest then Some (post_mint env body s)
      else if m = POST \<and> route_is ''/transfer'' rest then Some (post_transfer body, s)
      else None)"

definition walletsRouter ::
  "srv_env \<Rightarrow> http_method \<Rightarrow> string \<Rightarrow> (string \<times> string) list \<Rightarrow> srv_reply option" where
  "walletsRouter env m rest query =
     (if m \<noteq> GET then None
      else case balance_param rest of
             None \<Rightarrow> None
           | Some seg \<Rightarrow>
               (case percent_decode seg of
                  None \<Rightarrow> Some (HtmlReply 400)
                | Some playerId \<Rightarrow> Some (get_balance env playerId (map_of query ''address''))))"

definition depositsRouter :: "srv_env \<Rightarrow> http_method \<Rightarrow> string \<Rightarrow> json \<Rightarrow> srv_reply option" where
  "depositsRouter env m rest body =
     (if m = POST \<and> route_is ''/initiate-stk'' rest then Some (post_initiate_stk env body) else None)"

definition webhooksRouter ::
  "srv_env \<Rightarrow> http_method \<Rightarrow> string \<Rightarrow> (string \<times> string) list \<Rightarrow> json \<Rightarrow> srv_state \<Rightarrow>
   (srv_reply \<times> srv_state) option" where
  "webhooksRouter env m rest headers body s =
     (if m = POST \<and> route_is ''/pretium'' rest then Some (post_pretium env headers body s) else None)"

definition healthRouter :: "http_method \<Rightarrow> string \<Rightarrow> srv_reply option" where
  "healthRouter m rest = (if m = GET \<and> route_is ''/'' rest then Some health_get else None)"

definition or_404 :: "(srv_reply \<times> srv_state) option \<Rightarrow> srv_state \<Rightarrow> srv_reply \<times> srv_state" where
  \<comment> \<open>a router that matches nothing calls \<open>next()\<close>; no later mount point matches, so Express answers 404\<close>
  "or_404 r s = (case r of Some rs \<Rightarrow> rs | None \<Rightarrow> (HtmlReply 404, s))"

fun strict_json_body :: "body_in \<Rightarrow> bool" where
  \<comment> \<open>\<open>express.json\<close> is strict by default: a body whose top-level value is not an
      object or an array is a parse error (400)\<close>
  "strict_json_body (JsonBody (JObj _)) = True"
| "strict_json_body (JsonBody (JArr _)) = True"
| "strict_json_body (JsonBody _) = False"
| "strict_json_body _ = True"

definition app :: "srv_env \<Rightarrow> srv_request \<Rightarrow> srv_state \<Rightarrow> srv_reply \<times> srv_state" where
  "app env rq s =
     (case rq_body rq of
        MalformedBody \<Rightarrow> (HtmlReply 400, s)
      | OversizedBody \<Rightarrow> (HtmlReply 413, s)
      | _ \<Rightarrow>
        if \<not> strict_json_body (rq_body rq) then (HtmlReply 400, s) else
        (let body = (case rq_body rq of JsonBody j \<Rightarrow> j | _ \<Rightarrow> JObj []);
             m = rq_method rq; path = rq_path rq
         in case mount_rest ''/v1/health'' path of
              Some rest \<Rightarrow> or_404 (map_option (\<lambda>r. (r, s)) (healthRouter m rest)) s
            | None \<Rightarrow>
         case mount_rest ''/v1/tokens'' path of
              Some rest \<Rightarrow>
                (case apiKeyAuth (cfg env) (map_of (rq_headers rq) ''authorization'') of
                   Some r \<Rightarrow> (r, s)
                 | None \<Rightarrow> or_404 (tokensRouter env m rest body s) s)
            | None \<Rightarrow>
         case mount_rest ''/v1/wallets'' path of
              Some rest \<Rightarrow>
                (case apiKeyAuth (cfg env) (map_of (rq_headers rq) ''authorization'') of
                   Some r \<Rightarrow> (r, s)
                 | None \<Rightarrow> or_404 (map_option (\<lambda>r. (r, s)) (walletsRouter env m rest (rq_query rq))) s)
            | None \<Rightarrow>
         case mount_rest ''/v1/deposits'' path of
              Some rest \<Rightarrow> or_404 (map_option (\<lambda>r. (r, s)) (depositsRouter env m rest body)) s
            | None \<Rightarrow>
         case mount_rest ''/v1/webhooks'' path of
              Some rest \<Rightarrow> or_404 (webhooksRouter env m rest (rq_headers rq) body s) s
            | None \<Rightarrow> (HtmlReply 404, s)))"

fun reply_status :: "srv_reply \<Rightarrow> int option" where
  "reply_status (Reply st _) = Some st"
| "reply_status (HtmlReply st) = Some st"
| "reply_status (Rejected _) = None"

subsection \<open>Lemmas\<close>

lemma balance_param_segment:
  "seg \<noteq> [] \<Longrightarrow> CHR ''/'' \<notin> set seg \<Longrightarrow> balance_param (CHR ''/'' # seg @ ''/balance'') = Some seg"
  by (simp add: balance_param_def Let_def)

lemma take_7_Bearer: "take 7 (''Bearer '' @ k) = ''Bearer ''" "drop 7 (''Bearer '' @ k) = k"
  by simp_all

lemmas webhook_simps = app_def mount_rest_def webhooksRouter_def route_is_def or_404_def post_pretium_def
  createPretiumFromEnv_def verifyWebhook_def recordDeposit_def bind_value_def

lemma app_webhook_settled:
  assumes "js_truthy_str (PRETIUM_BASE_URL (cfg env))" and "js_truthy_str (PRETIUM_API_KEY (cfg env))"
    and "db_error env = None" and "bind_value (Some v) = Some k"
  shows "app env \<lparr>rq_method = POST, rq_path = ''/v1/webhooks/pretium'', rq_query = q, rq_headers = h,
           rq_body = JsonBody (JObj [(''type'', JStr ''deposit.settled''),
             (''data'', JObj [(''id'', v), (''user_id'', JStr u), (''amount_kes'', JNum a)])])\<rparr> s =
         (Reply 200 (JObj [(''received'', JBool True)]),
          s\<lparr>srv_ledger := (srv_ledger s)\<lparr>deposits := insert_or_replace dep_id
             \<lparr>dep_id = k, dep_user_id = SqlText u, dep_amount_kes = SqlNum a,
              dep_status = ''settled'', dep_created_at = now env\<rparr> (deposits (srv_ledger s))\<rparr>\<rparr>)"
  using assms by (simp add: webhook_simps)

lemma post_pretium_rejected: "fst (post_pretium env h b s) = Rejected m \<Longrightarrow> snd (post_pretium env h b s) = s"
  by (auto simp: post_pretium_def split: sum.splits option.splits if_splits)

lemma post_mint_not_rejected: "fst (post_mint env b s) \<noteq> Rejected m"
  by (auto simp: post_mint_def Let_def invalid_body_def split: chain_mint.split sum.split)

text \<open>
  (C27) The middleware lets a request through exactly when a non-empty
  \<open>ADMIN_API_KEY\<close> is configured and the \<open>Authorization\<close> header is
  \<open>Bearer <key>\<close>, or is the bare key itself (when the key does not start with
  \<open>Bearer \<close>); without a configured key every request gets a 500.
\<close>

theorem apiKeyAuth_passes_iff:
  "apiKeyAuth c a = None \<longleftrightarrow>
   (\<exists>k. ADMIN_API_KEY c = Some k \<and> k \<noteq> [] \<and>
        (a = Some (''Bearer '' @ k) \<or> (a = Some k \<and> take 7 k \<noteq> ''Bearer '')))"
proof -
  have "take 7 h = ''Bearer '' \<Longrightarrow> h = ''Bearer '' @ drop 7 h" for h :: string
    by (metis append_take_drop_id)
  then show ?thesis
    by (cases a; cases "ADMIN_API_KEY c") (auto simp: apiKeyAuth_def Let_def)
qed

lemma post_mint_inv:
  "ledger_inv (srv_ledger s) \<Longrightarrow> ledger_inv (srv_ledger (snd (post_mint env b s)))"
  by (auto simp: post_mint_def Let_def intro: recordMint_inv split: chain_mint.split sum.split)

lemma post_pretium_inv:
  "ledger_inv (srv_ledger s) \<Longrightarrow> ledger_inv (srv_ledger (snd (post_pretium env h b s)))"
  by (auto simp: post_pretium_def intro: recordDeposit_inv split: sum.split option.split)

lemma app_inv:
  assumes "ledger_inv (srv_ledger s)"
  shows "ledger_inv (srv_ledger (snd (app env rq s)))"
proof -
  have t: "ledger_inv (srv_ledger (snd (or_404 (tokensRouter env m r b s) s)))" for m r b
    using assms post_mint_inv [OF assms] by (simp add: or_404_def tokensRouter_def)
  have w: "ledger_inv (srv_ledger (snd (or_404 (webhooksRouter env m r h b s) s)))" for m r h b
    using assms post_pretium_inv [OF assms] by (simp add: or_404_def webhooksRouter_def)
  have o: "ledger_inv (srv_ledger (snd (or_404 (map_option (\<lambda>r. (r, s)) x) s)))" for x
    using assms by (cases x) (simp_all add: or_404_def)
  show ?thesis
    using assms t w o by (simp add: app_def Let_def split: body_in.split option.split)
qed


theorem apiKeyAuth_passes_iff_witness:
  "apiKeyAuth \<lparr>ADMIN_API_KEY = Some ''k3y'', RPC_URL = Some ''http://rpc'', TOKEN_ADDRESS = Some ''0xT'', GENZ_MINTER_PRIVATE_KEY = Some ''0xK'', PRETIUM_BASE_URL = Some ''https://pretium'', PRETIUM_API_KEY = Some ''pk''\<rparr> (Some ''Bearer k3y'') = None \<and> apiKeyAuth \<lparr>ADMIN_API_KEY = Some ''k3y'', RPC_URL = Some ''http://rpc'', TOKEN_ADDRESS = Some ''0xT'', GENZ_MINTER_PRIVATE_KEY = Some ''0xK'', PRETIUM_BASE_URL = Some ''https://pretium'', PRETIUM_API_KEY = Some ''pk''\<rparr> (Some ''k3y'') = None \<and>
   apiKeyAuth \<lparr>ADMIN_API_KEY = Some ''k3y'', RPC_URL = Some ''http://rpc'', TOKEN_ADDRESS = Some ''0xT'', GENZ_MINTER_PRIVATE_KEY = Some ''0xK'', PRETIUM_BASE_URL = Some ''https://pretium'', PRETIUM_API_KEY = Some ''pk''\<rparr> (Some ''Bearer other'') \<noteq> None"
  using apiKeyAuth_passes_iff [of "\<lparr>ADMIN_API_KEY = Some ''k3y'', RPC_URL = Some ''http://rpc'', TOKEN_ADDRESS = Some ''0xT'', GENZ_MINTER_PRIVATE_KEY = Some ''0xK'', PRETIUM_BASE_URL = Some ''https://pretium'', PRETIUM_API_KEY = Some ''pk''\<rparr>" "Some ''Bearer k3y''"] apiKeyAuth_passes_iff [of "\<lparr>ADMIN_API_KEY = Some ''k3y'', RPC_URL = Some ''http://rpc'', TOKEN_ADDRESS = Some ''0xT'', GENZ_MINTER_PRIVATE_KEY = Some ''0xK'', PRETIUM_BASE_URL = Some ''https://pretium'', PRETIUM_API_KEY = Some ''pk''\<rparr>" "Some ''k3y''"]
        apiKeyAuth_passes_iff [of "\<lparr>ADMIN_API_KEY = Some ''k3y'', RPC_URL = Some ''http://rpc'', TOKEN_ADDRESS = Some ''0xT'', GENZ_MINTER_PRIVATE_KEY = Some ''0xK'', PRETIUM_BASE_URL = Some ''https://pretium'', PRETIUM_API_KEY = Some ''pk''\<rparr>" "Some ''Bearer other''"]
  by auto

lemma post_mint_success:
  assumes "reply_status (fst (post_mint e b s)) = Some 200"
  shows "chain_mints (snd (post_mint e b s)) = chain_mints s @ [(str_field b ''to'', str_field b ''amountWei'')] \<and>
         (\<exists>r. mint_id r = SqlText (''mint_'' @ show_nat (now e)) \<and>
              mints (srv_ledger (snd (post_mint e b s))) = insert_or_replace mint_id r (mints (srv_ledger s)))"
proof (cases "chain_mint_at e")
  case (MintMined h)
  then show ?thesis using assms
    by (auto simp: post_mint_def Let_def recordMint_def invalid_body_def split: if_splits option.splits
             intro!: exI [where x="\<lparr>mint_id = SqlText (''mint_'' @ show_nat (now e)),
                                  mint_user_id = SqlText (str_field b ''userId''),
                                  mint_amount_wei = SqlText (str_field b ''amountWei''),
                                  mint_tx_hash = bind_text h, mint_created_at = now e\<rparr>"])
next
  case (MintRejects m)
  then show ?thesis using assms by (simp add: post_mint_def Let_def invalid_body_def split: if_splits)
next
  case (MintUnconfirmed b m)
  then show ?thesis using assms by (simp add: post_mint_def Let_def invalid_body_def split: if_splits)
qed


text \<open>
  (C22) Mint ids are \<open>mint_<Date.now()>\<close>. Two mints that both succeed within
  the same millisecond (as two mints mined in the same block are, when their
  \<open>tx.wait()\<close> resume in the same turn of the event loop) both take effect on
  chain, but the second \<open>INSERT OR REPLACE\<close> deletes the first one's ledger
  row: the ledger keeps one row for the two mints.
\<close>

theorem post_mint_same_millisecond:
  assumes "reply_status (fst (post_mint e1 b1 s)) = Some 200"
    and "reply_status (fst (post_mint e2 b2 (snd (post_mint e1 b1 s)))) = Some 200"
    and "now e2 = now e1"
  shows "chain_mints (snd (post_mint e2 b2 (snd (post_mint e1 b1 s)))) =
           chain_mints s @ [(str_field b1 ''to'', str_field b1 ''amountWei''),
                            (str_field b2 ''to'', str_field b2 ''amountWei'')] \<and>
         length (filter (\<lambda>r. mint_id r = SqlText (''mint_'' @ show_nat (now e1)))
                  (mints (srv_ledger (snd (post_mint e2 b2 (snd (post_mint e1 b1 s))))))) = 1"
proof -
  obtain r where r: "mint_id r = SqlText (''mint_'' @ show_nat (now e1))"
    "mints (srv_ledger (snd (post_mint e2 b2 (snd (post_mint e1 b1 s))))) =
       insert_or_replace mint_id r (mints (srv_ledger (snd (post_mint e1 b1 s))))"
    using post_mint_success [OF assms(2)] assms(3) by auto
  have "filter (\<lambda>x. mint_id x = mint_id r)
          (insert_or_replace mint_id r (mints (srv_ledger (snd (post_mint e1 b1 s))))) = [r]"
    using r(1) by (intro insert_or_replace_lookup) simp
  then show ?thesis
    using r post_mint_success [OF assms(1)] post_mint_success [OF assms(2)] by simp
qed


theorem post_mint_same_millisecond_witness:
  "chain_mints (snd (post_mint \<lparr>cfg = \<lparr>ADMIN_API_KEY = Some ''k3y'', RPC_URL = Some ''http://rpc'', TOKEN_ADDRESS = Some ''0xT'', GENZ_MINTER_PRIVATE_KEY = Some ''0xK'', PRETIUM_BASE_URL = Some ''https://pretium'', PRETIUM_API_KEY = Some ''pk''\<rparr>, now = 1700000000000, db_error = None, chain_mint_at = MintMined (Some ''0xh''), balance_of = \<lambda>_. Inr 0\<rparr> (JObj [(''userId'', JStr ''u2''), (''to'', JStr ''0xB''), (''amountWei'', JStr ''7'')]) (snd (post_mint \<lparr>cfg = \<lparr>ADMIN_API_KEY = Some ''k3y'', RPC_URL = Some ''http://rpc'', TOKEN_ADDRESS = Some ''0xT'', GENZ_MINTER_PRIVATE_KEY = Some ''0xK'', PRETIUM_BASE_URL = Some ''https://pretium'', PRETIUM_API_KEY = Some ''pk''\<rparr>, now = 1700000000000, db_error = None, chain_mint_at = MintMined (Some ''0xh''), balance_of = \<lambda>_. Inr 0\<rparr> (JObj [(''userId'', JStr ''u1''), (''to'', JStr ''0xA''), (''amountWei'', JStr ''5'')]) \<lparr>srv_ledger = empty_ledger, chain_mints = []\<rparr>)))) = [(''0xA'', ''5''), (''0xB'', ''7'')] \<and>
   length (filter (\<lambda>r. mint_id r = SqlText (''mint_'' @ show_nat 1700000000000))
            (mints (srv_ledger (snd (post_mint \<lparr>cfg = \<lparr>ADMIN_API_KEY = Some ''k3y'', RPC_URL = Some ''http://rpc'', TOKEN_ADDRESS = Some ''0xT'', GENZ_MINTER_PRIVATE_KEY = Some ''0xK'', PRETIUM_BASE_URL = Some ''https://pretium'', PRETIUM_API_KEY = Some ''pk''\<rparr>, now = 1700000000000, db_error = None, chain_mint_at = MintMined (Some ''0xh''), balance_of = \<lambda>_. Inr 0\<rparr> (JObj [(''userId'', JStr ''u2''), (''to'', JStr ''0xB''), (''amountWei'', JStr ''7'')]) (snd (post_mint \<lparr>cfg = \<lparr>ADMIN_API_KEY = Some ''k3y'', RPC_URL = Some ''http://rpc'', TOKEN_ADDRESS = Some ''0xT'', GENZ_MINTER_PRIVATE_KEY = Some ''0xK'', PRETIUM_BASE_URL = Some ''https://pretium'', PRETIUM_API_KEY = Some ''pk''\<rparr>, now = 1700000000000, db_error = None, chain_mint_at = MintMined (Some ''0xh''), balance_of = \<lambda>_. Inr 0\<rparr> (JObj [(''userId'', JStr ''u1''), (''to'', JStr ''0xA''), (''amountWei'', JStr ''5'')]) \<lparr>srv_ledger = empty_ledger, chain_mints = []\<rparr>))))))) = 1"
  using post_mint_same_millisecond [of "\<lparr>cfg = \<lparr>ADMIN_API_KEY = Some ''k3y'', RPC_URL = Some ''http://rpc'', TOKEN_ADDRESS = Some ''0xT'', GENZ_MINTER_PRIVATE_KEY = Some ''0xK'', PRETIUM_BASE_URL = Some ''https://pretium'', PRETIUM_API_KEY = Some ''pk''\<rparr>, now = 1700000000000, db_error = None, chain_mint_at = MintMined (Some ''0xh''), balance_of = \<lambda>_. Inr 0\<rparr>" "JObj [(''userId'', JStr ''u1''), (''to'', JStr ''0xA''), (''amountWei'', JStr ''5'')]" "\<lparr>srv_ledger = empty_ledger, chain_mints = []\<rparr>" "\<lparr>cfg = \<lparr>ADMIN_API_KEY = Some ''k3y'', RPC_URL = Some ''http://rpc'', TOKEN_ADDRESS = Some ''0xT'', GENZ_MINTER_PRIVATE_KEY = Some ''0xK'', PRETIUM_BASE_URL = Some ''https://pretium'', PRETIUM_API_KEY = Some ''pk''\<rparr>, now = 1700000000000, db_error = None, chain_mint_at = MintMined (Some ''0xh''), balance_of = \<lambda>_. Inr 0\<rparr>" "JObj [(''userId'', JStr ''u2''), (''to'', JStr ''0xB''), (''amountWei'', JStr ''7'')]"]
  by (simp add: post_mint_def Let_def schema_issues_def MintSchema_def z_string_min_def z_digits_def is_digit_def
                z_optional_string_def chain_config_missing_def js_truthy_str_def recordMint_def str_field_def
                insert_or_replace_def empty_ledger_def)

text \<open>
  (C20) The Pretium webhook is unauthenticated: it is mounted without the
  API-key middleware and \<open>verifyWebhook\<close> accepts everything, so any caller,
  whatever headers it sends, can have a deposit recorded as settled.
\<close>

theorem webhook_records_forged_deposit:
  assumes "js_truthy_str (PRETIUM_BASE_URL (cfg env))" and "js_truthy_str (PRETIUM_API_KEY (cfg env))"
    and "db_error env = None"
    and "rq_method rq = POST" and "rq_path rq = ''/v1/webhooks/pretium''"
    and "rq_body rq = JsonBody (JObj [(''type'', JStr ''deposit.settled''),
           (''data'', JObj [(''id'', JStr i), (''user_id'', JStr u), (''amount_kes'', JNum a)])])"
  shows "fst (app env rq s) = Reply 200 (JObj [(''received'', JBool True)]) \<and>
         deposits (srv_ledger (snd (app env rq s))) =
           insert_or_replace dep_id \<lparr>dep_id = SqlText i, dep_user_id = SqlText u, dep_amount_kes = SqlNum a,
                                    dep_status = ''settled'', dep_created_at = now env\<rparr> (deposits (srv_ledger s))"
  using assms by (simp add: webhook_simps)


theorem webhook_records_forged_deposit_witness:
  "fst (app \<lparr>cfg = \<lparr>ADMIN_API_KEY = Some ''k3y'', RPC_URL = Some ''http://rpc'', TOKEN_ADDRESS = Some ''0xT'', GENZ_MINTER_PRIVATE_KEY = Some ''0xK'', PRETIUM_BASE_URL = Some ''https://pretium'', PRETIUM_API_KEY = Some ''pk''\<rparr>, now = 1700000000000, db_error = None, chain_mint_at = MintMined (Some ''0xh''), balance_of = \<lambda>_. Inr 0\<rparr> \<lparr>rq_method = POST, rq_path = ''/v1/webhooks/pretium'', rq_query = [], rq_headers = [],
          rq_body = JsonBody (JObj [(''type'', JStr ''deposit.settled''),
             (''data'', JObj [(''id'', JStr ''d1''), (''user_id'', JStr ''u1''), (''amount_kes'', JNum 1000)])])\<rparr> \<lparr>srv_ledger = empty_ledger, chain_mints = []\<rparr>) =
     Reply 200 (JObj [(''received'', JBool True)])"
  using webhook_records_forged_deposit [of "\<lparr>cfg = \<lparr>ADMIN_API_KEY = Some ''k3y'', RPC_URL = Some ''http://rpc'', TOKEN_ADDRESS = Some ''0xT'', GENZ_MINTER_PRIVATE_KEY = Some ''0xK'', PRETIUM_BASE_URL = Some ''https://pretium'', PRETIUM_API_KEY = Some ''pk''\<rparr>, now = 1700000000000, db_error = None, chain_mint_at = MintMined (Some ''0xh''), balance_of = \<lambda>_. Inr 0\<rparr>"
      "\<lparr>rq_method = POST, rq_path = ''/v1/webhooks/pretium'', rq_query = [], rq_headers = [],
          rq_body = JsonBody (JObj [(''type'', JStr ''deposit.settled''),
             (''data'', JObj [(''id'', JStr ''d1''), (''user_id'', JStr ''u1''), (''amount_kes'', JNum 1000)])])\<rparr>"
      "''d1''" "''u1''" 1000 "\<lparr>srv_ledger = empty_ledger, chain_mints = []\<rparr>"]
  by (simp add: js_truthy_str_def)

lemma post_pretium_keeps_mints:
  "mints (srv_ledger (snd (post_pretium env h b s))) = mints (srv_ledger s) \<and>
   chain_mints (snd (post_pretium env h b s)) = chain_mints s"
  by (auto simp: post_pretium_def dest: recordDeposit_mints split: sum.split option.split)

text \<open>
  (C23) Only an authenticated request can mint: a request that the API-key
  middleware would refuse (no key configured, or a wrong or missing
  \<open>Authorization\<close> header) leaves the \<open>mints\<close> table and the tokens minted on
  chain unchanged, whatever its path, method and body. The webhook route,
  which is not behind the middleware, writes only the \<open>deposits\<close> table.
\<close>

theorem unauthenticated_requests_never_mint:
  assumes "apiKeyAuth (cfg env) (map_of (rq_headers rq) ''authorization'') \<noteq> None"
  shows "mints (srv_ledger (snd (app env rq s))) = mints (srv_ledger s) \<and>
         chain_mints (snd (app env rq s)) = chain_mints s"
proof -
  have w: "mints (srv_ledger (snd (or_404 (webhooksRouter env m r h b s) s))) = mints (srv_ledger s) \<and>
           chain_mints (snd (or_404 (webhooksRouter env m r h b s) s)) = chain_mints s" for m r h b
    using post_pretium_keeps_mints by (simp add: or_404_def webhooksRouter_def)
  have o: "snd (or_404 (map_option (\<lambda>r. (r, s)) x) s) = s" for x
    by (cases x) (simp_all add: or_404_def)
  show ?thesis
    using assms w o by (auto simp: app_def Let_def split: body_in.split option.split)
qed

theorem unauthenticated_requests_never_mint_witness:
  "apiKeyAuth \<lparr>ADMIN_API_KEY = Some ''k3y'', RPC_URL = Some ''http://rpc'', TOKEN_ADDRESS = Some ''0xT'', GENZ_MINTER_PRIVATE_KEY = Some ''0xK'', PRETIUM_BASE_URL = None, PRETIUM_API_KEY = None\<rparr> None \<noteq> None \<and>
   chain_mints (snd (app \<lparr>cfg = \<lparr>ADMIN_API_KEY = Some ''k3y'', RPC_URL = Some ''http://rpc'', TOKEN_ADDRESS = Some ''0xT'', GENZ_MINTER_PRIVATE_KEY = Some ''0xK'', PRETIUM_BASE_URL = None, PRETIUM_API_KEY = None\<rparr>, now = 5, db_error = None, chain_mint_at = MintMined (Some ''0xh''), balance_of = \<lambda>_. Inr 0\<rparr>
      \<lparr>rq_method = POST, rq_path = ''/v1/tokens/mint'', rq_query = [], rq_headers = [],
       rq_body = JsonBody (JObj [(''userId'', JStr ''u1''), (''to'', JStr ''0xA''), (''amountWei'', JStr ''10'')])\<rparr>
      \<lparr>srv_ledger = empty_ledger, chain_mints = []\<rparr>)) = []"
proof -
  have "chain_mints (snd (app \<lparr>cfg = \<lparr>ADMIN_API_KEY = Some ''k3y'', RPC_URL = Some ''http://rpc'', TOKEN_ADDRESS = Some ''0xT'', GENZ_MINTER_PRIVATE_KEY = Some ''0xK'', PRETIUM_BASE_URL = None, PRETIUM_API_KEY = None\<rparr>, now = 5, db_error = None, chain_mint_at = MintMined (Some ''0xh''), balance_of = \<lambda>_. Inr 0\<rparr>
      \<lparr>rq_method = POST, rq_path = ''/v1/tokens/mint'', rq_query = [], rq_headers = [],
       rq_body = JsonBody (JObj [(''userId'', JStr ''u1''), (''to'', JStr ''0xA''), (''amountWei'', JStr ''10'')])\<rparr>
      \<lparr>srv_ledger = empty_ledger, chain_mints = []\<rparr>)) = chain_mints \<lparr>srv_ledger = empty_ledger, chain_mints = []\<rparr>"
    using unauthenticated_requests_never_mint by (simp add: apiKeyAuth_def)
  then show ?thesis by (simp add: apiKeyAuth_def)
qed

text \<open>
  (C25) A 500 from the mint route does not mean that nothing was minted: when
  the chain mines the transaction and the ledger write then throws, the route
  answers 500 with the database's message although the tokens are minted. A
  client that retries a 500, as the specification's retry policy and the JS
  SDK do for 5xx statuses, sends the mint again, and a successful second
  attempt mints the same amount to the same address a second time.
\<close>

theorem mint_retry_after_500_mints_twice:
  assumes "schema_issues MintSchema b = []"
    and "\<not> chain_config_missing (cfg e1)" and "\<not> chain_config_missing (cfg e2)"
    and "chain_mint_at e1 = MintMined h1" and "db_error e1 = Some err"
    and "chain_mint_at e2 = MintMined h2" and "db_error e2 = None"
  shows "reply_status (fst (post_mint e1 b s)) = Some 500 \<and>
         reply_status (fst (post_mint e2 b (snd (post_mint e1 b s)))) = Some 200 \<and>
         chain_mints (snd (post_mint e2 b (snd (post_mint e1 b s)))) =
           chain_mints s @ [(str_field b ''to'', str_field b ''amountWei''), (str_field b ''to'', str_field b ''amountWei'')]"
  using assms by (simp add: post_mint_def Let_def recordMint_def)

theorem mint_retry_after_500_mints_twice_witness:
  "reply_status (fst (post_mint \<lparr>cfg = \<lparr>ADMIN_API_KEY = Some ''k3y'', RPC_URL = Some ''http://rpc'', TOKEN_ADDRESS = Some ''0xT'', GENZ_MINTER_PRIVATE_KEY = Some ''0xK'', PRETIUM_BASE_URL = None, PRETIUM_API_KEY = None\<rparr>, now = 1, db_error = Some ''SQLITE_BUSY: database is locked'', chain_mint_at = MintMined (Some ''0xh1''), balance_of = \<lambda>_. Inr 0\<rparr> (JObj [(''userId'', JStr ''u1''), (''to'', JStr ''0xA''), (''amountWei'', JStr ''5'')]) \<lparr>srv_ledger = empty_ledger, chain_mints = []\<rparr>)) = Some 500 \<and>
   reply_status (fst (post_mint \<lparr>cfg = \<lparr>ADMIN_API_KEY = Some ''k3y'', RPC_URL = Some ''http://rpc'', TOKEN_ADDRESS = Some ''0xT'', GENZ_MINTER_PRIVATE_KEY = Some ''0xK'', PRETIUM_BASE_URL = None, PRETIUM_API_KEY = None\<rparr>, now = 2, db_error = None, chain_mint_at = MintMined (Some ''0xh2''), balance_of = \<lambda>_. Inr 0\<rparr> (JObj [(''userId'', JStr ''u1''), (''to'', JStr ''0xA''), (''amountWei'', JStr ''5'')]) (snd (post_mint \<lparr>cfg = \<lparr>ADMIN_API_KEY = Some ''k3y'', RPC_URL = Some ''http://rpc'', TOKEN_ADDRESS = Some ''0xT'', GENZ_MINTER_PRIVATE_KEY = Some ''0xK'', PRETIUM_BASE_URL = None, PRETIUM_API_KEY = None\<rparr>, now = 1, db_error = Some ''SQLITE_BUSY: database is locked'', chain_mint_at = MintMined (Some ''0xh1''), balance_of = \<lambda>_. Inr 0\<rparr> (JObj [(''userId'', JStr ''u1''), (''to'', JStr ''0xA''), (''amountWei'', JStr ''5'')]) \<lparr>srv_ledger = empty_ledger, chain_mints = []\<rparr>)))) = Some 200 \<and>
   chain_mints (snd (post_mint \<lparr>cfg = \<lparr>ADMIN_API_KEY = Some ''k3y'', RPC_URL = Some ''http://rpc'', TOKEN_ADDRESS = Some ''0xT'', GENZ_MINTER_PRIVATE_KEY = Some ''0xK'', PRETIUM_BASE_URL = None, PRETIUM_API_KEY = None\<rparr>, now = 2, db_error = None, chain_mint_at = MintMined (Some ''0xh2''), balance_of = \<lambda>_. Inr 0\<rparr> (JObj [(''userId'', JStr ''u1''), (''to'', JStr ''0xA''), (''amountWei'', JStr ''5'')]) (snd (post_mint \<lparr>cfg = \<lparr>ADMIN_API_KEY = Some ''k3y'', RPC_URL = Some ''http://rpc'', TOKEN_ADDRESS = Some ''0xT'', GENZ_MINTER_PRIVATE_KEY = Some ''0xK'', PRETIUM_BASE_URL = None, PRETIUM_API_KEY = None\<rparr>, now = 1, db_error = Some ''SQLITE_BUSY: database is locked'', chain_mint_at = MintMined (Some ''0xh1''), balance_of = \<lambda>_. Inr 0\<rparr> (JObj [(''userId'', JStr ''u1''), (''to'', JStr ''0xA''), (''amountWei'', JStr ''5'')]) \<lparr>srv_ledger = empty_ledger, chain_mints = []\<rparr>)))) = [(''0xA'', ''5''), (''0xA'', ''5'')]"
  using mint_retry_after_500_mints_twice [of "JObj [(''userId'', JStr ''u1''), (''to'', JStr ''0xA''), (''amountWei'', JStr ''5'')]" "\<lparr>cfg = \<lparr>ADMIN_API_KEY = Some ''k3y'', RPC_URL = Some ''http://rpc'', TOKEN_ADDRESS = Some ''0xT'', GENZ_MINTER_PRIVATE_KEY = Some ''0xK'', PRETIUM_BASE_URL = None, PRETIUM_API_KEY = None\<rparr>, now = 1, db_error = Some ''SQLITE_BUSY: database is locked'', chain_mint_at = MintMined (Some ''0xh1''), balance_of = \<lambda>_. Inr 0\<rparr>" "\<lparr>cfg = \<lparr>ADMIN_API_KEY = Some ''k3y'', RPC_URL = Some ''http://rpc'', TOKEN_ADDRESS = Some ''0xT'', GENZ_MINTER_PRIVATE_KEY = Some ''0xK'', PRETIUM_BASE_URL = None, PRETIUM_API_KEY = None\<rparr>, now = 2, db_error = None, chain_mint_at = MintMined (Some ''0xh2''), balance_of = \<lambda>_. Inr 0\<rparr>" "Some ''0xh1''" "''SQLITE_BUSY: database is locked''" "Some ''0xh2''" "\<lparr>srv_ledger = empty_ledger, chain_mints = []\<rparr>"]
  by (simp add: schema_issues_def MintSchema_def z_string_min_def z_digits_def is_digit_def z_optional_string_def
                chain_config_missing_def js_truthy_str_def str_field_def)

text \<open>
  (C26) Minting is not backed by deposits: the mint route never reads the
  \<open>deposits\<close> table, so its reply and its effect on chain are the same
  whatever deposits are recorded, none at all included, although the
  documentation page says a company can mint once its KES deposit is settled.
\<close>

theorem mint_ignores_deposits:
  "fst (post_mint env b (s\<lparr>srv_ledger := (srv_ledger s)\<lparr>deposits := ds\<rparr>\<rparr>)) = fst (post_mint env b s) \<and>
   chain_mints (snd (post_mint env b (s\<lparr>srv_ledger := (srv_ledger s)\<lparr>deposits := ds\<rparr>\<rparr>))) =
     chain_mints (snd (post_mint env b s))"
  by (simp add: post_mint_def Let_def recordMint_def split: chain_mint.split option.split)

text \<open>
  (C21) Webhook redelivery: a provider that delivers the same settled event
  twice leaves one row for a deposit with a string id, the second delivery
  replacing the first (with its own timestamp) and every other row kept. An
  event whose id is \<open>null\<close> is recorded again on every delivery: the
  \<open>TEXT PRIMARY KEY\<close> column admits \<open>NULL\<close>, and \<open>NULL\<close> keys never conflict.
\<close>

theorem webhook_redelivery:
  assumes "js_truthy_str (PRETIUM_BASE_URL (cfg e1))" and "js_truthy_str (PRETIUM_API_KEY (cfg e1))"
    and "cfg e2 = cfg e1" and "db_error e1 = None" and "db_error e2 = None"
  shows "let rq = (\<lambda>v. \<lparr>rq_method = POST, rq_path = ''/v1/webhooks/pretium'', rq_query = [], rq_headers = [],
                    rq_body = JsonBody (JObj [(''type'', JStr ''deposit.settled''),
                      (''data'', JObj [(''id'', v), (''user_id'', JStr u), (''amount_kes'', JNum a)])])\<rparr>);
             D = (\<lambda>v. deposits (srv_ledger (snd (app e2 (rq v) (snd (app e1 (rq v) s))))));
             row = (\<lambda>k t. \<lparr>dep_id = k, dep_user_id = SqlText u, dep_amount_kes = SqlNum a,
                          dep_status = ''settled'', dep_created_at = t\<rparr>)
         in filter (\<lambda>r. dep_id r = SqlText i) (D (JStr i)) = [row (SqlText i) (now e2)] \<and>
            filter (\<lambda>r. dep_id r \<noteq> SqlText i) (D (JStr i)) = filter (\<lambda>r. dep_id r \<noteq> SqlText i) (deposits (srv_ledger s)) \<and>
            D JNull = deposits (srv_ledger s) @ [row SqlNull (now e1), row SqlNull (now e2)]"
proof -
  have e2: "js_truthy_str (PRETIUM_BASE_URL (cfg e2))" "js_truthy_str (PRETIUM_API_KEY (cfg e2))"
    using assms(1-3) by simp_all
  note a1 = app_webhook_settled [OF assms(1,2,4)] and a2 = app_webhook_settled [OF e2 assms(5)]
  have str: "bind_value (Some (JStr i)) = Some (SqlText i)" and nul: "bind_value (Some JNull) = Some SqlNull"
    by (simp_all add: bind_value_def)
  show ?thesis
    by (simp add: Let_def a1 [OF str] a2 [OF str] a1 [OF nul] a2 [OF nul] insert_or_replace_def filter_filter)
qed

theorem webhook_redelivery_witness:
  "let rq = (\<lambda>v. \<lparr>rq_method = POST, rq_path = ''/v1/webhooks/pretium'', rq_query = [], rq_headers = [],
              rq_body = JsonBody (JObj [(''type'', JStr ''deposit.settled''),
                (''data'', JObj [(''id'', v), (''user_id'', JStr ''u1''), (''amount_kes'', JNum 1000)])])\<rparr>);
       e = (\<lambda>t. \<lparr>cfg = \<lparr>ADMIN_API_KEY = Some ''k3y'', RPC_URL = None, TOKEN_ADDRESS = None, GENZ_MINTER_PRIVATE_KEY = None, PRETIUM_BASE_URL = Some ''https://pretium'', PRETIUM_API_KEY = Some ''pk''\<rparr>, now = t, db_error = None, chain_mint_at = MintRejects None, balance_of = \<lambda>_. Inr 0\<rparr>);
       D = (\<lambda>v. deposits (srv_ledger (snd (app (e 2) (rq v) (snd (app (e 1) (rq v) \<lparr>srv_ledger = empty_ledger, chain_mints = []\<rparr>))))));
       row = (\<lambda>k t. \<lparr>dep_id = k, dep_user_id = SqlText ''u1'', dep_amount_kes = SqlNum 1000,
                    dep_status = ''settled'', dep_created_at = t\<rparr>)
   in filter (\<lambda>r. dep_id r = SqlText ''d1'') (D (JStr ''d1'')) = [row (SqlText ''d1'') 2] \<and>
      filter (\<lambda>r. dep_id r \<noteq> SqlText ''d1'') (D (JStr ''d1'')) = [] \<and>
      D JNull = [row SqlNull 1, row SqlNull 2]"
    using webhook_redelivery [of "\<lparr>cfg = \<lparr>ADMIN_API_KEY = Some ''k3y'', RPC_URL = None, TOKEN_ADDRESS = None, GENZ_MINTER_PRIVATE_KEY = None, PRETIUM_BASE_URL = Some ''https://pretium'', PRETIUM_API_KEY = Some ''pk''\<rparr>, now = 1, db_error = None, chain_mint_at = MintRejects None, balance_of = \<lambda>_. Inr 0\<rparr>"
        "\<lparr>cfg = \<lparr>ADMIN_API_KEY = Some ''k3y'', RPC_URL = None, TOKEN_ADDRESS = None, GENZ_MINTER_PRIVATE_KEY = None, PRETIUM_BASE_URL = Some ''https://pretium'', PRETIUM_API_KEY = Some ''pk''\<rparr>, now = 2, db_error = None, chain_mint_at = MintRejects None, balance_of = \<lambda>_. Inr 0\<rparr>"
        "''u1''" 1000 "\<lparr>srv_ledger = empty_ledger, chain_mints = []\<rparr>" "''d1''"]
  by (simp add: js_truthy_str_def empty_ledger_def Let_def)

text \<open>
  (C24) A request whose handler rejects (the webhook route without Pretium
  configuration, an event without \<open>data\<close>, a field the database cannot bind,
  a failing database) gets no reply and changes nothing: the ledger and the
  chain are as before.
\<close>

theorem rejected_request_no_effect:
  assumes "fst (app env rq s) = Rejected m"
  shows "snd (app env rq s) = s"
proof -
  have t: "fst (or_404 (tokensRouter env me r b s) s) \<noteq> Rejected m" for me r b
    using post_mint_not_rejected by (simp add: or_404_def tokensRouter_def post_transfer_def invalid_body_def Let_def)
  have w: "fst (or_404 (webhooksRouter env me r h b s) s) = Rejected m \<Longrightarrow>
           snd (or_404 (webhooksRouter env me r h b s) s) = s" for me r h b
    using post_pretium_rejected by (auto simp: or_404_def webhooksRouter_def)
  have o: "snd (or_404 (map_option (\<lambda>r. (r, s)) x) s) = s" for x
    by (cases x) (simp_all add: or_404_def)
  show ?thesis
    using assms t w o by (auto simp: app_def Let_def split: body_in.splits option.splits)
qed

theorem rejected_request_no_effect_witness:
  "fst (app \<lparr>cfg = \<lparr>ADMIN_API_KEY = Some ''k3y'', RPC_URL = None, TOKEN_ADDRESS = None, GENZ_MINTER_PRIVATE_KEY = None, PRETIUM_BASE_URL = None, PRETIUM_API_KEY = None\<rparr>, now = 1, db_error = None, chain_mint_at = MintRejects None, balance_of = \<lambda>_. Inr 0\<rparr> \<lparr>rq_method = POST, rq_path = ''/v1/webhooks/pretium'', rq_query = [], rq_headers = [], rq_body = JsonBody (JObj [(''type'', JStr ''deposit.settled'')])\<rparr> \<lparr>srv_ledger = empty_ledger, chain_mints = []\<rparr>) = Rejected ''Missing PRETIUM_BASE_URL or PRETIUM_API_KEY'' \<and>
   snd (app \<lparr>cfg = \<lparr>ADMIN_API_KEY = Some ''k3y'', RPC_URL = None, TOKEN_ADDRESS = None, GENZ_MINTER_PRIVATE_KEY = None, PRETIUM_BASE_URL = None, PRETIUM_API_KEY = None\<rparr>, now = 1, db_error = None, chain_mint_at = MintRejects None, balance_of = \<lambda>_. Inr 0\<rparr> \<lparr>rq_method = POST, rq_path = ''/v1/webhooks/pretium'', rq_query = [], rq_headers = [], rq_body = JsonBody (JObj [(''type'', JStr ''deposit.settled'')])\<rparr> \<lparr>srv_ledger = empty_ledger, chain_mints = []\<rparr>) = \<lparr>srv_ledger = empty_ledger, chain_mints = []\<rparr>"
proof -
  have "fst (app \<lparr>cfg = \<lparr>ADMIN_API_KEY = Some ''k3y'', RPC_URL = None, TOKEN_ADDRESS = None, GENZ_MINTER_PRIVATE_KEY = None, PRETIUM_BASE_URL = None, PRETIUM_API_KEY = None\<rparr>, now = 1, db_error = None, chain_mint_at = MintRejects None, balance_of = \<lambda>_. Inr 0\<rparr> \<lparr>rq_method = POST, rq_path = ''/v1/webhooks/pretium'', rq_query = [], rq_headers = [], rq_body = JsonBody (JObj [(''type'', JStr ''deposit.settled'')])\<rparr> \<lparr>srv_ledger = empty_ledger, chain_mints = []\<rparr>) = Rejected ''Missing PRETIUM_BASE_URL or PRETIUM_API_KEY''"
    by (simp add: webhook_simps js_truthy_str_def)
  then show ?thesis using rejected_request_no_effect by blast
qed


end
