(* ===== verification/Onboarding.thy ===== *)
theory Onboarding
  imports Pretium
begin

text \<open>
  The onboarding wizard, \<open>OnboardingPage\<close> of
  \<open>src/frontend/genv/src/app/onboarding/page.tsx\<close>. The component's state
  (the \<open>useState\<close> hooks) is a record; the user's actions and the completions
  of the two async handlers are events. A handler runs up to its first
  \<open>await\<close> when it is clicked and records where it is suspended in
  \<open>pending\<close>; its completion is a later event, so clicks can come in between,
  as in the browser. \<open>ob_enabled\<close> says which events the rendered page offers
  (which inputs and buttons the JSX shows, and whether they are disabled) and
  which completions are outstanding; \<open>ob_reach\<close> is the set of states reachable
  from the first render. The request body of the STK push is fixed when the
  button is clicked, from the state of that render (the handler's closure).
  The fetch of the STK push settles with a \<open>fetch_outcome\<close> of \<open>JsClient\<close>.
  \<open>router.back()\<close> leaves the page and is not modelled.
\<close>

subsection \<open>State\<close>

record CompanyForm =
  companyName :: string
  registrationNumber :: string
  contactName :: string
  contactEmail :: string
  contactPhone :: string

datatype company_field = CompanyName | RegistrationNumber | ContactName | ContactEmail | ContactPhone

definition set_company_field :: "CompanyForm \<Rightarrow> company_field \<Rightarrow> string \<Rightarrow> CompanyForm" where
  \<comment> \<open>\<open>setCompany({ ...company, field: e.target.value })\<close>\<close>
  "set_company_field c f v =
     (case f of
        CompanyName \<Rightarrow> c\<lparr>companyName := v\<rparr>
      | RegistrationNumber \<Rightarrow> c\<lparr>registrationNumber := v\<rparr>
      | ContactName \<Rightarrow> c\<lparr>contactName := v\<rparr>
      | ContactEmail \<Rightarrow> c\<lparr>contactEmail := v\<rparr>
      | ContactPhone \<Rightarrow> c\<lparr>contactPhone := v\<rparr>)"

datatype ob_pending =
    RegisterWait         \<comment> \<open>\<open>handleRegister\<close> at \<open>await new Promise(r => setTimeout(r, 600))\<close>\<close>
  | StkFetch json        \<comment> \<open>\<open>handleStkPush\<close> at \<open>await fetch(...)\<close>, with the body it sent\<close>

record ob_state =
  step :: nat
  loading :: bool
  company :: CompanyForm
  depositAmount :: js_num
  status :: string
  pending :: "ob_pending option"

definition ob_init :: ob_state where
  "ob_init =
     \<lparr>step = 1, loading = False,
      company = \<lparr>companyName = [], registrationNumber = [], contactName = [], contactEmail = [], contactPhone = []\<rparr>,
      depositAmount = JsNum 1000, status = [], pending = None\<rparr>"

subsection \<open>\<open>parseInt\<close>\<close>

definition is_js_space :: "char \<Rightarrow> bool" where
  "is_js_space c \<longleftrightarrow> (of_char c :: nat) \<in> {9, 10, 11, 12, 13, 32, 160}"

definition hex_digit_val :: "char \<Rightarrow> nat option" where
  "hex_digit_val c =
     (let n = (of_char c :: nat) in
      if 48 \<le> n \<and> n \<le> 57 then Some (n - 48)
      else if 65 \<le> n \<and> n \<le> 70 then Some (n - 55)
      else if 97 \<le> n \<and> n \<le> 102 then Some (n - 87)
      else None)"

definition digits_value :: "nat \<Rightarrow> string \<Rightarrow> nat" where
  "digits_value radix ds = foldl (\<lambda>acc d. radix * acc + the (hex_digit_val d)) 0 ds"

definition parseInt :: "string \<Rightarrow> js_num" where
  \<comment> \<open>\<open>parseInt(s)\<close> with no radix: leading white space, a sign, \<open>0x\<close> for hexadecimal,
      then the longest prefix of digits, rounded to a double; \<open>NaN\<close> if there is none\<close>
  "parseInt s =
     (let t = dropWhile is_js_space s;
          neg = (take 1 t = ''-'');
          u = (if take 1 t = ''-'' \<or> take 1 t = ''+'' then drop 1 t else t);
          hex = (take 2 u = ''0x'' \<or> take 2 u = ''0X'');
          ds = (if hex then takeWhile (\<lambda>c. hex_digit_val c \<noteq> None) (drop 2 u) else takeWhile is_digit u);
          v = digits_value (if hex then 16 else 10) ds
      in if ds = [] then JsNaN else if neg then js_negate (js_number_of_nat v) else js_number_of_nat v)"

subsection \<open>Handlers and events\<close>

definition stk_success_message :: string where
  "stk_success_message = ''STK push sent. Approve on your phone to complete the initial funding.''"

definition stk_body :: "CompanyForm \<Rightarrow> js_num \<Rightarrow> json" where
  \<comment> \<open>\<open>JSON.stringify({ phone: company.contactPhone, amountKES: depositAmount })\<close>\<close>
  "stk_body c amount = JObj [(''phone'', JStr (contactPhone c)), (''amountKES'', js_num_json amount)]"

definition stk_url :: "string option \<Rightarrow> string" where
  "stk_url backend =
     (if js_truthy_str backend then the backend else ''http://localhost:8080'') @ ''/v1/deposits/initiate-stk''"

definition stk_succeeds :: "fetch_outcome \<Rightarrow> bool" where
  \<comment> \<open>\<open>res.ok\<close> and \<open>await res.json()\<close> resolves\<close>
  "stk_succeeds out = (case out of Responds st (JsonText _) \<Rightarrow> res_ok st | _ \<Rightarrow> False)"

definition prev_step :: "nat \<Rightarrow> nat" where
  "prev_step s = (if s = 3 then 2 else 1)"

definition next_step :: "nat \<Rightarrow> nat" where
  \<comment> \<open>\<open>next\<close> is defined but no control calls it\<close>
  "next_step s = (if s = 1 then 2 else 3)"

datatype ob_event =
    Edit company_field string
  | EditDeposit string
  | ClickSave
  | RegisterTimerFires
  | ClickSendStk
  | StkSettles fetch_outcome
  | ClickPrev

definition ob_enabled :: "ob_state \<Rightarrow> ob_event \<Rightarrow> bool" where
  "ob_enabled s e =
     (case e of
        Edit f v \<Rightarrow> step s = 1 \<or> (step s = 2 \<and> f = ContactPhone)
      | EditDeposit v \<Rightarrow> step s = 2
      | ClickSave \<Rightarrow> step s = 1 \<and> \<not> loading s
      | RegisterTimerFires \<Rightarrow> pending s = Some RegisterWait
      | ClickSendStk \<Rightarrow> step s = 2 \<and> \<not> loading s
      | StkSettles out \<Rightarrow> (case pending s of Some (StkFetch _) \<Rightarrow> True | _ \<Rightarrow> False)
      | ClickPrev \<Rightarrow> step s = 2)"

definition ob_handle :: "ob_state \<Rightarrow> ob_event \<Rightarrow> ob_state" where
  "ob_handle s e =
     (case e of
        Edit f v \<Rightarrow> s\<lparr>company := set_company_field (company s) f v\<rparr>
      | EditDeposit v \<Rightarrow> s\<lparr>depositAmount := parseInt (if v = [] then ''0'' else v)\<rparr>
      | ClickSave \<Rightarrow> s\<lparr>loading := True, status := [], pending := Some RegisterWait\<rparr>
      | RegisterTimerFires \<Rightarrow> s\<lparr>step := 2, loading := False, pending := None\<rparr>
      | ClickSendStk \<Rightarrow>
          s\<lparr>loading := True, status := [], pending := Some (StkFetch (stk_body (company s) (depositAmount s)))\<rparr>
      | StkSettles out \<Rightarrow>
          if stk_succeeds out then s\<lparr>status := stk_success_message, step := 3, loading := False, pending := None\<rparr>
          else s\<lparr>loading := False, pending := None\<rparr>
      | ClickPrev \<Rightarrow> s\<lparr>step := prev_step (step s)\<rparr>)"

inductive ob_reach :: "ob_state \<Rightarrow> bool" where
  init: "ob_reach ob_init"
| step: "ob_reach s \<Longrightarrow> ob_enabled s e \<Longrightarrow> ob_reach (ob_handle s e)"

inductive ob_steps :: "ob_state \<Rightarrow> ob_state \<Rightarrow> bool" where
  refl: "ob_steps s s"
| step: "ob_enabled s e \<Longrightarrow> ob_steps (ob_handle s e) t \<Longrightarrow> ob_steps s t"

definition step_badges :: "nat \<Rightarrow> (string \<times> string) list" where
  \<comment> \<open>the progress indicator: each step's label and the class chosen by \<open>step >= k\<close>\<close>
  "step_badges st =
     map (\<lambda>(k, label). (label, ''px-2 py-1 rounded '' @
            (if k \<le> st then ''bg-neon-blue/20 text-neon-blue'' else ''bg-secondary text-secondary-foreground'')))
       [(1::nat, ''1. Company''), (2, ''2. Initial Deposit''), (3, ''3. API Keys'')]"

definition status_line :: "ob_state \<Rightarrow> string" where
  \<comment> \<open>\<open>{status && <div ...>{status}</div>}\<close>, rendered only inside the \<open>step === 2\<close> block\<close>
  "status_line s = (if step s = 2 then status s else [])"

text \<open>The invariant of the wizard.\<close>

definition ob_inv :: "ob_state \<Rightarrow> bool" where
  "ob_inv s \<longleftrightarrow>
     step s \<in> {1, 2, 3} \<and>
     (loading s \<longleftrightarrow> pending s \<noteq> None) \<and>
     (pending s = Some RegisterWait \<longrightarrow> step s = 1) \<and>
     (step s = 3 \<longrightarrow> status s = stk_success_message \<and> pending s = None)"

subsection \<open>Properties\<close>

lemma ob_handle_inv: "ob_inv s \<Longrightarrow> ob_enabled s e \<Longrightarrow> ob_inv (ob_handle s e)"
  by (cases e)
     (auto simp: ob_inv_def ob_enabled_def ob_handle_def prev_step_def split: option.splits ob_pending.splits)

lemma ob_handle_status:
  "ob_inv s \<Longrightarrow> (step s \<noteq> 3 \<longrightarrow> status s = []) \<Longrightarrow> ob_enabled s e \<Longrightarrow>
   step (ob_handle s e) \<noteq> 3 \<longrightarrow> status (ob_handle s e) = []"
  by (cases e) (simp_all add: ob_inv_def ob_enabled_def ob_handle_def prev_step_def)

lemma step_badges_highlight:
  assumes "ob_inv s"
  shows "map fst (filter (\<lambda>(_, c). c = ''px-2 py-1 rounded bg-neon-blue/20 text-neon-blue'') (step_badges (step s))) =
         take (step s) [''1. Company'', ''2. Initial Deposit'', ''3. API Keys'']"
proof -
  have "step s = 1 \<or> step s = 2 \<or> step s = 3" using assms by (simp add: ob_inv_def)
  then show ?thesis by (elim disjE) (simp_all add: step_badges_def)
qed

lemma show_nat_digits: "show_nat n \<noteq> [] \<and> list_all is_digit (show_nat n)"
proof (induction n rule: show_nat.induct)
  case (1 n)
  have "(of_char (char_of (48 + n mod 10)) :: nat) = 48 + n mod 10" by simp
  with 1 show ?case by (simp only: show_nat.simps [of n]) (auto simp: is_digit_def)
qed

lemma hex_digit_val_digit [simp]: "k < 10 \<Longrightarrow> hex_digit_val (char_of (48 + k)) = Some k"
  by (simp add: hex_digit_val_def)

lemma digits_value_show_nat: "digits_value 10 (show_nat n) = n"
proof (induction n rule: show_nat.induct)
  case (1 n)
  then show ?case by (subst show_nat.simps) (auto simp: digits_value_def)
qed

lemma digits_no_prefix:
  assumes "list_all is_digit u" and "u \<noteq> []" and "r = [] \<or> hd r = CHR ''.''"
  shows "\<not> is_js_space (hd (u @ r))" "take 1 (u @ r) \<noteq> ''-''" "take 1 (u @ r) \<noteq> ''+''"
    "take 2 (u @ r) \<noteq> ''0x''" "take 2 (u @ r) \<noteq> ''0X''"
  using assms by (cases u; cases "tl u"; cases r; auto simp: is_digit_def is_js_space_def)+

lemma takeWhile_digits:
  "list_all is_digit u \<Longrightarrow> r = [] \<or> hd r = CHR ''.'' \<Longrightarrow> takeWhile is_digit (u @ r) = u"
  by (induction u) (cases r; auto simp: is_digit_def)+

lemma parseInt_digits:
  assumes "list_all is_digit u" and "u \<noteq> []" and "r = [] \<or> hd r = CHR ''.''"
  shows "parseInt (u @ r) = js_number_of_nat (digits_value 10 u)"
    and "parseInt (CHR ''-'' # u @ r) = js_negate (js_number_of_nat (digits_value 10 u))"
proof -
  have d: "dropWhile is_js_space (u @ r) = u @ r" using digits_no_prefix(1) [OF assms] assms(2)
    by (cases u) simp_all
  have t: "takeWhile is_digit (u @ r) = u" using assms(1,3) by (rule takeWhile_digits)
  show "parseInt (u @ r) = js_number_of_nat (digits_value 10 u)"
    using digits_no_prefix [OF assms] assms(2) by (simp add: parseInt_def Let_def d t)
  show "parseInt (CHR ''-'' # u @ r) = js_negate (js_number_of_nat (digits_value 10 u))"
    using digits_no_prefix [OF assms] assms(2) by (simp add: parseInt_def Let_def is_js_space_def t)
qed

lemma parseInt_show_int_prefix:
  assumes "r = [] \<or> hd r = CHR ''.''"
  shows "parseInt (show_int i @ r) =
         (if i < 0 then js_negate (js_number_of_nat (nat (- i))) else js_number_of_nat (nat i))"
proof (cases "i < 0")
  case True
  then show ?thesis
    using parseInt_digits(2) [of "show_nat (nat (- i))" r] show_nat_digits [of "nat (- i)"] assms
    by (simp add: show_int_def digits_value_show_nat)
next
  case False
  then show ?thesis
    using parseInt_digits(1) [of "show_nat (nat i)" r] show_nat_digits [of "nat i"] assms
    by (simp add: show_int_def digits_value_show_nat)
qed

lemma parseInt_show_int_exact:
  assumes "r = [] \<or> hd r = CHR ''.''" and "\<bar>i\<bar> \<le> 2 ^ 53"
  shows "parseInt (show_int i @ r) = JsNum (real_of_int i)"
proof -
  have "nat \<bar>i\<bar> \<le> 2 ^ 53" using assms(2) by (simp add: nat_le_iff)
  then show ?thesis
    using parseInt_show_int_prefix [OF assms(1), of i]
    by (cases "i < 0") (simp_all add: js_number_of_nat_exact)
qed

lemma deposit_input_rounds:
  "depositAmount (ob_handle s (EditDeposit (show_int (2 ^ 53 + 1)))) = JsNum (2 ^ 53)"
proof -
  have "show_int (2 ^ 53 + 1) \<noteq> []" using show_nat_digits by (simp add: show_int_def)
  moreover have "js_number_of_nat 9007199254740993 = JsNum 9007199254740992"
    by (simp add: js_number_of_nat_def round_half_even_def nat_bits.simps)
  ultimately show ?thesis
    using parseInt_show_int_prefix [of "[]" "2 ^ 53 + 1"] by (simp add: ob_handle_def)
qed

text \<open>
  (C35) The deposit field round-trips every integer a double holds exactly:
  the page renders \<open>value={depositAmount}\<close>, and typing back the decimal form
  of an integer amount \<open>i\<close> with \<open>|i| \<le> 2 ^ 53\<close>, with or without a sign, gives
  that amount again. A fraction typed after it is dropped by \<open>parseInt\<close>:
  \<open>1000.75\<close> becomes \<open>1000\<close>. (Beyond \<open>2 ^ 53\<close> the amount is rounded to a
  double: \<open>9007199254740993\<close> becomes \<open>9007199254740992\<close>.)
\<close>

theorem deposit_input_roundtrip:
  assumes "\<bar>i\<bar> \<le> 2 ^ 53"
  shows "depositAmount (ob_handle s (EditDeposit (show_int i))) = JsNum (real_of_int i) \<and>
         depositAmount (ob_handle s (EditDeposit (show_int i @ ''.'' @ show_nat f))) = JsNum (real_of_int i)"
proof -
  have ne: "show_int i \<noteq> []" using show_nat_digits by (simp add: show_int_def)
  show ?thesis
    using ne parseInt_show_int_exact [of "[]" i] parseInt_show_int_exact [of "''.'' @ show_nat f" i] assms
    by (simp add: ob_handle_def)
qed

theorem deposit_input_roundtrip_witness:
  "depositAmount (ob_handle ob_init (EditDeposit (show_int (-1500)))) = JsNum (-1500) \<and>
   depositAmount (ob_handle ob_init (EditDeposit (show_int (-1500) @ ''.'' @ show_nat 75))) = JsNum (-1500)"
  using deposit_input_roundtrip [of "-1500" ob_init 75] by simp

text \<open>
  (C30) In every state the wizard can reach, the step is 1, 2 or 3; the
  buttons are disabled exactly while a handler is suspended; the 600 ms wait
  of \<open>handleRegister\<close> only happens on step 1; step 3 is only reached with
  the STK success message stored and nothing outstanding; and the status line
  shows nothing. The status is rendered only in the step-2 block, and the
  success message is set together with the move to step 3, which has no way
  back, so the message is never displayed.
\<close>

theorem ob_reach_inv: "ob_reach s \<Longrightarrow> ob_inv s \<and> status_line s = []"
proof -
  assume "ob_reach s"
  then have "ob_inv s \<and> (step s \<noteq> 3 \<longrightarrow> status s = [])"
  proof (induction rule: ob_reach.induct)
    case init
    show ?case by (simp add: ob_inv_def ob_init_def)
  next
    case (step s e)
    then show ?case using ob_handle_inv ob_handle_status by blast
  qed
  then show ?thesis by (auto simp: status_line_def)
qed

theorem ob_reach_inv_witness:
  "ob_inv (ob_handle ob_init ClickSave) \<and> status_line (ob_handle ob_init ClickSave) = []"
proof -
  have "ob_reach (ob_handle ob_init ClickSave)"
    by (rule ob_reach.step [OF ob_reach.init]) (simp add: ob_enabled_def ob_init_def)
  then show ?thesis by (rule ob_reach_inv)
qed

text \<open>
  (C31) The Back button of step 2 stays enabled while the STK push is in
  flight: a user who goes back to step 1 is then moved from step 1 straight to
  step 3 when the push succeeds, skipping step 2.
\<close>

theorem ob_step_1_to_3:
  "\<exists>s e. ob_reach s \<and> ob_enabled s e \<and> step s = 1 \<and> step (ob_handle s e) = 3"
proof -
  define s1 where "s1 = ob_handle ob_init ClickSave"
  define s2 where "s2 = ob_handle s1 RegisterTimerFires"
  define s3 where "s3 = ob_handle s2 ClickSendStk"
  define s4 where "s4 = ob_handle s3 ClickPrev"
  have r1: "ob_reach s1" unfolding s1_def
    by (rule ob_reach.step [OF ob_reach.init]) (simp add: ob_enabled_def ob_init_def)
  have r2: "ob_reach s2" unfolding s2_def
    by (rule ob_reach.step [OF r1]) (simp add: ob_enabled_def s1_def ob_handle_def)
  have r3: "ob_reach s3" unfolding s3_def
    by (rule ob_reach.step [OF r2]) (simp add: ob_enabled_def s2_def s1_def ob_handle_def)
  have r4: "ob_reach s4" unfolding s4_def
    by (rule ob_reach.step [OF r3]) (simp add: ob_enabled_def s3_def s2_def s1_def ob_handle_def)
  have "ob_enabled s4 (StkSettles (Responds 200 (JsonText (JObj [])))) \<and> step s4 = 1 \<and>
        step (ob_handle s4 (StkSettles (Responds 200 (JsonText (JObj []))))) = 3"
    by (simp add: ob_enabled_def ob_handle_def s4_def s3_def s2_def s1_def prev_step_def
                  stk_succeeds_def res_ok_def)
  with r4 show ?thesis by blast
qed

lemma ob_steps_trans: "ob_steps s t \<Longrightarrow> ob_steps t u \<Longrightarrow> ob_steps s u"
  by (induction rule: ob_steps.induct) (auto intro: ob_steps.step)

lemma ob_step1: "ob_enabled s e \<Longrightarrow> ob_steps s (ob_handle s e)"
  by (blast intro: ob_steps.step ob_steps.refl)

lemma ob_complete_from_step2:
  assumes "step s = 2" and "\<not> loading s"
  shows "\<exists>t. ob_steps s t \<and> step t = 3"
proof -
  let ?ok = "StkSettles (Responds 200 (JsonText (JObj [])))"
  have "ob_steps s (ob_handle (ob_handle s ClickSendStk) ?ok)"
    using assms by (intro ob_steps_trans [OF ob_step1 ob_step1])
                   (simp_all add: ob_enabled_def ob_handle_def)
  moreover have "step (ob_handle (ob_handle s ClickSendStk) ?ok) = 3"
    by (simp add: ob_handle_def stk_succeeds_def res_ok_def)
  ultimately show ?thesis by blast
qed

text \<open>
  (C34) The wizard never gets stuck: from every reachable state, a run of
  enabled events (user clicks and handler completions, with the STK push
  answered 200) leads to step 3. This holds from every state that satisfies
  the wizard's invariant \<open>ob_inv\<close>, which every reachable state does.
\<close>

theorem ob_can_complete:
  assumes inv: "ob_inv s"
  shows "\<exists>t. ob_steps s t \<and> step t = 3"
proof -
  let ?ok = "StkSettles (Responds 200 (JsonText (JObj [])))"
  consider (finished) "step s = 3" | (reg) "pending s = Some RegisterWait"
    | (stk) b where "pending s = Some (StkFetch b)" | (idle1) "step s = 1" "\<not> loading s"
    | (idle2) "step s = 2" "\<not> loading s"
    using inv unfolding ob_inv_def by (cases "pending s"; cases "the (pending s)") auto
  then show ?thesis
  proof cases
    case finished
    then show ?thesis by (blast intro: ob_steps.refl)
  next
    case reg
    then have "ob_steps s (ob_handle s RegisterTimerFires)" by (simp add: ob_step1 ob_enabled_def)
    moreover have "\<exists>t. ob_steps (ob_handle s RegisterTimerFires) t \<and> step t = 3"
      by (rule ob_complete_from_step2) (simp_all add: ob_handle_def)
    ultimately show ?thesis by (blast intro: ob_steps_trans)
  next
    case stk
    then have "ob_steps s (ob_handle s ?ok)" by (simp add: ob_step1 ob_enabled_def)
    moreover have "step (ob_handle s ?ok) = 3" by (simp add: ob_handle_def stk_succeeds_def res_ok_def)
    ultimately show ?thesis by blast
  next
    case idle1
    then have "ob_steps s (ob_handle (ob_handle s ClickSave) RegisterTimerFires)"
      by (intro ob_steps_trans [OF ob_step1 ob_step1]) (simp_all add: ob_enabled_def ob_handle_def)
    moreover have "\<exists>t. ob_steps (ob_handle (ob_handle s ClickSave) RegisterTimerFires) t \<and> step t = 3"
      by (rule ob_complete_from_step2) (simp_all add: ob_handle_def)
    ultimately show ?thesis by (blast intro: ob_steps_trans)
  next
    case idle2
    then show ?thesis by (rule ob_complete_from_step2)
  qed
qed

theorem ob_can_complete_witness: "\<exists>t. ob_steps ob_init t \<and> step t = 3"
  using ob_can_complete [of ob_init] by (simp add: ob_inv_def ob_init_def)

end
