(* ===== verification/Site.thy ===== *)
theory Site
  imports Onboarding
begin

text \<open>
  The interactive parts of the web site under \<open>src/frontend/genv\<close>: the demo
  request form (\<open>src/app/demo/page.tsx\<close>), the copy button of the hero section
  (\<open>components/hero-section.tsx\<close>), the mobile menu of the header
  (\<open>components/header.tsx\<close>) and the engine tabs of the code demo
  (\<open>components/code-demo-section.tsx\<close>). The rest of the site renders
  constant content. Time is a clock in milliseconds; a \<open>setTimeout\<close> is a
  deadline on it, and letting time pass fires every timer whose deadline is
  reached.
\<close>

subsection \<open>Demo request form\<close>

record demo_form =
  form_name :: string
  form_email :: string
  form_company :: string
  form_role :: string
  form_message :: string

record demo_state =
  demo_status :: json           \<comment> \<open>what \<open>setStatus\<close> was last given; \<open>""\<close> renders nothing\<close>
  demo_fields :: demo_form

definition empty_demo_form :: demo_form where
  "empty_demo_form = \<lparr>form_name = [], form_email = [], form_company = [], form_role = [], form_message = []\<rparr>"

definition demo_submit_allowed :: "demo_form \<Rightarrow> bool" where
  \<comment> \<open>the \<open>required\<close> attributes of the name and email inputs\<close>
  "demo_submit_allowed f \<longleftrightarrow> form_name f \<noteq> [] \<and> form_email f \<noteq> []"

definition demo_payload :: "string option \<Rightarrow> demo_form \<Rightarrow> (string \<times> string) list" where
  \<comment> \<open>\<open>new FormData(form)\<close> in document order, then \<open>data.append("access_key", apiKey)\<close>\<close>
  "demo_payload key f =
     [(''name'', form_name f), (''email'', form_email f), (''company'', form_company f),
      (''role'', form_role f), (''message'', form_message f),
      (''access_key'', if js_truthy_str key then the key else [])]"

definition demo_onSubmit :: "fetch_outcome \<Rightarrow> demo_state \<Rightarrow> demo_state" where
  \<comment> \<open>the state once the handler has run to its end or thrown\<close>
  "demo_onSubmit out s =
     (let s0 = s\<lparr>demo_status := JStr []\<rparr> in
      case out of
        Responds st (JsonText JNull) \<Rightarrow> s0   \<comment> \<open>\<open>json.success\<close> on \<open>null\<close> throws a \<open>TypeError\<close>\<close>
      | Responds st (JsonText j) \<Rightarrow>
          (if (case json_get j ''success'' of Some v \<Rightarrow> js_truthy v | None \<Rightarrow> False)
           then s0\<lparr>demo_status := JStr ''Thanks! We'll reach out shortly.'', demo_fields := empty_demo_form\<rparr>
           else s0\<lparr>demo_status :=
                     (case json_get j ''message'' of
                        Some m \<Rightarrow> if js_truthy m then m else JStr ''Something went wrong. Please try again.''
                      | None \<Rightarrow> JStr ''Something went wrong. Please try again.'')\<rparr>)
      | _ \<Rightarrow> s0)"

definition demo_status_view :: "demo_state \<Rightarrow> json option" where
  \<comment> \<open>\<open>{status && <div ...>{status}</div>}\<close>\<close>
  "demo_status_view s = (if js_truthy (demo_status s) then Some (demo_status s) else None)"

subsection \<open>Copy button of the hero section\<close>

record copy_state =
  copied :: bool
  clock :: nat
  timers :: "nat list"          \<comment> \<open>deadlines of the pending \<open>setTimeout(() => setCopied(false), 2000)\<close>\<close>

definition handleCopy :: "copy_state \<Rightarrow> copy_state" where
  "handleCopy s = s\<lparr>copied := True, timers := timers s @ [clock s + 2000]\<rparr>"

definition advance :: "nat \<Rightarrow> copy_state \<Rightarrow> copy_state" where
  "advance d s =
     (let t = clock s + d in
      s\<lparr>clock := t,
        copied := copied s \<and> \<not> list_ex (\<lambda>x. x \<le> t) (timers s),
        timers := filter (\<lambda>x. t < x) (timers s)\<rparr>)"

definition copy_icon :: "copy_state \<Rightarrow> string" where
  "copy_icon s = (if copied s then ''Check'' else ''Copy'')"

subsection \<open>Header\<close>

definition nav_links :: "(string \<times> string) list" where
  \<comment> \<open>the desktop navigation, lines 69--101\<close>
  "nav_links = [(''#features'', ''Features''), (''#demo'', ''Demo''), (''/docs'', ''Docs''),
                (''/demo'', ''Request Demo''), (''#pricing'', ''Pricing'')]"

definition mobile_menu_links :: "bool \<Rightarrow> (string \<times> string) list" where
  \<comment> \<open>\<open>{mobileMenuOpen && ( ... )}\<close>, lines 109--153\<close>
  "mobile_menu_links mobileMenuOpen =
     (if mobileMenuOpen
      then [(''#features'', ''Features''), (''#demo'', ''Demo''), (''/docs'', ''Docs''),
            (''/demo'', ''Request Demo''), (''#pricing'', ''Pricing'')]
      else [])"

definition toggle_menu :: "bool \<Rightarrow> bool" where
  "toggle_menu mobileMenuOpen = (\<not> mobileMenuOpen)"

subsection \<open>Code demo tabs\<close>

definition tab_values :: "string list" where
  "tab_values = [''unity'', ''unreal'', ''javascript'']"

definition visible_panels :: "string \<Rightarrow> string list" where
  \<comment> \<open>the \<open>TabsContent\<close> whose value is the active tab is shown\<close>
  "visible_panels activeTab = filter (\<lambda>v. v = activeTab) tab_values"

inductive tab_reach :: "string \<Rightarrow> bool" where
  init: "tab_reach ''unity''"
| select: "tab_reach a \<Longrightarrow> v \<in> set tab_values \<Longrightarrow> tab_reach v"

subsection \<open>Properties\<close>

lemma mobile_menu_matches_nav: "mobile_menu_links True = nav_links" "mobile_menu_links False = []"
  by (simp_all add: mobile_menu_links_def nav_links_def)

lemma tab_reach_one_panel: "tab_reach a \<Longrightarrow> visible_panels a = [a]"
  by (induction rule: tab_reach.induct) (auto simp: visible_panels_def tab_values_def)

lemma demo_onSubmit_views:
  "demo_status_view (demo_onSubmit (FetchFails e) s) = None"
  "demo_status_view (demo_onSubmit (Responds st (JsonText JNull)) s) = None"
  "demo_status_view (demo_onSubmit (Responds st (JsonText (JObj [(''success'', JBool True)]))) s) =
     Some (JStr ''Thanks! We'll reach out shortly.'')"
  "demo_fields (demo_onSubmit (Responds st (JsonText (JObj [(''success'', JBool True)]))) s) = empty_demo_form"
  "demo_status_view (demo_onSubmit (Responds st (JsonText (JObj []))) s) =
     Some (JStr ''Something went wrong. Please try again.'')"
  by (simp_all add: demo_status_view_def demo_onSubmit_def)

text \<open>
  (C33) Each click of the copy button starts its own 2000 ms timer and none
  is cancelled: after a second click \<open>d\<close> ms after the first, the first timer
  still fires 2000 ms after the first click and turns the check mark back into
  the copy icon only \<open>2000 - d\<close> ms after the last click.
\<close>

theorem copy_check_cleared_early:
  assumes "timers s = []" and "0 < d" and "d < 2000"
  shows "copied (advance (2000 - d - 1) (handleCopy (advance d (handleCopy s)))) \<and>
         \<not> copied (advance (2000 - d) (handleCopy (advance d (handleCopy s)))) \<and>
         timers (advance (2000 - d) (handleCopy (advance d (handleCopy s)))) = [clock s + d + 2000]"
  using assms by (simp add: handleCopy_def advance_def)

theorem copy_check_cleared_early_witness:
  "copied (advance 1499 (handleCopy (advance 500 (handleCopy \<lparr>copied = False, clock = 0, timers = []\<rparr>)))) \<and>
   \<not> copied (advance 1500 (handleCopy (advance 500 (handleCopy \<lparr>copied = False, clock = 0, timers = []\<rparr>)))) \<and>
   timers (advance 1500 (handleCopy (advance 500 (handleCopy \<lparr>copied = False, clock = 0, timers = []\<rparr>)))) = [2500]"
  using copy_check_cleared_early [of "\<lparr>copied = False, clock = 0, timers = []\<rparr>" 500] by simp

end
