(* ===== verification/Marketing.thy ===== *)
theory Marketing
  imports Prelude
begin

text \<open>
  The data-driven sections of the landing page under
  \<open>src/frontend/genv/components\<close>: the pricing plans
  (\<open>pricing-section.tsx\<close>), the documentation categories
  (\<open>api-docs-section.tsx\<close>) and the feature cards (\<open>features-section.tsx\<close>).
  Each section is a constant array and a \<open>map\<close> that renders one card per
  element with \<open>key\<close> set to the element's name; React requires the keys of
  siblings to be distinct. An icon component is kept by its name. A rendered
  card is kept as its key and the text and classes that depend on the element.
\<close>

subsection \<open>Pricing\<close>

record plan =
  plan_name :: string
  plan_price :: string
  plan_period :: "string option"
  plan_description :: string
  plan_features :: "string list"
  plan_cta :: string
  plan_highlighted :: bool

definition plans :: "plan list" where
  "plans =
     [\<lparr>plan_name = ''Starter'', plan_price = ''Free'', plan_period = None,
       plan_description = ''Sandbox access for evaluation and POCs'',
       plan_features = [''Up to 25K test tx/mo'', ''Dashboard & basic analytics'', ''Unity, Unreal, Godot SDKs'',
                        ''API keys & webhooks'', ''Email support (business hours)''],
       plan_cta = ''Get Started'', plan_highlighted = False\<rparr>,
      \<lparr>plan_name = ''Professional'', plan_price = ''$399'', plan_period = Some ''/month'',
       plan_description = ''For live games scaling across regions'',
       plan_features = [''Up to 5M tx/mo'', ''Advanced analytics & alerts'', ''Priority support (SLA 8x5)'',
                        ''KYC tooling & ledgers'', ''Custom mint/burn policies'', ''Premium webhooks''],
       plan_cta = ''Get Started'', plan_highlighted = True\<rparr>,
      \<lparr>plan_name = ''Enterprise'', plan_price = ''Custom'', plan_period = None,
       plan_description = ''For AAA studios and platform partners'',
       plan_features = [''Unlimited tx & dedicated infra'', ''Compliance & audits'', ''SLA 99.99% & 24/7 support'',
                        ''Custom integrations & SSO'', ''On-prem / VPC deployment'', ''Solutions engineering''],
       plan_cta = ''Get Started'', plan_highlighted = False\<rparr>]"

record plan_card =
  card_key :: string
  card_class :: string
  card_badge :: "string option"
  card_price :: string
  card_button_class :: string
  card_button_target :: string
  card_feature_keys :: "string list"

definition render_plan :: "plan \<Rightarrow> plan_card" where
  \<comment> \<open>the body of \<open>plans.map((plan) => ...)\<close>\<close>
  "render_plan p =
     \<lparr>card_key = plan_name p,
      card_class = ''p-8 bg-card/50 backdrop-blur '' @
        (if plan_highlighted p then ''border-neon-blue shadow-lg shadow-neon-blue/20 scale-105'' else ''border-border/50''),
      card_badge = (if plan_highlighted p then Some ''Most Popular'' else None),
      card_price = plan_price p @ (case plan_period p of None \<Rightarrow> [] | Some q \<Rightarrow> q),
      card_button_class = ''w-full mb-8 '' @
        (if plan_highlighted p then ''bg-neon-blue text-primary-foreground hover:bg-neon-blue/90 neon-border''
         else ''bg-secondary text-secondary-foreground hover:bg-secondary/80''),
      card_button_target = ''/onboarding'',
      card_feature_keys = plan_features p\<rparr>"

definition PricingSection :: "plan_card list" where
  "PricingSection = map render_plan plans"

subsection \<open>Documentation categories and features\<close>

record info_card =
  info_icon :: string
  info_title :: string
  info_description :: string
  info_color :: string

definition docCategories :: "info_card list" where
  "docCategories =
     [\<lparr>info_icon = ''Book'', info_title = ''Getting Started'',
       info_description = ''Quick start guides and tutorials'', info_color = ''text-neon-blue''\<rparr>,
      \<lparr>info_icon = ''Code2'', info_title = ''API Reference'',
       info_description = ''Complete API documentation'', info_color = ''text-neon-purple''\<rparr>,
      \<lparr>info_icon = ''Rocket'', info_title = ''Integration Guides'',
       info_description = ''Engine-specific implementations'', info_color = ''text-neon-gold''\<rparr>,
      \<lparr>info_icon = ''MessageSquare'', info_title = ''Community Support'',
       info_description = ''Discord, forums, and examples'', info_color = ''text-neon-blue''\<rparr>]"

definition features :: "info_card list" where
  "features =
     [\<lparr>info_icon = ''Zap'', info_title = ''Lightning Fast Integration'',
       info_description = ''Get up and running in under 5 minutes with our intuitive SDK. No blockchain expertise required.'',
       info_color = ''text-neon-blue''\<rparr>,
      \<lparr>info_icon = ''Shield'', info_title = ''Enterprise Security'',
       info_description = ''Bank-grade encryption and multi-signature wallets keep your game economy secure and compliant.'',
       info_color = ''text-neon-purple''\<rparr>,
      \<lparr>info_icon = ''Boxes'', info_title = ''Multi-Engine Support'',
       info_description = ''Works seamlessly with Unity, Unreal Engine, Godot, and custom game engines.'',
       info_color = ''text-neon-gold''\<rparr>,
      \<lparr>info_icon = ''Gauge'', info_title = ''Real-Time Analytics'',
       info_description = ''Monitor token flows, player behavior, and economy health with our powerful dashboard.'',
       info_color = ''text-neon-blue''\<rparr>,
      \<lparr>info_icon = ''Coins'', info_title = ''Flexible Token Models'',
       info_description = ''Support for fungible tokens, NFTs, and hybrid economies. Your game, your rules.'',
       info_color = ''text-neon-purple''\<rparr>,
      \<lparr>info_icon = ''Globe'', info_title = ''Global Scalability'',
       info_description = ''Built on enterprise infrastructure to handle millions of transactions per second.'',
       info_color = ''text-neon-gold''\<rparr>]"

definition render_info_card :: "info_card \<Rightarrow> string \<times> string \<times> string" where
  \<comment> \<open>\<open>key={x.title}\<close> and the icon box's class \<open>inline-flex p-3 rounded-lg bg-secondary/50 mb-4 ${x.color}\<close>\<close>
  "render_info_card c = (info_title c, ''inline-flex p-3 rounded-lg bg-secondary/50 mb-4 '' @ info_color c, info_icon c)"

definition ApiDocsSection :: "(string \<times> string \<times> string) list" where
  "ApiDocsSection = map render_info_card docCategories"

definition FeaturesSection :: "(string \<times> string \<times> string) list" where
  "FeaturesSection = map render_info_card features"

definition react_keys_ok :: "string list \<Rightarrow> bool" where
  "react_keys_ok ks \<longleftrightarrow> distinct ks"

subsection \<open>Properties of the rendered sections\<close>

lemma pricing_keys_unique:
  "react_keys_ok (map card_key PricingSection) \<and> list_all (\<lambda>c. react_keys_ok (card_feature_keys c)) PricingSection"
  by (simp add: react_keys_ok_def PricingSection_def plans_def render_plan_def)

lemma pricing_one_badge: "length (filter (\<lambda>c. card_badge c \<noteq> None) PricingSection) = 1"
  by (simp add: PricingSection_def plans_def render_plan_def)

lemma pricing_prices: "map card_price PricingSection = [''Free'', ''$399/month'', ''Custom'']"
  by (simp add: PricingSection_def plans_def render_plan_def)

lemma info_sections_keys_unique:
  "react_keys_ok (map fst ApiDocsSection) \<and> react_keys_ok (map fst FeaturesSection)"
  by (simp add: react_keys_ok_def ApiDocsSection_def FeaturesSection_def docCategories_def features_def
                render_info_card_def)

end
