(* ===== verification/Pages.thy ===== *)
theory Pages
  imports Site Marketing
begin

text \<open>
  The pages of the web site under \<open>src/frontend/genv\<close> as the links, anchors
  and list keys they render: the home page (\<open>src/app/page.tsx\<close>) and its
  sections, the documentation page (\<open>src/app/docs/page.tsx\<close>) with its code
  snippets, the code examples of the code demo, the dashboard preview and the
  buttons' \<open>cva\<close> class table. A section is kept as its \<open>id\<close> (the target of
  an in-page \<open>#\<close> link), the \<open>href\<close>s it renders and the keys of each list
  it renders with \<open>map\<close>. A code snippet (a template literal) is kept as its
  lines.
\<close>

subsection \<open>Buttons\<close>

datatype btn_variant = BtnDefault | BtnDestructive | BtnOutline | BtnSecondary | BtnGhost | BtnLink

datatype btn_size = SizeDefault | SizeSm | SizeLg | SizeIcon | SizeIconSm | SizeIconLg

definition button_base :: string where
  "button_base = ''inline-flex items-center justify-center gap-2 whitespace-nowrap rounded-md text-sm font-medium transition-all disabled:pointer-events-none disabled:opacity-50 [&_svg]:pointer-events-none [&_svg:not([class*='size-'])]:size-4 shrink-0 [&_svg]:shrink-0 outline-none focus-visible:border-ring focus-visible:ring-ring/50 focus-visible:ring-[3px] aria-invalid:ring-destructive/20 dark:aria-invalid:ring-destructive/40 aria-invalid:border-destructive''"

fun variant_class :: "btn_variant \<Rightarrow> string" where
  "variant_class BtnDefault = ''bg-primary text-primary-foreground hover:bg-primary/90''"
| "variant_class BtnDestructive = ''bg-destructive text-white hover:bg-destructive/90 focus-visible:ring-destructive/20 dark:focus-visible:ring-destructive/40 dark:bg-destructive/60''"
| "variant_class BtnOutline = ''border bg-background shadow-xs hover:bg-accent hover:text-accent-foreground dark:bg-input/30 dark:border-input dark:hover:bg-input/50''"
| "variant_class BtnSecondary = ''bg-secondary text-secondary-foreground hover:bg-secondary/80''"
| "variant_class BtnGhost = ''hover:bg-accent hover:text-accent-foreground dark:hover:bg-accent/50''"
| "variant_class BtnLink = ''text-primary underline-offset-4 hover:underline''"

fun size_class :: "btn_size \<Rightarrow> string" where
  "size_class SizeDefault = ''h-9 px-4 py-2 has-[>svg]:px-3''"
| "size_class SizeSm = ''h-8 rounded-md gap-1.5 px-3 has-[>svg]:px-2.5''"
| "size_class SizeLg = ''h-10 rounded-md px-6 has-[>svg]:px-4''"
| "size_class SizeIcon = ''size-9''"
| "size_class SizeIconSm = ''size-8''"
| "size_class SizeIconLg = ''size-10''"

fun space_join :: "string list \<Rightarrow> string" where
  "space_join [] = []"
| "space_join [x] = x"
| "space_join (x # xs) = x @ '' '' @ space_join xs"

definition buttonVariants :: "btn_variant option \<Rightarrow> btn_size option \<Rightarrow> string option \<Rightarrow> string" where
  \<comment> \<open>\<open>buttonVariants({ variant, size, className })\<close>: the base, the chosen or default
      variant and size, then the caller's classes, the empty ones dropped, joined by spaces\<close>
  "buttonVariants v sz cls =
     space_join (filter (\<lambda>c. c \<noteq> [])
       [button_base, variant_class (case v of None \<Rightarrow> BtnDefault | Some x \<Rightarrow> x),
        size_class (case sz of None \<Rightarrow> SizeDefault | Some x \<Rightarrow> x),
        (case cls of None \<Rightarrow> [] | Some c \<Rightarrow> c)])"

subsection \<open>Sections of the home page\<close>

record page_section =
  sec_id :: "string option"          \<comment> \<open>\<open><section id=...>\<close>\<close>
  sec_links :: "string list"         \<comment> \<open>the \<open>href\<close>s, in document order\<close>
  sec_keys :: "string list list"     \<comment> \<open>the keys of each list rendered with \<open>map\<close>\<close>

definition HeroSection_view :: page_section where
  "HeroSection_view = \<lparr>sec_id = None, sec_links = [''/onboarding'', ''/docs''], sec_keys = []\<rparr>"

definition companies :: "string list" where
  "companies = [''Epic Games'', ''Unity Studios'', ''Riot Games'', ''Supercell'', ''Activision'', ''EA Sports'']"

definition TrustedBySection_view :: page_section where
  "TrustedBySection_view = \<lparr>sec_id = None, sec_links = [], sec_keys = [companies]\<rparr>"

definition FeaturesSection_view :: page_section where
  "FeaturesSection_view = \<lparr>sec_id = Some ''features'', sec_links = [], sec_keys = [map fst FeaturesSection]\<rparr>"

definition CodeDemoSection_view :: page_section where
  "CodeDemoSection_view = \<lparr>sec_id = Some ''demo'', sec_links = [], sec_keys = []\<rparr>"

record stat_card =
  stat_label :: string
  stat_icon :: string
  stat_value :: string
  stat_note :: string
  stat_color :: string

definition dashboard_stats :: "stat_card list" where
  "dashboard_stats =
     [\<lparr>stat_label = ''Total Transactions'', stat_icon = ''TrendingUp'', stat_value = ''2.4M'',
       stat_note = ''+12.5% from last month'', stat_color = ''text-neon-blue''\<rparr>,
      \<lparr>stat_label = ''Active Players'', stat_icon = ''Users'', stat_value = ''847K'',
       stat_note = ''+8.2% from last month'', stat_color = ''text-neon-purple''\<rparr>,
      \<lparr>stat_label = ''Tokens Minted'', stat_icon = ''Coins'', stat_value = ''156M'',
       stat_note = ''+23.1% from last month'', stat_color = ''text-neon-gold''\<rparr>,
      \<lparr>stat_label = ''API Uptime'', stat_icon = ''Activity'', stat_value = ''99.99%'',
       stat_note = ''Last 30 days'', stat_color = ''text-neon-blue''\<rparr>]"

definition chart_heights :: "nat list" where
  "chart_heights = [40, 65, 45, 80, 55, 90, 70, 85, 60, 95, 75, 88]"

definition chart_bars :: "(string \<times> string) list" where
  \<comment> \<open>\<open>.map((height, i) => <div key={i}> ... style={{ height: `${height}%` }}\<close>: key and height\<close>
  "chart_bars = map (\<lambda>(h, i). (show_nat i, show_nat h @ ''%'')) (zip chart_heights [0..<length chart_heights])"

definition chart_months :: "string list" where
  "chart_months = [''Jan'', ''Feb'', ''Mar'', ''Apr'', ''May'', ''Jun'', ''Jul'', ''Aug'', ''Sep'', ''Oct'', ''Nov'', ''Dec'']"

definition DashboardPreview_view :: page_section where
  "DashboardPreview_view = \<lparr>sec_id = None, sec_links = [], sec_keys = [map fst chart_bars]\<rparr>"

definition ApiDocsSection_view :: page_section where
  "ApiDocsSection_view = \<lparr>sec_id = Some ''docs'', sec_links = [''/docs''], sec_keys = [map fst ApiDocsSection]\<rparr>"

definition PricingSection_view :: page_section where
  "PricingSection_view =
     \<lparr>sec_id = Some ''pricing'', sec_links = map card_button_target PricingSection,
      sec_keys = map card_key PricingSection # map card_feature_keys PricingSection\<rparr>"

definition Header_links :: "bool \<Rightarrow> string list" where
  \<comment> \<open>the desktop navigation, its Get Started button, then the mobile menu when it is open\<close>
  "Header_links mobileMenuOpen =
     map fst nav_links @ [''/onboarding''] @ map fst (mobile_menu_links mobileMenuOpen) @
     (if mobileMenuOpen then [''/onboarding''] else [])"

definition Page :: "page_section list" where
  "Page = [HeroSection_view, TrustedBySection_view, FeaturesSection_view, CodeDemoSection_view,
           DashboardPreview_view, ApiDocsSection_view, PricingSection_view]"

subsection \<open>Documentation page\<close>

definition DocsPage_nav :: "(string \<times> string) list" where
  "DocsPage_nav =
     [(''#getting-started'', ''Getting Started''), (''#onboarding'', ''Onboarding & Initial Deposit''),
      (''#backend'', ''Backend Setup''), (''#sdk-js'', ''SDK: JavaScript''), (''#sdk-unity'', ''SDK: Unity (C#)''),
      (''#sdk-unreal'', ''SDK: Unreal (C++)''), (''#sdk-godot'', ''SDK: Godot (GDScript)'')]"

definition DocsPage_sections :: "(string \<times> string) list" where
  \<comment> \<open>\<open><section id=...>\<close> and its heading\<close>
  "DocsPage_sections =
     [(''getting-started'', ''Getting Started''), (''onboarding'', ''Onboarding & Initial Deposit''),
      (''backend'', ''Backend Setup''), (''sdk-js'', ''SDK: JavaScript''), (''sdk-unity'', ''SDK: Unity (C#)''),
      (''sdk-unreal'', ''SDK: Unreal (C++)''), (''sdk-godot'', ''SDK: Godot (GDScript)'')]"

definition DocsPage_links :: "string list" where
  "DocsPage_links = map fst DocsPage_nav @ [''/onboarding'']"

definition DocsPage_endpoints :: "(http_method \<times> string \<times> string) list" where
  \<comment> \<open>the list of endpoints consumed by the SDKs: method, path, remark\<close>
  "DocsPage_endpoints =
     [(POST, ''/v1/tokens/mint'', ''server API key required''),
      (POST, ''/v1/tokens/transfer'', ''optional, server-initiated''),
      (GET, ''/v1/wallets/:playerId/balance?address=0x...'', []),
      (POST, ''/v1/deposits/initiate-stk'', ''public, onboarding'')]"

definition DocsPage_backend_snippet :: "string list" where
  "DocsPage_backend_snippet = [
      ''cd backend'',
      ''npm install'',
      ''# set env: RPC_URL, TOKEN_ADDRESS, GENZ_MINTER_PRIVATE_KEY, ADMIN_API_KEY'',
      ''# PRETIUM_BASE_URL, PRETIUM_API_KEY, SQLITE_PATH (optional)'',
      ''npm run dev'',
      '''',
      ''# Health'',
      ''curl http://localhost:8080/v1/health'',
      '''']"

definition DocsPage_js_snippet :: "string list" where
  "DocsPage_js_snippet = [
      ''npm install @genz/sdk'',
      '''',
      (''import { GenZSDK } from '@genz/sdk'' @ [CHR 0x27]),
      '''',
      ''const sdk = new GenZSDK({ baseUrl: process.env.GENZ_API_URL!, apiKey: process.env.GENZ_API_KEY! })'',
      ''await sdk.initialize()'',
      '''',
      ''await sdk.tokens.mint({ playerId: 'player_123', amount: 100, reason: 'quest' })'',
      ''const bal = await sdk.tokens.balance('player_123')'',
      ''console.log(bal.balance)'',
      '''']"

definition DocsPage_unity_snippet :: "string list" where
  "DocsPage_unity_snippet = [
      ''using GenZ;'',
      '''',
      ''var sdk = new GenZSDK(new GenZOptions {'',
      ''  BaseUrl = \"https://api.genz.example.com\",'',
      ''  ApiKey = \"YOUR_API_KEY\"'',
      ''});'',
      ''await sdk.Initialize();'',
      ''await sdk.Tokens.Mint(\"player_123\", 100, \"quest\");'',
      '''']"

definition DocsPage_unreal_snippet :: "string list" where
  "DocsPage_unreal_snippet = [
      ''#include \"GenZSDK.h\"'',
      '''',
      ''FGenZOptions Options;'',
      ''Options.BaseUrl = TEXT(\"https://api.genz.example.com\");'',
      ''Options.ApiKey = TEXT(\"YOUR_API_KEY\");'',
      ''auto* SDK = UGenZSDK::Create(Options);'',
      ''SDK->Initialize();'',
      ''SDK->Mint(TEXT(\"player_123\"), 100);'',
      '''']"

definition DocsPage_godot_snippet :: "string list" where
  "DocsPage_godot_snippet = [
      ''var sdk := GenZSDK.new(\"https://api.genz.example.com\", \"YOUR_API_KEY\")'',
      ''await sdk.initialize()'',
      ''var res = await sdk.mint(\"player_123\", 100, \"quest\")'',
      '''']"

subsection \<open>Code examples of the code demo\<close>

record code_examples =
  ex_unity :: "string list"
  ex_unreal :: "string list"
  ex_javascript :: "string list"

definition codeExamples :: code_examples where
  "codeExamples =
   \<lparr>ex_unity = [
      ''// Initialize GenZ Token SDK in Unity'',
      ''using GenZ;'',
      '''',
      ''public class TokenManager : MonoBehaviour '',
      ''{'',
      ''    private GenZSDK sdk;'',
      ''    '',
      ''    void Start() '',
      ''    {'',
      ''        sdk = new GenZSDK(\"your-api-key\");'',
      ''        await sdk.Initialize();'',
      ''    }'',
      ''    '',
      ''    // Award tokens to player'',
      ''    public async void RewardPlayer(string playerId, int amount) '',
      ''    {'',
      ''        var result = await sdk.Tokens.Mint('',
      ''            playerId, '',
      ''            amount,'',
      ''            \"level_completion\"'',
      ''        );'',
      ''        '',
      ''        if (result.Success) '',
      ''        {'',
      ''            Debug.Log($\"Awarded {amount} tokens!\");'',
      ''        }'',
      ''    }'',
      ''}''],
    ex_unreal = [
      ''// Initialize GenZ Token SDK in Unreal Engine'',
      ''#include \"GenZSDK.h\"'',
      '''',
      ''void ATokenManager::BeginPlay()'',
      ''{'',
      ''    Super::BeginPlay();'',
      ''    '',
      ''    SDK = UGenZSDK::Create(\"your-api-key\");'',
      ''    SDK->Initialize();'',
      ''}'',
      '''',
      ''// Transfer tokens between players'',
      ''void ATokenManager::TransferTokens('',
      ''    FString FromPlayer, '',
      ''    FString ToPlayer, '',
      ''    int32 Amount'',
      '')'',
      ''{'',
      ''    SDK->Tokens->Transfer('',
      ''        FromPlayer,'',
      ''        ToPlayer,'',
      ''        Amount,'',
      ''        [](FTokenResult Result) {'',
      ''            if (Result.bSuccess) {'',
      ''                UE_LOG(LogTemp, Log, TEXT(\"Transfer complete!\"));'',
      ''            }'',
      ''        }'',
      ''    );'',
      ''}''],
    ex_javascript = [
      ''// Initialize GenZ Token SDK in JavaScript'',
      ''import { GenZSDK } from '@genz/sdk';'',
      '''',
      ''const sdk = new GenZSDK({'',
      ''  apiKey: 'your-api-key','',
      (''  environment: 'production'' @ [CHR 0x27]),
      ''});'',
      '''',
      ''await sdk.initialize();'',
      '''',
      ''// Create a new token economy'',
      ''const economy = await sdk.economy.create({'',
      ''  name: 'Gold Coins','',
      ''  symbol: 'GOLD','',
      ''  initialSupply: 1000000,'',
      ''  decimals: 2'',
      ''});'',
      '''',
      ''// Mint tokens to player wallet'',
      ''const result = await sdk.tokens.mint({'',
      ''  playerId: 'player_123','',
      ''  amount: 100,'',
      (''  reason: 'quest_completion'' @ [CHR 0x27]),
      ''});'',
      '''',
      ''console.log('Tokens minted:', result.transactionId);'']\<rparr>"

subsection \<open>Properties\<close>

lemma buttonVariants_defaults:
  "buttonVariants None None cls = buttonVariants (Some BtnDefault) (Some SizeDefault) cls"
  "buttonVariants v sz (Some []) = buttonVariants v sz None"
  by (simp_all add: buttonVariants_def)

lemma chart_one_bar_per_month:
  "map fst chart_bars = map show_nat [0..<12] \<and> length chart_bars = length chart_months \<and>
   list_all (\<lambda>h. 0 < h \<and> h \<le> 100) chart_heights"
  by (simp add: chart_bars_def chart_heights_def chart_months_def upt_rec)

lemma home_keys_unique: "list_all (\<lambda>s. list_all react_keys_ok (sec_keys s)) Page"
proof -
  have "react_keys_ok (map fst chart_bars)"
    by (simp add: react_keys_ok_def chart_bars_def chart_heights_def upt_rec show_nat.simps)
  then show ?thesis
    using pricing_keys_unique info_sections_keys_unique
    by (simp add: Page_def HeroSection_view_def TrustedBySection_view_def FeaturesSection_view_def
                  CodeDemoSection_view_def DashboardPreview_view_def ApiDocsSection_view_def
                  PricingSection_view_def companies_def react_keys_ok_def list_all_iff)
qed

lemma docs_nav_matches_sections: "map (\<lambda>(h, t). (drop 1 h, t)) DocsPage_nav = DocsPage_sections"
  by (simp add: DocsPage_nav_def DocsPage_sections_def)


end
