(* ===== verification/Spec2Isabelle.thy ===== *)
theory Spec2Isabelle
  imports JsFacade CsFacade Backend Pages
begin

text \<open>
  \<^bold>\<open>GenZ Token SDK: a verification development.\<close>

  The repository holds a client SDK in two languages, the backend it talks
  to, and a web site. The SDKs wrap every call in a resilient request client
  (retries with exponential backoff, a per-attempt timeout, error
  classification) under a typed facade (mint, transfer, balance, info); the
  backend is an Express application that checks an API key, validates bodies
  with zod, mints on chain, and records deposits and mints in SQLite; the web
  site's onboarding wizard posts STK-push deposits to the backend. Each part
  is modelled as a shallow embedding of its source, with the outside world
  (network, clock, random numbers, chain, database) as an explicit
  environment.

  \<^bold>\<open>Theories and the code they model.\<close>
  \<^item> \<open>Prelude\<close>: decimal printing, results paired with event traces
    (\<open>prepend\<close>), word and real-number facts shared by the loops.
  \<^item> \<open>JsValues\<close>: JSON values, \<open>json?.x\<close>, \<open>== null\<close>, JavaScript numbers,
    and the rounding of a mathematical integer to a double
    (\<open>js_number_of_nat\<close>: nearest, ties to even, \<open>Infinity\<close> from \<open>2^1024\<close>).
  \<^item> \<open>Backoff\<close>: \<open>HttpClient.backoffMs\<close> (\<open>src/sdk/js/src/index.ts\<close>) and
    \<open>GenZSDK.BackoffMs\<close> (\<open>src/sdk/unity/GenZSDK.cs\<close>, 32-bit \<open>int\<close>).
  \<^item> \<open>RetryPolicy\<close>: the abstract contract of one call (spec section 4.1) as an
    inductive step relation \<open>policy_step\<close> with reachability and invariant.
  \<^item> \<open>JsClient\<close>: \<open>HttpClient\<close> of the JS SDK. One loop iteration is
    \<open>loop_body\<close> (the \<open>try\<close> block; its \<open>catch\<close> is \<open>catch_clause\<close>), the
    \<open>for\<close> loop is \<open>request_loop\<close>, the call is \<open>request\<close>; the trace records
    timers, fetches and sleeps. \<open>abs_call\<close> maps a run to \<open>RetryPolicy\<close>.
  \<^item> \<open>JsFacade\<close>, \<open>UriEncode\<close>: \<open>TokensApi\<close>, \<open>EconomyApi\<close>, \<open>GenZSDK\<close> of the JS
    SDK; \<open>encodeURIComponent\<close> and \<open>Uri.EscapeDataString\<close> with decoding.
  \<^item> \<open>CsClient\<close>, \<open>CsFacade\<close>: \<open>GenZSDK.RequestWithRetry\<close> (\<open>cs_body\<close>,
    \<open>catch_canceled\<close>, \<open>catch_http\<close>, \<open>task_delay\<close>, \<open>cs_loop\<close>) and the
    Unity calls that compile (\<open>Balance\<close>, \<open>Info\<close>, \<open>Initialize\<close>). An
    \<open>await\<close> that never completes (\<open>Task.Delay(-1)\<close>, or \<open>SendAsync\<close> to a
    silent server under an infinite \<open>HttpClient.Timeout\<close>) ends the call with a
    marker that no \<open>catch\<close> clause sees; \<open>cs_returns\<close> excludes the markers.
  \<^item> \<open>Ledger\<close>, \<open>Pretium\<close>, \<open>Backend\<close>: \<open>services/ledger.ts\<close> (tables as row
    lists, \<open>INSERT OR REPLACE\<close>), \<open>services/pretiumClient.ts\<close>, and the
    middleware, route handlers and \<open>app\<close> of \<open>src/backend/src\<close>, including
    the strict \<open>express.json\<close> body parser.
  \<^item> \<open>Onboarding\<close>: the wizard page as an event system (\<open>ob_enabled\<close>,
    \<open>ob_handle\<close>, \<open>ob_reach\<close>); async handlers are split at their \<open>await\<close>s;
    \<open>status_line\<close> is what the step-2 block renders of the status.
  \<^item> \<open>Site\<close>, \<open>Marketing\<close>: the demo form, the hero copy button (timers on a
    millisecond clock), the header menu, the code tabs, and the data-driven
    pricing, documentation and feature sections.
  \<^item> \<open>Pages\<close>: the pages as the links, section ids and list keys they render
    (\<open>src/app/page.tsx\<close> with its sections, \<open>src/app/docs/page.tsx\<close>), the
    dashboard preview, the buttons' \<open>cva\<close> class table, and the code snippets
    of the documentation page and the code demo, kept line by line.
  \<^item> This theory: the exchange between an SDK and the backend
    (\<open>backend_view\<close>, \<open>reply_to_fetch\<close>) and the properties that span parts.

  \<^bold>\<open>What is proved.\<close> For the JS client: exact attempt counts for 5xx and
  4xx answers, the bound of \<open>maxRetries + 1\<close> attempts, refinement of the
  abstract policy, balanced timers, bounded latency, the stale-error path for
  every fractional \<open>maxRetries\<close>, and that a body \<open>JSON.parse\<close> rejects ends
  the call at once with a \<open>SyntaxError\<close> where the policy would retry. For the
  Unity client: 4xx are retried, the backoff overflows at attempt 23 and makes
  \<open>Task.Delay\<close> throw, a negative budget sends nothing, every call with a
  finite timeout returns after at most \<open>MaxRetries + 1\<close> requests, and a call
  with the accepted \<open>TimeoutMs = -1\<close> to a silent server never returns. For the
  facades: fail-fast validation and the exact request sent. For the backend:
  the API-key condition, unauthenticated webhook deposits, lost ledger rows
  for same-millisecond mints, that no request the API-key middleware refuses
  changes the mints table or mints on chain, that a mint answered 500 after
  the chain mined it is minted again when retried, that minting never
  consults the recorded deposits, that a redelivered webhook event keeps one
  row for a string id but adds a row per delivery for a \<open>null\<close> id, and that
  a rejected handler leaves the state unchanged. For the Pretium client: one
  request per payout, its timer always cleared. For the frontend: the
  wizard's invariant (including that its STK success message is never
  displayed), that it can always be completed, its step 1 to 3 jump, that the
  deposit field round-trips every integer amount up to \<open>2^53\<close> in magnitude
  through \<open>parseInt\<close>, and the stale copy timer. Across parts: every SDK mint
  is rejected by the backend's schema and every SDK balance call by the
  missing \<open>address\<close> query parameter, every endpoint the documentation page
  lists is served with the key requirement it states, the two SDKs retry an
  all-5xx server with the same attempts and delays, the two SDKs' balance
  paths differ exactly on \<open>! * ' ( )\<close>, and the wizard reaches step 3 exactly
  for inputs the deposit schema accepts, when the page can read the
  backend's reply.

  \<^bold>\<open>Bounds.\<close> Loops are \<open>function\<close>s with measures: the JS loop runs while
  \<open>attempt \<le> maxRetries\<close> for a real \<open>maxRetries\<close> (measure
  \<open>\<lfloor>maxRetries\<rfloor> + 1 - attempt\<close>), the C\# loop while \<open>attempt \<le> MaxRetries\<close>.
  No fuel is needed: the only unbounded waits are single \<open>await\<close>s, which the
  C\# model ends with a marker value. The C\# delays agree with the JS
  schedule for attempts up to 22 (\<open>300 * 2^22 + 199 < 2^31\<close>); attempt 23 is
  the first that wraps, \<open>(int)Math.Pow(2, a)\<close> beyond 30 is unspecified in C\#
  (modelled as an error), and no delay is ever \<open>-1\<close> (a multiple of 256 plus a
  jitter below 200). Jitter draws are below 200, as \<open>Math.random\<close> and
  \<open>Random.Range(0, 200)\<close> guarantee. Integers typed into the deposit field
  are exact up to \<open>2^53\<close>, the largest power of two below which every integer
  is a double.

  \<^bold>\<open>Not modelled.\<close> \<open>TokensApi.Mint\<close> and \<open>TokensApi.Transfer\<close> of the
  Unity SDK do not compile: their interpolated bodies (\<open>GenZSDK.cs\<close> lines 128
  and 137) open with an unescaped \<open>{\<close>, the start of an interpolation hole, so
  there is no behaviour to model; the rest of the file is modelled as it
  would run once those two lines are fixed. \<open>routes/health.js\<close> is imported
  but not in the sources; its route follows the wire contract. Express's
  case-insensitive routing and array-valued query parameters, \<open>helmet\<close> and
  \<open>morgan\<close>, and SQLite's type affinity are left out. The backend mounts no
  CORS middleware, so a page served from another origin (the onboarding page
  with \<open>NEXT_PUBLIC_BACKEND_URL\<close> set to another host) cannot read its
  replies; the cross-part wizard property assumes the reply reaches the page.
  The code snippets shown on the site are kept as text; they are not
  executed. The Card and Tabs wrappers only hand their classes to \<open>cn\<close> of
  \<open>lib/utils\<close>, and the home page's \<open>Footer\<close> comes from
  \<open>components/footer\<close>; neither file is in the repository, so class merging
  and the footer's links are not modelled. Headings and paragraphs are
  constant text and are not kept; \<open>router.back()\<close> leaves the page.
  \<open>Dispose\<close> of the Unity SDK has no observable effect in the model.
\<close>

subsection \<open>The SDKs talking to the backend\<close>

text \<open>
  The HTTP exchange between an SDK and the backend: the backend sees the path
  below the SDK's base URL, the header names in lower case (as Node delivers
  them) and the JSON body; the SDK sees the status and the body text. A
  handler whose promise rejects writes no reply; the connection then ends
  without a response the SDK could read, which \<open>fetch\<close> reports as a failure.
\<close>

definition ascii_lower :: "char \<Rightarrow> char" where
  "ascii_lower c = (let n = (of_char c :: nat) in if 65 \<le> n \<and> n \<le> 90 then char_of (n + 32) else c)"

definition backend_view :: "string \<Rightarrow> http_request \<Rightarrow> srv_request" where
  "backend_view base rq =
     \<lparr>rq_method = req_method rq, rq_path = drop (length base) (req_url rq), rq_query = [],
      rq_headers = map (\<lambda>(n, v). (map ascii_lower n, v)) (req_headers rq),
      rq_body = (case req_body rq of None \<Rightarrow> NoBody | Some j \<Rightarrow> JsonBody j)\<rparr>"

definition reply_to_fetch :: "srv_reply \<Rightarrow> fetch_outcome" where
  "reply_to_fetch r =
     (case r of
        Reply st j \<Rightarrow> Responds st (JsonText j)
      | HtmlReply st \<Rightarrow> Responds st MalformedText
      | Rejected e \<Rightarrow> FetchFails (Exn ''TypeError'' None))"

definition sdk_request :: "http_client \<Rightarrow> http_method \<Rightarrow> string \<Rightarrow> json option \<Rightarrow> http_request" where
  \<comment> \<open>the request \<open>HttpClient.request\<close> sends on every attempt\<close>
  "sdk_request c m path body =
     \<lparr>req_method = m, req_url = baseUrl c @ path,
      req_headers = request_headers (apiKey c), req_body = request_payload body\<rparr>"

definition invalid_mint_reply :: json where
  \<comment> \<open>the 400 body the backend sends for every mint body the JS SDK builds\<close>
  "invalid_mint_reply =
     JObj [(''message'', JStr ''Invalid body''),
           (''issues'', JArr [JObj [(''path'', JArr [JStr ''userId''])], JObj [(''path'', JArr [JStr ''to''])],
                             JObj [(''path'', JArr [JStr ''amountWei''])]])]"

definition stk_backend_request :: "json \<Rightarrow> srv_request" where
  \<comment> \<open>the onboarding page's \<open>fetch(`${base}/v1/deposits/initiate-stk`, ...)\<close>, as the backend sees it\<close>
  "stk_backend_request body =
     \<lparr>rq_method = POST, rq_path = ''/v1/deposits/initiate-stk'', rq_query = [],
      rq_headers = [(''content-type'', ''application/json'')], rq_body = JsonBody body\<rparr>"

text \<open>
  The documentation page lists the endpoints the SDKs consume as strings such as
  \<open>GET /v1/wallets/:playerId/balance?address=0x...\<close>; \<open>doc_request\<close> reads
  one entry as the request a reader would send: the route parameter filled in,
  the query string split off, no body, and the given \<open>Authorization\<close> header.
\<close>

fun subst_param :: "bool \<Rightarrow> string \<Rightarrow> string" where
  "subst_param skip [] = []"
| "subst_param skip (c # cs) =
     (if c = CHR '':'' then ''player_123'' @ subst_param True cs
      else if skip \<and> c \<noteq> CHR ''/'' then subst_param True cs
      else c # subst_param False cs)"

definition doc_path :: "string \<Rightarrow> string" where
  "doc_path p = subst_param False (takeWhile (\<lambda>x. x \<noteq> CHR ''?'') p)"

definition doc_query :: "string \<Rightarrow> (string \<times> string) list" where
  "doc_query p =
     (case dropWhile (\<lambda>x. x \<noteq> CHR ''?'') p of
        [] \<Rightarrow> []
      | _ # q \<Rightarrow> [(takeWhile (\<lambda>x. x \<noteq> CHR ''='') q, drop 1 (dropWhile (\<lambda>x. x \<noteq> CHR ''='') q))])"

definition doc_request :: "string option \<Rightarrow> http_method \<times> string \<times> string \<Rightarrow> srv_request" where
  "doc_request auth e =
     (case e of (m, p, _) \<Rightarrow>
       \<lparr>rq_method = m, rq_path = doc_path p, rq_query = doc_query p,
        rq_headers = (case auth of None \<Rightarrow> [] | Some a \<Rightarrow> [(''authorization'', a)]), rq_body = NoBody\<rparr>)"

subsection \<open>Lemmas\<close>

lemma sdk_headers_backend:
  "k \<noteq> [] \<Longrightarrow>
   map_of (map (\<lambda>(n, v). (map ascii_lower n, v)) (request_headers (Some k))) ''authorization'' = Some (''Bearer '' @ k)"
  by (simp add: request_headers_def ascii_lower_def char_of_def bit_simps)

lemma request_sdk_request: "request c env m path body = request_loop c env (sdk_request c m path body) None 0"
  by (simp add: request_def sdk_request_def)

lemma schema_mint_body: "schema_issues MintSchema (mint_body req) = [''userId'', ''to'', ''amountWei'']"
  by (cases "mint_reason req")
     (simp_all add: schema_issues_def MintSchema_def mint_body_def z_string_min_def z_digits_def z_optional_string_def)

lemma strict_mint_body [simp]: "strict_json_body (JsonBody (mint_body req))"
  by (simp add: mint_body_def)

lemma backend_rejects_sdk_mint:
  assumes "ADMIN_API_KEY (cfg env) = Some k" and "k \<noteq> []" and "apiKey http = Some k"
  shows "app env (backend_view (baseUrl http) (sdk_request http POST ''/v1/tokens/mint'' (Some (mint_body req)))) s =
         (Reply 400 invalid_mint_reply, s)"
proof -
  have "request_payload (Some (mint_body req)) = Some (mint_body req)"
    by (simp add: request_payload_def mint_body_def)
  moreover have "apiKeyAuth (cfg env) (Some (''Bearer '' @ k)) = None"
    using assms(1,2) by (simp add: apiKeyAuth_def)
  ultimately show ?thesis
    using assms sdk_headers_backend [OF assms(2)]
    by (simp add: app_def backend_view_def sdk_request_def mount_rest_def tokensRouter_def route_is_def
                  or_404_def post_mint_def schema_mint_body invalid_body_def invalid_mint_reply_def)
qed

lemma backend_stk_reply:
  "fst (app env (stk_backend_request (stk_body c d)) srv) =
     (if 9 \<le> length (contactPhone c) \<and> (\<exists>r. d = JsNum r \<and> 0 < r)
      then Reply 200 (JObj [(''status'', JStr ''initiated''), (''reference'', JStr (''stk_'' @ show_nat (now env)))])
      else invalid_body (schema_issues StkSchema (stk_body c d)))"
  by (cases d)
     (auto simp: app_def stk_backend_request_def mount_rest_def depositsRouter_def route_is_def or_404_def
                 post_initiate_stk_def stk_body_def schema_issues_def StkSchema_def z_string_min_def
                 z_positive_number_def)

lemma request_loop_4xx_first:
  assumes "fetch_at jenv 0 = Responds st (JsonText j)" and "\<not> res_ok st" and "st < 500"
    and "0 \<le> maxRetries c"
  shows "request_loop c jenv rq None 0 =
         (Inl (http_error_of st (Some j)), [ArmTimer 0 (timeoutMs c), Fetch 0 rq, ClearTimer 0, ClearTimer 0])"
proof -
  have "loop_body c jenv rq None 0 =
        (Done (Inl (http_error_of st (Some j))), [ArmTimer 0 (timeoutMs c), Fetch 0 rq, ClearTimer 0, ClearTimer 0])"
    using assms(1-3) by (simp add: body_defs)
  then show ?thesis using assms(4) by (simp add: request_loop_done)
qed

lemma backend_rejects_sdk_balance:
  assumes "ADMIN_API_KEY (cfg env) = Some k" and "k \<noteq> []" and "apiKey http = Some k" and "p \<noteq> []"
  shows "app env (backend_view (baseUrl http) (sdk_request http GET (balance_path p) None)) s =
         (Reply 400 (message ''address query param required''), s)"
proof -
  have "apiKeyAuth (cfg env) (Some (''Bearer '' @ k)) = None"
    using assms(1,2) by (simp add: apiKeyAuth_def)
  moreover have "walletsRouter env GET (''/'' @ encodeURIComponent p @ ''/balance'') [] =
                 Some (Reply 400 (message ''address query param required''))"
    using assms(4)
    by (simp add: walletsRouter_def balance_param_segment encodeURIComponent_no_slash encodeURIComponent_decode
                  get_balance_def js_truthy_str_def)
  ultimately show ?thesis
    using assms sdk_headers_backend [OF assms(2)]
    by (simp add: app_def backend_view_def sdk_request_def balance_path_def mount_rest_def or_404_def
                  request_payload_def)
qed

text \<open>
  Every endpoint of the documentation page is served by the backend: without a
  key, mint, transfer and balance are refused with 401 and the STK push (marked
  public) reaches its schema check; with the configured key none is answered
  404 or 401.
\<close>

lemma docs_endpoints_routed:
  assumes "ADMIN_API_KEY (cfg env) = Some k" and "k \<noteq> []"
  shows "map (\<lambda>e. reply_status (fst (app env (doc_request None e) s))) DocsPage_endpoints =
           [Some 401, Some 401, Some 401, Some 400] \<and>
         list_all (\<lambda>e. reply_status (fst (app env (doc_request (Some (''Bearer '' @ k)) e) s)) \<noteq> Some 404 \<and>
                       reply_status (fst (app env (doc_request (Some (''Bearer '' @ k)) e) s)) \<noteq> Some 401)
           DocsPage_endpoints"
  using assms
  by (simp add: DocsPage_endpoints_def doc_request_def doc_path_def doc_query_def app_def mount_rest_def apiKeyAuth_def
                tokensRouter_def walletsRouter_def depositsRouter_def route_is_def or_404_def balance_param_def
                post_mint_def post_transfer_def post_initiate_stk_def get_balance_def Let_def
                schema_issues_def MintSchema_def TransferSchema_def StkSchema_def invalid_body_def
                z_string_min_def z_digits_def z_optional_string_def z_positive_number_def
                js_truthy_str_def message_def split: chain_mint.split sum.split)

text \<open>
  (C12) The two SDKs request the same balance URL for a player id exactly when
  the id contains none of \<open>! * ' ( )\<close>: \<open>encodeURIComponent\<close> keeps these five
  characters, \<open>Uri.EscapeDataString\<close> percent-encodes them.
\<close>

theorem balance_paths_agree_iff:
  "balance_path_cs p = balance_path p \<longleftrightarrow> list_all (\<lambda>c. c \<notin> set ''!*()'' \<and> c \<noteq> CHR 0x27) p"
proof -
  have "balance_path_cs p = balance_path p \<longleftrightarrow> list_all (\<lambda>c. rfc3986_unreserved c = js_unreserved c) p"
    by (simp add: balance_path_cs_def balance_path_def EscapeDataString_def encodeURIComponent_def
                  percent_encode_eq_iff)
  also have "\<dots> \<longleftrightarrow> list_all (\<lambda>c. c \<notin> set ''!*()'' \<and> c \<noteq> CHR 0x27) p"
  proof -
    have "(rfc3986_unreserved c = js_unreserved c) = (c \<notin> set ''!*()'' \<and> c \<noteq> CHR 0x27)" for c
      using js_rfc3986_unreserved_iff [of c] by blast
    then show ?thesis by (simp only:)
  qed
  finally show ?thesis .
qed

theorem balance_paths_agree_iff_witness:
  "balance_path_cs ''a(b)'' \<noteq> balance_path ''a(b)'' \<and> balance_path_cs ''p-1'' = balance_path ''p-1''"
  using balance_paths_agree_iff [of "''a(b)''"] balance_paths_agree_iff [of "''p-1''"] by simp

text \<open>
  (C13) The two SDKs retry a failing server alike: against a server that
  answers the same 5xx status to every attempt, with the same budget
  \<open>k \<le> 22\<close> and the same jitter draws, the Unity SDK sends requests 0 to k and
  waits the same delays between them as the JS SDK. (Beyond attempt 22 the
  Unity delay overflows; for 4xx the two differ, the Unity SDK retrying.)
\<close>

theorem sdks_agree_on_5xx:
  assumes "maxRetries c = real k" and "MaxRetries opts = int k" and "k \<le> 22" and "BaseUrl opts = Some u"
    and "500 \<le> st" and "parse_body bt = Inr j"
    and "\<forall>n \<le> k. fetch_at jenv n = Responds st bt" and "\<forall>n \<le> k. send_at cenv n = CsResponds st resp"
    and "\<forall>n. range_at cenv n = jitter_at jenv n" and "\<forall>n. jitter_at jenv n < 200"
    and "\<forall>n. \<not> canceled_at cenv n"
  shows "cs_sends (snd (RequestWithRetry opts cenv cm path cbody)) = attempts (snd (request c jenv m path body)) \<and>
         cs_delays (snd (RequestWithRetry opts cenv cm path cbody)) = map int (sleeps (snd (request c jenv m path body)))"
proof -
  let ?rq = "sdk_request c m path body"
  have js: "attempts (snd (request_loop c jenv ?rq None 0)) = [0..<Suc k]"
    using loop_5xx [OF assms(1,5,6), of 0 jenv ?rq None] assms(7) by auto
  have jsl: "sleeps (snd (request_loop c jenv ?rq None 0)) = map (\<lambda>i. backoffMs i (jitter_at jenv i)) [0..<k]"
    using loop_sleeps [OF assms(1), of jenv ?rq None 0] js by simp
  have cs: "cs_sends (snd (cs_loop opts cenv \<lparr>cs_method = cm, cs_url = trim_end_slash u @ path,
              cs_headers = cs_headers_of (ApiKey opts), cs_content = cbody\<rparr> 0)) = [0..<Suc k] \<and>
            cs_delays (snd (cs_loop opts cenv \<lparr>cs_method = cm, cs_url = trim_end_slash u @ path,
              cs_headers = cs_headers_of (ApiKey opts), cs_content = cbody\<rparr> 0)) =
              map (\<lambda>i. int (backoffMs i (range_at cenv i))) [0..<k]"
    using assms(2,3,5,8,10,11) assms(9) by (intro cs_loop_5xx) auto
  show ?thesis
    using js jsl cs assms(4,9) by (simp add: RequestWithRetry_loop request_sdk_request)
qed

theorem sdks_agree_on_5xx_witness:
  "cs_sends (snd (RequestWithRetry \<lparr>BaseUrl = Some ''https://api.genz.example'', ApiKey = Some ''k'', TimeoutMs = 10000, MaxRetries = 2\<rparr> \<lparr>send_at = \<lambda>_. CsResponds 503 ''busy'', range_at = \<lambda>_. 42, canceled_at = \<lambda>_. False\<rparr> Get ''/v1/economy'' None)) =
     attempts (snd (request (new_HttpClient \<lparr>opt_baseUrl = ''https://api.genz.example'', opt_apiKey = Some ''k'', opt_timeoutMs = None, opt_maxRetries = None\<rparr>) \<lparr>fetch_at = \<lambda>_. Responds 503 EmptyText, jitter_at = \<lambda>_. 42\<rparr> GET ''/v1/economy'' None)) \<and>
   cs_delays (snd (RequestWithRetry \<lparr>BaseUrl = Some ''https://api.genz.example'', ApiKey = Some ''k'', TimeoutMs = 10000, MaxRetries = 2\<rparr> \<lparr>send_at = \<lambda>_. CsResponds 503 ''busy'', range_at = \<lambda>_. 42, canceled_at = \<lambda>_. False\<rparr> Get ''/v1/economy'' None)) =
     map int (sleeps (snd (request (new_HttpClient \<lparr>opt_baseUrl = ''https://api.genz.example'', opt_apiKey = Some ''k'', opt_timeoutMs = None, opt_maxRetries = None\<rparr>) \<lparr>fetch_at = \<lambda>_. Responds 503 EmptyText, jitter_at = \<lambda>_. 42\<rparr> GET ''/v1/economy'' None)))"
  using sdks_agree_on_5xx [of "new_HttpClient \<lparr>opt_baseUrl = ''https://api.genz.example'', opt_apiKey = Some ''k'', opt_timeoutMs = None, opt_maxRetries = None\<rparr>" 2
      "\<lparr>BaseUrl = Some ''https://api.genz.example'', ApiKey = Some ''k'', TimeoutMs = 10000, MaxRetries = 2\<rparr>"
      "''https://api.genz.example''" 503 EmptyText None "\<lparr>fetch_at = \<lambda>_. Responds 503 EmptyText, jitter_at = \<lambda>_. 42\<rparr>"
      "\<lparr>send_at = \<lambda>_. CsResponds 503 ''busy'', range_at = \<lambda>_. 42, canceled_at = \<lambda>_. False\<rparr>" "''busy''"
      Get "''/v1/economy''" None GET None]
  by (simp add: new_HttpClient_def)

text \<open>
  (C28) The JS SDK and the backend disagree on the mint body: the SDK sends
  \<open>{playerId, amount, reason?}\<close> (the wire contract), the backend's schema
  requires \<open>{userId, to, amountWei}\<close>. With a correctly configured key, every
  mint the SDK accepts is answered 400 "Invalid body", which the SDK does not
  retry: the call fails after one request.
\<close>

theorem sdk_mint_rejected_by_backend:
  assumes "ADMIN_API_KEY (cfg env) = Some k" and "k \<noteq> []" and "apiKey http = Some k"
    and "0 \<le> maxRetries http"
    and "mint_playerId req \<noteq> []" and "js_is_finite (mint_amount req)" and "\<not> js_le_zero (mint_amount req)"
    and "fetch_at jenv 0 = reply_to_fetch (fst (app env
           (backend_view (baseUrl http) (sdk_request http POST ''/v1/tokens/mint'' (Some (mint_body req)))) s))"
  shows "fst (mint http jenv req) = Inl (RequestError (http_error_of 400 (Some invalid_mint_reply))) \<and>
         attempts (snd (mint http jenv req)) = [0]"
proof -
  let ?rq = "sdk_request http POST ''/v1/tokens/mint'' (Some (mint_body req))"
  have f: "fetch_at jenv 0 = Responds 400 (JsonText invalid_mint_reply)"
    using assms(8) backend_rejects_sdk_mint [OF assms(1-3)] by (simp add: reply_to_fetch_def)
  have "request_loop http jenv ?rq None 0 =
        (Inl (http_error_of 400 (Some invalid_mint_reply)),
         [ArmTimer 0 (timeoutMs http), Fetch 0 ?rq, ClearTimer 0, ClearTimer 0])"
    using request_loop_4xx_first [OF f _ _ assms(4)] by (simp add: res_ok_def)
  then show ?thesis
    using assms(5-7) by (simp add: mint_def lift_request_def request_sdk_request)
qed

theorem sdk_mint_rejected_by_backend_witness:
  "fst (mint (new_HttpClient \<lparr>opt_baseUrl = ''https://api.genz.example'', opt_apiKey = Some ''k3y'', opt_timeoutMs = None, opt_maxRetries = None\<rparr>) \<lparr>fetch_at = \<lambda>_. reply_to_fetch (fst (app \<lparr>cfg = \<lparr>ADMIN_API_KEY = Some ''k3y'', RPC_URL = Some ''http://rpc'', TOKEN_ADDRESS = Some ''0xT'', GENZ_MINTER_PRIVATE_KEY = Some ''0xK'', PRETIUM_BASE_URL = None, PRETIUM_API_KEY = None\<rparr>, now = 0, db_error = None, chain_mint_at = MintMined None, balance_of = \<lambda>_. Inr 0\<rparr> (backend_view ''https://api.genz.example'' (sdk_request (new_HttpClient \<lparr>opt_baseUrl = ''https://api.genz.example'', opt_apiKey = Some ''k3y'', opt_timeoutMs = None, opt_maxRetries = None\<rparr>) POST ''/v1/tokens/mint'' (Some (mint_body \<lparr>mint_playerId = ''p1'', mint_amount = JsNum 5, mint_reason = Some ''quest''\<rparr>)))) \<lparr>srv_ledger = empty_ledger, chain_mints = []\<rparr>)), jitter_at = \<lambda>_. 0\<rparr> \<lparr>mint_playerId = ''p1'', mint_amount = JsNum 5, mint_reason = Some ''quest''\<rparr>) = Inl (RequestError (http_error_of 400 (Some invalid_mint_reply))) \<and>
   attempts (snd (mint (new_HttpClient \<lparr>opt_baseUrl = ''https://api.genz.example'', opt_apiKey = Some ''k3y'', opt_timeoutMs = None, opt_maxRetries = None\<rparr>) \<lparr>fetch_at = \<lambda>_. reply_to_fetch (fst (app \<lparr>cfg = \<lparr>ADMIN_API_KEY = Some ''k3y'', RPC_URL = Some ''http://rpc'', TOKEN_ADDRESS = Some ''0xT'', GENZ_MINTER_PRIVATE_KEY = Some ''0xK'', PRETIUM_BASE_URL = None, PRETIUM_API_KEY = None\<rparr>, now = 0, db_error = None, chain_mint_at = MintMined None, balance_of = \<lambda>_. Inr 0\<rparr> (backend_view ''https://api.genz.example'' (sdk_request (new_HttpClient \<lparr>opt_baseUrl = ''https://api.genz.example'', opt_apiKey = Some ''k3y'', opt_timeoutMs = None, opt_maxRetries = None\<rparr>) POST ''/v1/tokens/mint'' (Some (mint_body \<lparr>mint_playerId = ''p1'', mint_amount = JsNum 5, mint_reason = Some ''quest''\<rparr>)))) \<lparr>srv_ledger = empty_ledger, chain_mints = []\<rparr>)), jitter_at = \<lambda>_. 0\<rparr> \<lparr>mint_playerId = ''p1'', mint_amount = JsNum 5, mint_reason = Some ''quest''\<rparr>)) = [0]"
  using sdk_mint_rejected_by_backend [of "\<lparr>cfg = \<lparr>ADMIN_API_KEY = Some ''k3y'', RPC_URL = Some ''http://rpc'', TOKEN_ADDRESS = Some ''0xT'', GENZ_MINTER_PRIVATE_KEY = Some ''0xK'', PRETIUM_BASE_URL = None, PRETIUM_API_KEY = None\<rparr>, now = 0, db_error = None, chain_mint_at = MintMined None, balance_of = \<lambda>_. Inr 0\<rparr>" "''k3y''" "new_HttpClient \<lparr>opt_baseUrl = ''https://api.genz.example'', opt_apiKey = Some ''k3y'', opt_timeoutMs = None, opt_maxRetries = None\<rparr>" "\<lparr>mint_playerId = ''p1'', mint_amount = JsNum 5, mint_reason = Some ''quest''\<rparr>" "\<lparr>fetch_at = \<lambda>_. reply_to_fetch (fst (app \<lparr>cfg = \<lparr>ADMIN_API_KEY = Some ''k3y'', RPC_URL = Some ''http://rpc'', TOKEN_ADDRESS = Some ''0xT'', GENZ_MINTER_PRIVATE_KEY = Some ''0xK'', PRETIUM_BASE_URL = None, PRETIUM_API_KEY = None\<rparr>, now = 0, db_error = None, chain_mint_at = MintMined None, balance_of = \<lambda>_. Inr 0\<rparr> (backend_view ''https://api.genz.example'' (sdk_request (new_HttpClient \<lparr>opt_baseUrl = ''https://api.genz.example'', opt_apiKey = Some ''k3y'', opt_timeoutMs = None, opt_maxRetries = None\<rparr>) POST ''/v1/tokens/mint'' (Some (mint_body \<lparr>mint_playerId = ''p1'', mint_amount = JsNum 5, mint_reason = Some ''quest''\<rparr>)))) \<lparr>srv_ledger = empty_ledger, chain_mints = []\<rparr>)), jitter_at = \<lambda>_. 0\<rparr>" "\<lparr>srv_ledger = empty_ledger, chain_mints = []\<rparr>"]
  by (simp add: new_HttpClient_def strip_trailing_slash_def)

text \<open>
  (C29) The JS SDK and the backend disagree on the balance query: the wallets
  route answers 400 unless the request carries an \<open>address\<close> query parameter
  (as the documentation page's endpoint list says), and the SDK's
  \<open>balance(playerId)\<close> never sends one. With a correctly configured key, every
  balance call the SDK accepts is answered 400 "address query param required",
  which the SDK does not retry.
\<close>

theorem sdk_balance_rejected_by_backend:
  assumes "ADMIN_API_KEY (cfg env) = Some k" and "k \<noteq> []" and "apiKey http = Some k"
    and "0 \<le> maxRetries http" and "p \<noteq> []"
    and "fetch_at jenv 0 = reply_to_fetch (fst (app env
           (backend_view (baseUrl http) (sdk_request http GET (balance_path p) None)) s))"
  shows "fst (balance http jenv p) =
           Inl (RequestError (http_error_of 400 (Some (message ''address query param required'')))) \<and>
         attempts (snd (balance http jenv p)) = [0]"
proof -
  have f: "fetch_at jenv 0 = Responds 400 (JsonText (message ''address query param required''))"
    using assms(6) backend_rejects_sdk_balance [OF assms(1-3,5)] by (simp add: reply_to_fetch_def)
  have "request_loop http jenv (sdk_request http GET (balance_path p) None) None 0 =
             (Inl (http_error_of 400 (Some (message ''address query param required''))),
              [ArmTimer 0 (timeoutMs http), Fetch 0 (sdk_request http GET (balance_path p) None), ClearTimer 0, ClearTimer 0])"
    using request_loop_4xx_first [OF f _ _ assms(4)] by (simp add: res_ok_def)
  then show ?thesis
    using assms(5) by (simp add: balance_def lift_request_def request_sdk_request)
qed

theorem sdk_balance_rejected_by_backend_witness:
  "fst (balance (new_HttpClient \<lparr>opt_baseUrl = ''https://api.genz.example'', opt_apiKey = Some ''k3y'', opt_timeoutMs = None, opt_maxRetries = None\<rparr>) \<lparr>fetch_at = \<lambda>_. reply_to_fetch (fst (app \<lparr>cfg = \<lparr>ADMIN_API_KEY = Some ''k3y'', RPC_URL = Some ''http://rpc'', TOKEN_ADDRESS = Some ''0xT'', GENZ_MINTER_PRIVATE_KEY = Some ''0xK'', PRETIUM_BASE_URL = None, PRETIUM_API_KEY = None\<rparr>, now = 0, db_error = None, chain_mint_at = MintMined None, balance_of = \<lambda>_. Inr 7\<rparr> (backend_view ''https://api.genz.example'' (sdk_request (new_HttpClient \<lparr>opt_baseUrl = ''https://api.genz.example'', opt_apiKey = Some ''k3y'', opt_timeoutMs = None, opt_maxRetries = None\<rparr>) GET (balance_path ''player 1'') None)) \<lparr>srv_ledger = empty_ledger, chain_mints = []\<rparr>)), jitter_at = \<lambda>_. 0\<rparr> ''player 1'') =
     Inl (RequestError (http_error_of 400 (Some (message ''address query param required'')))) \<and>
   attempts (snd (balance (new_HttpClient \<lparr>opt_baseUrl = ''https://api.genz.example'', opt_apiKey = Some ''k3y'', opt_timeoutMs = None, opt_maxRetries = None\<rparr>) \<lparr>fetch_at = \<lambda>_. reply_to_fetch (fst (app \<lparr>cfg = \<lparr>ADMIN_API_KEY = Some ''k3y'', RPC_URL = Some ''http://rpc'', TOKEN_ADDRESS = Some ''0xT'', GENZ_MINTER_PRIVATE_KEY = Some ''0xK'', PRETIUM_BASE_URL = None, PRETIUM_API_KEY = None\<rparr>, now = 0, db_error = None, chain_mint_at = MintMined None, balance_of = \<lambda>_. Inr 7\<rparr> (backend_view ''https://api.genz.example'' (sdk_request (new_HttpClient \<lparr>opt_baseUrl = ''https://api.genz.example'', opt_apiKey = Some ''k3y'', opt_timeoutMs = None, opt_maxRetries = None\<rparr>) GET (balance_path ''player 1'') None)) \<lparr>srv_ledger = empty_ledger, chain_mints = []\<rparr>)), jitter_at = \<lambda>_. 0\<rparr> ''player 1'')) = [0]"
  using sdk_balance_rejected_by_backend [of "\<lparr>cfg = \<lparr>ADMIN_API_KEY = Some ''k3y'', RPC_URL = Some ''http://rpc'', TOKEN_ADDRESS = Some ''0xT'', GENZ_MINTER_PRIVATE_KEY = Some ''0xK'', PRETIUM_BASE_URL = None, PRETIUM_API_KEY = None\<rparr>, now = 0, db_error = None, chain_mint_at = MintMined None, balance_of = \<lambda>_. Inr 7\<rparr>" "''k3y''" "new_HttpClient \<lparr>opt_baseUrl = ''https://api.genz.example'', opt_apiKey = Some ''k3y'', opt_timeoutMs = None, opt_maxRetries = None\<rparr>" "''player 1''" "\<lparr>fetch_at = \<lambda>_. reply_to_fetch (fst (app \<lparr>cfg = \<lparr>ADMIN_API_KEY = Some ''k3y'', RPC_URL = Some ''http://rpc'', TOKEN_ADDRESS = Some ''0xT'', GENZ_MINTER_PRIVATE_KEY = Some ''0xK'', PRETIUM_BASE_URL = None, PRETIUM_API_KEY = None\<rparr>, now = 0, db_error = None, chain_mint_at = MintMined None, balance_of = \<lambda>_. Inr 7\<rparr> (backend_view ''https://api.genz.example'' (sdk_request (new_HttpClient \<lparr>opt_baseUrl = ''https://api.genz.example'', opt_apiKey = Some ''k3y'', opt_timeoutMs = None, opt_maxRetries = None\<rparr>) GET (balance_path ''player 1'') None)) \<lparr>srv_ledger = empty_ledger, chain_mints = []\<rparr>)), jitter_at = \<lambda>_. 0\<rparr>" "\<lparr>srv_ledger = empty_ledger, chain_mints = []\<rparr>"]
  by (simp add: new_HttpClient_def strip_trailing_slash_def)

text \<open>
  (C32) Onboarding and backend together: from step 2, the STK push moves the
  wizard to step 3 exactly when the phone number has at least 9 characters and
  the amount is a positive number. An amount field the user cleared or filled
  with text gives \<open>parseInt\<close> 0 or \<open>NaN\<close>, \<open>JSON.stringify\<close> writes \<open>NaN\<close> as
  \<open>null\<close>, the backend answers 400, and the wizard stays on step 2 with no
  message (the handler throws after resetting \<open>loading\<close>). The hypothesis that
  the page's fetch settles with the backend's reply holds when the page and
  the backend share an origin: the backend sends no CORS headers, so a page
  on another origin sees a failed fetch instead.
\<close>

theorem onboarding_stk_with_backend:
  assumes "step s = 2" and "\<not> loading s"
    and "out = reply_to_fetch (fst (app env (stk_backend_request (stk_body (company s) (depositAmount s))) srv))"
  shows "step (ob_handle (ob_handle s ClickSendStk) (StkSettles out)) = 3 \<longleftrightarrow>
         9 \<le> length (contactPhone (company s)) \<and> (\<exists>r. depositAmount s = JsNum r \<and> 0 < r)"
  using assms
  by (auto simp: ob_handle_def backend_stk_reply reply_to_fetch_def stk_succeeds_def res_ok_def invalid_body_def)

theorem onboarding_stk_with_backend_witness:
  "step (ob_handle (ob_handle (ob_init\<lparr>step := 2, company := (company ob_init)\<lparr>contactPhone := ''0712345678''\<rparr>\<rparr>) ClickSendStk)
     (StkSettles (reply_to_fetch (fst (app \<lparr>cfg = \<lparr>ADMIN_API_KEY = None, RPC_URL = None, TOKEN_ADDRESS = None, GENZ_MINTER_PRIVATE_KEY = None, PRETIUM_BASE_URL = None, PRETIUM_API_KEY = None\<rparr>, now = 0, db_error = None, chain_mint_at = MintMined None, balance_of = \<lambda>_. Inr 0\<rparr> (stk_backend_request (stk_body (company (ob_init\<lparr>step := 2, company := (company ob_init)\<lparr>contactPhone := ''0712345678''\<rparr>\<rparr>)) (depositAmount (ob_init\<lparr>step := 2, company := (company ob_init)\<lparr>contactPhone := ''0712345678''\<rparr>\<rparr>)))) \<lparr>srv_ledger = empty_ledger, chain_mints = []\<rparr>))))) = 3 \<and>
   step (ob_handle (ob_handle (ob_handle (ob_init\<lparr>step := 2, company := (company ob_init)\<lparr>contactPhone := ''0712345678''\<rparr>\<rparr>) (EditDeposit ''abc'')) ClickSendStk)
     (StkSettles (reply_to_fetch (fst (app \<lparr>cfg = \<lparr>ADMIN_API_KEY = None, RPC_URL = None, TOKEN_ADDRESS = None, GENZ_MINTER_PRIVATE_KEY = None, PRETIUM_BASE_URL = None, PRETIUM_API_KEY = None\<rparr>, now = 0, db_error = None, chain_mint_at = MintMined None, balance_of = \<lambda>_. Inr 0\<rparr> (stk_backend_request (stk_body (company (ob_handle (ob_init\<lparr>step := 2, company := (company ob_init)\<lparr>contactPhone := ''0712345678''\<rparr>\<rparr>) (EditDeposit ''abc''))) (depositAmount (ob_handle (ob_init\<lparr>step := 2, company := (company ob_init)\<lparr>contactPhone := ''0712345678''\<rparr>\<rparr>) (EditDeposit ''abc''))))) \<lparr>srv_ledger = empty_ledger, chain_mints = []\<rparr>))))) \<noteq> 3"
  using onboarding_stk_with_backend [of "ob_init\<lparr>step := 2, company := (company ob_init)\<lparr>contactPhone := ''0712345678''\<rparr>\<rparr>" _ "\<lparr>cfg = \<lparr>ADMIN_API_KEY = None, RPC_URL = None, TOKEN_ADDRESS = None, GENZ_MINTER_PRIVATE_KEY = None, PRETIUM_BASE_URL = None, PRETIUM_API_KEY = None\<rparr>, now = 0, db_error = None, chain_mint_at = MintMined None, balance_of = \<lambda>_. Inr 0\<rparr>" "\<lparr>srv_ledger = empty_ledger, chain_mints = []\<rparr>"] onboarding_stk_with_backend [of "ob_handle (ob_init\<lparr>step := 2, company := (company ob_init)\<lparr>contactPhone := ''0712345678''\<rparr>\<rparr>) (EditDeposit ''abc'')" _ "\<lparr>cfg = \<lparr>ADMIN_API_KEY = None, RPC_URL = None, TOKEN_ADDRESS = None, GENZ_MINTER_PRIVATE_KEY = None, PRETIUM_BASE_URL = None, PRETIUM_API_KEY = None\<rparr>, now = 0, db_error = None, chain_mint_at = MintMined None, balance_of = \<lambda>_. Inr 0\<rparr>" "\<lparr>srv_ledger = empty_ledger, chain_mints = []\<rparr>"]
  by (simp add: ob_init_def ob_handle_def parseInt_def is_js_space_def is_digit_def)

end
